theory Spec2Isabelle
  imports Complex_Main "HOL-Library.AList" "HOL-Library.Char_ord" "HOL-Library.List_Lexorder"
    "HOL-Library.Log_Nat" "HOL-Library.Product_Lexorder"
begin

section \<open>JavaScript values at the public boundary\<close>

text \<open>
  The engine is written in JavaScript. Option values and the arguments of
  \<open>trackEvent\<close> are arbitrary JavaScript values, so the validation code is
  modelled over a small value type. A JavaScript number is a finite value,
  one of the two infinities, or NaN. A finite number is the rational it
  denotes.
\<close>

datatype jsnum = Fin rat | PosInf | NegInf | NaN

datatype jsval =
    JUndefined
  | JNull
  | JBool bool
  | JNum jsnum
  | JStr string
  | JObject
  | JFunction

text \<open>The \<open>typeof\<close> operator.\<close>

fun typeof :: "jsval \<Rightarrow> string" where
  "typeof JUndefined = ''undefined''"
| "typeof JNull = ''object''"
| "typeof (JBool _) = ''boolean''"
| "typeof (JNum _) = ''number''"
| "typeof (JStr _) = ''string''"
| "typeof JObject = ''object''"
| "typeof JFunction = ''function''"

text \<open>
  The three error classes the engine throws. \<open>ProcessorFailed n m\<close> is the
  \<open>Error\<close> that \<open>processDeferredEvents\<close> builds after the last attempt, with
  the message \<open>Processor callback failed after n attempts: m\<close>.
\<close>

datatype error =
    TypeError string
  | RangeError string
  | Error string
  | ProcessorFailed rat string
  | Unmodelled


section \<open>Numbers of the engine\<close>

text \<open>
  Inside the engine (timestamps, counters, tuning parameters, token levels)
  every number is a finite JavaScript number, modelled as the rational it
  denotes. Timestamps and counters are whole numbers, and on them the
  additions and comparisons of the engine are exact. Where the source divides
  by a parameter that is zero, JavaScript produces an infinity or NaN; the
  model returns \<open>Inl Unmodelled\<close> there instead of HOL's \<open>x / 0 = 0\<close>.
\<close>

subsection \<open>Rounding to a double\<close>

text \<open>
  A JavaScript number, and a Lua number inside Redis, is an IEEE 754 double:
  a significand of 53 bits and a least exponent of \<open>-1022\<close>. Each of \<open>+\<close>,
  \<open>-\<close>, \<open>*\<close> and \<open>/\<close> returns the double nearest to the exact result, a
  tie going to the even significand. The token bucket computes with
  fractions of a token and of a millisecond, so there every operation is
  followed by this rounding; the weighted count of the sliding window is
  kept as the exact rational. A result of magnitude \<open>2^1024\<close> or more is an
  infinity in JavaScript; like every infinity it is outside the model, which
  keeps the number rounded to 53 bits.
\<close>

text \<open>The power \<open>2^k\<close> for an integer \<open>k\<close>.\<close>

definition pow2 :: "int \<Rightarrow> rat" where
  "pow2 k = (if 0 \<le> k then 2 ^ nat k else 1 / 2 ^ nat (- k))"

text \<open>
  The binary exponent of \<open>x > 0\<close>: the \<open>e\<close> with \<open>2^e \<le> x < 2^(e + 1)\<close>. It
  is the difference \<open>d\<close> of the bit lengths of numerator and denominator, or
  one less.
\<close>

definition ilog2 :: "rat \<Rightarrow> int" where
  "ilog2 x =
     (let d = bitlen (fst (quotient_of x)) - bitlen (snd (quotient_of x))
      in if pow2 d \<le> x then d else d - 1)"

text \<open>The integer nearest to \<open>y\<close>, the even one of two equally near.\<close>

definition round_half_even :: "rat \<Rightarrow> int" where
  "round_half_even y =
     (let f = \<lfloor>y\<rfloor>;
          r = y - of_int f
      in if r < 1 / 2 then f
         else if 1 / 2 < r then f + 1
         else if even f then f else f + 1)"

text \<open>
  The double nearest to \<open>x\<close>. The spacing of the doubles around \<open>x\<close> is
  \<open>2^(e - 52)\<close>, with \<open>e\<close> the exponent of \<open>x\<close>, and not less than \<open>-1022\<close>.
\<close>

definition double :: "rat \<Rightarrow> rat" where
  "double x =
     (if x = 0 then 0
      else
        (let e = max (ilog2 \<bar>x\<bar>) (- 1022);
             ulp = pow2 (e - 52)
         in of_int (round_half_even (x / ulp)) * ulp))"

subsection \<open>Other operations\<close>

text \<open>\<open>x || 0\<close> on a finite number.\<close>

definition js_or_zero :: "rat \<Rightarrow> rat" where
  "js_or_zero x = (if x = 0 then 0 else x)"

text \<open>
  The remainder operator \<open>a % b\<close> for \<open>b \<noteq> 0\<close>: the quotient is truncated
  towards zero, so the result has the sign of the dividend.
\<close>

definition js_trunc :: "rat \<Rightarrow> int" where
  "js_trunc x = (if 0 \<le> x then \<lfloor>x\<rfloor> else \<lceil>x\<rceil>)"

definition js_rem :: "rat \<Rightarrow> rat \<Rightarrow> rat" where
  "js_rem a b = a - b * of_int (js_trunc (a / b))"

section \<open>The record model\<close>

datatype outcome = Immediate | Deferred | Ignored

text \<open>
  The \<open>config\<close> snapshot of a record, one shape per strategy:
  \<open>{limit, deferInterval}\<close>, \<open>{bucketSize, refillRate, deferInterval}\<close> and
  \<open>{limit, windowSize, deferInterval}\<close>.
\<close>

datatype record_config =
    SimpleConfig rat rat
  | TokenConfig rat rat rat
  | WindowConfig rat rat rat

text \<open>
  The \<open>strategyData\<close> of a record: absent, \<open>{tokens, lastRefill}\<close>, or
  \<open>{currentCount, previousCount, windowStart}\<close>.
\<close>

datatype strategy_data =
    NoData
  | TokenData rat rat
  | WindowData rat rat rat

text \<open>
  The user payload is opaque. What matters is how \<open>generateDetailsHash\<close>
  treats it: a missing, non-object or empty payload; a payload with its
  canonical serialisation; a payload whose serialisation throws (a cycle).
\<close>

datatype details = EmptyDetails | Payload string | Unserialisable

record event_record =
  key :: string
  category :: string
  ident :: string
  details :: details
  detailsHash :: string
  count :: rat
  lastEventTime :: rat
  expiresAt :: rat
  deferred :: bool
  scheduledSendAt :: "rat option"
  config :: record_config
  strategyData :: strategy_data

record event_data =
  ev_compositeKey :: string
  ev_category :: string
  ev_id :: string
  ev_details :: details
  ev_detailsHash :: string

text \<open>The frozen \<open>config\<close> object of the tracker.\<close>

record tracker_config =
  limit :: rat
  deferInterval :: rat
  expireTime :: rat
  maxKeys :: rat

section \<open>Strategies\<close>

text \<open>
  A strategy instance with its own fields: the simple counter has none, the
  token bucket has \<open>bucketSize\<close> and \<open>refillRate\<close>, the sliding window has
  \<open>limit\<close> and \<open>windowSize\<close>.
\<close>

datatype strategy =
    SimpleCounterStrategy
  | TokenBucketStrategy rat rat
  | SlidingWindowStrategy rat rat

fun getStrategyType :: "strategy \<Rightarrow> string" where
  "getStrategyType SimpleCounterStrategy = ''simple''"
| "getStrategyType (TokenBucketStrategy _ _) = ''token-bucket''"
| "getStrategyType (SlidingWindowStrategy _ _) = ''sliding-window''"

text \<open>
  \<open>BaseStrategy._createBaseRecord\<close>, together with the \<open>config\<close> and
  \<open>strategyData\<close> the caller spreads on top. \<open>INITIAL_EVENT_COUNT\<close> is 1.
\<close>

definition INITIAL_EVENT_COUNT :: rat where
  "INITIAL_EVENT_COUNT = 1"

definition createBaseRecord ::
  "event_data \<Rightarrow> rat \<Rightarrow> rat \<Rightarrow> record_config \<Rightarrow> strategy_data \<Rightarrow> event_record" where
  "createBaseRecord eventData now expireT cfg sd =
     \<lparr> key = ev_compositeKey eventData,
       category = ev_category eventData,
       ident = ev_id eventData,
       details = ev_details eventData,
       detailsHash = ev_detailsHash eventData,
       count = INITIAL_EVENT_COUNT,
       lastEventTime = now,
       expiresAt = now + expireT,
       deferred = False,
       scheduledSendAt = None,
       config = cfg,
       strategyData = sd \<rparr>"

text \<open>
  A strategy reads the fields of the record's own \<open>config\<close> and
  \<open>strategyData\<close>. Each tracker binds one strategy, so a record it loads was
  written by that strategy. On a record of another shape the JavaScript
  computes with \<open>undefined\<close> fields; that is outside the model
  (\<open>Inl Unmodelled\<close>), except where the source throws.
\<close>

subsection \<open>Simple counter\<close>

text \<open>The tail of \<open>SimpleCounterStrategy.track\<close>: the limit check.\<close>

definition simple_limit_check :: "rat \<Rightarrow> event_record \<Rightarrow> error + (outcome \<times> event_record)" where
  "simple_limit_check now updatedRecord =
     (case config updatedRecord of
        SimpleConfig cLimit deferInt \<Rightarrow>
          (if count updatedRecord > cLimit
           then Inr (Deferred,
                     updatedRecord\<lparr>deferred := True, scheduledSendAt := Some (now + deferInt)\<rparr>)
           else Inr (Immediate, updatedRecord))
      | _ \<Rightarrow> Inl Unmodelled)"

fun SimpleCounterStrategy_track ::
  "tracker_config \<Rightarrow> rat \<Rightarrow> event_record option \<Rightarrow> event_data
     \<Rightarrow> error + (outcome \<times> event_record)" where
  "SimpleCounterStrategy_track tc now None eventData =
     simple_limit_check now
       (createBaseRecord eventData now (js_or_zero (expireTime tc))
          (SimpleConfig (limit tc) (deferInterval tc)) NoData)"
| "SimpleCounterStrategy_track tc now (Some r) eventData =
     (if deferred r
      then Inr (Ignored, r\<lparr>expiresAt := now + js_or_zero (expireTime tc)\<rparr>)
      else simple_limit_check now
             (r\<lparr>count := count r + 1,
                lastEventTime := now,
                expiresAt := now + js_or_zero (expireTime tc)\<rparr>))"

subsection \<open>Token bucket\<close>

definition MS_PER_SECOND :: rat where
  "MS_PER_SECOND = 1000"

definition MIN_RETRY_DELAY_MS :: rat where
  "MIN_RETRY_DELAY_MS = 1"

text \<open>
  \<open>TokenBucketStrategy.track\<close>. The token level carries fractions: the
  refill, the token taken and the time to the next token are computed in
  doubles, operation by operation. \<open>count + 1\<close> and \<open>now + expireTime\<close> are
  sums of whole numbers.
\<close>

fun TokenBucketStrategy_track ::
  "rat \<Rightarrow> rat \<Rightarrow> tracker_config \<Rightarrow> rat \<Rightarrow> event_record option \<Rightarrow> event_data
     \<Rightarrow> error + (outcome \<times> event_record)" where
  "TokenBucketStrategy_track bucketSize refillRate tc now None eventData =
     Inr (Immediate,
          createBaseRecord eventData now (expireTime tc)
            (TokenConfig bucketSize refillRate (deferInterval tc))
            (TokenData (double (bucketSize - 1)) now))"
| "TokenBucketStrategy_track bucketSize refillRate tc now (Some r) eventData =
     (case strategyData r of
        NoData \<Rightarrow> Inl (TypeError ''Cannot destructure property tokens of undefined'')
      | WindowData _ _ _ \<Rightarrow> Inl Unmodelled
      | TokenData tokens lastRefill \<Rightarrow>
          (case config r of
             TokenConfig cBucketSize cRefillRate _ \<Rightarrow>
               (let elapsedMs = double (now - lastRefill);
                    tokensToAdd = double (double (elapsedMs / MS_PER_SECOND) * cRefillRate);
                    currentTokens = min cBucketSize (double (tokens + tokensToAdd))
                in if currentTokens \<ge> 1
                   then Inr (Immediate,
                             r\<lparr>strategyData := TokenData (double (currentTokens - 1)) now,
                               count := count r + 1,
                               lastEventTime := now,
                               expiresAt := now + expireTime tc,
                               deferred := False,
                               scheduledSendAt := None\<rparr>)
                   else if cRefillRate = 0 then Inl Unmodelled
                   else (let timeToNextTokenMs =
                               double (double (1 - currentTokens) *
                                       double (MS_PER_SECOND / cRefillRate))
                         in Inr (Deferred,
                                 r\<lparr>strategyData := TokenData currentTokens now,
                                   deferred := True,
                                   lastEventTime := now,
                                   expiresAt := now + expireTime tc,
                                   scheduledSendAt :=
                                     Some (double (now + max timeToNextTokenMs
                                                           MIN_RETRY_DELAY_MS))\<rparr>)))
           | _ \<Rightarrow> Inl Unmodelled))"

subsection \<open>Sliding weighted window\<close>

definition SLIDE_THRESHOLD_MULTIPLIER :: rat where
  "SLIDE_THRESHOLD_MULTIPLIER = 2"

fun SlidingWindowStrategy_track ::
  "rat \<Rightarrow> rat \<Rightarrow> tracker_config \<Rightarrow> rat \<Rightarrow> event_record option \<Rightarrow> event_data
     \<Rightarrow> error + (outcome \<times> event_record)" where
  "SlidingWindowStrategy_track sLimit sWindowSize tc now None eventData =
     Inr (Immediate,
          createBaseRecord eventData now (expireTime tc)
            (WindowConfig sLimit sWindowSize (deferInterval tc))
            (WindowData 1 0 now))"
| "SlidingWindowStrategy_track sLimit sWindowSize tc now (Some r) eventData =
     (case config r of
        WindowConfig cLimit windowSize deferInt \<Rightarrow>
          (case strategyData r of
             NoData \<Rightarrow> Inl (TypeError ''Cannot destructure property currentCount of undefined'')
           | TokenData _ _ \<Rightarrow> Inl Unmodelled
           | WindowData cc pc ws \<Rightarrow>
               (if windowSize = 0 then Inl Unmodelled
                else
                  (let elapsed = now - ws;
                       slide = (elapsed \<ge> windowSize);
                       previousCount =
                         (if slide
                          then (if elapsed \<ge> windowSize * SLIDE_THRESHOLD_MULTIPLIER then 0 else cc)
                          else pc);
                       currentCount = (if slide then 0 else cc);
                       windowStart = (if slide then now - js_rem elapsed windowSize else ws);
                       weight = (windowSize - (now - windowStart)) / windowSize;
                       estimatedCount = currentCount + previousCount * weight
                   in if estimatedCount < cLimit
                      then Inr (Immediate,
                                r\<lparr>count := of_int \<lfloor>estimatedCount + 1\<rfloor>,
                                  lastEventTime := now,
                                  expiresAt := now + expireTime tc,
                                  deferred := False,
                                  scheduledSendAt := None,
                                  strategyData :=
                                    WindowData (currentCount + 1) previousCount windowStart\<rparr>)
                      else Inr (Deferred,
                                r\<lparr>deferred := True,
                                  lastEventTime := now,
                                  expiresAt := now + expireTime tc,
                                  scheduledSendAt := Some (now + deferInt),
                                  strategyData :=
                                    WindowData currentCount previousCount windowStart\<rparr>))))
      | _ \<Rightarrow> Inl Unmodelled)"

text \<open>
  \<open>strategy.track(record, eventData)\<close>, dispatched on the strategy instance.
  The strategy reads the clock itself (\<open>Date.now()\<close>); its reading is the
  argument \<open>now\<close>.
\<close>

fun strategy_track ::
  "strategy \<Rightarrow> tracker_config \<Rightarrow> rat \<Rightarrow> event_record option \<Rightarrow> event_data
     \<Rightarrow> error + (outcome \<times> event_record)" where
  "strategy_track SimpleCounterStrategy tc now prior eventData =
     SimpleCounterStrategy_track tc now prior eventData"
| "strategy_track (TokenBucketStrategy bucketSize refillRate) tc now prior eventData =
     TokenBucketStrategy_track bucketSize refillRate tc now prior eventData"
| "strategy_track (SlidingWindowStrategy sLimit sWindowSize) tc now prior eventData =
     SlidingWindowStrategy_track sLimit sWindowSize tc now prior eventData"

section \<open>The in-process adapter\<close>

text \<open>
  \<open>events\<close> is a JavaScript \<open>Map\<close> and \<open>deferredKeys\<close> a \<open>Set\<close>: both keep
  insertion order, which the scans for due events follow. The map is an
  association list updated in place (a new key goes to the end), the set a
  list without duplicates. The per-key mutex serialises the calls on one key;
  the model is sequential. \<open>_deepClone\<close> copies values, and values are
  immutable here, so it is the identity.
\<close>

record mem_adapter =
  events :: "(string \<times> event_record) list"
  deferredKeys :: "string list"

definition set_add :: "string \<Rightarrow> string list \<Rightarrow> string list" where
  "set_add k ks = (if k \<in> set ks then ks else ks @ [k])"

definition set_delete :: "string \<Rightarrow> string list \<Rightarrow> string list" where
  "set_delete k ks = removeAll k ks"

text \<open>What \<open>adapter.track\<close> resolves to: \<open>{outcome, record, reason}\<close>.\<close>

record track_result =
  tr_outcome :: outcome
  tr_record :: "event_record option"
  tr_reason :: "string option"

text \<open>
  The freshness rule at the head of \<open>InMemoryAdapter.track\<close>: the record
  handed to the strategy, after the forced reset.
\<close>

definition mem_fresh_record ::
  "mem_adapter \<Rightarrow> string \<Rightarrow> event_data \<Rightarrow> rat \<Rightarrow> event_record option" where
  "mem_fresh_record a k eventData now =
     (case map_of (events a) k of
        None \<Rightarrow> None
      | Some r \<Rightarrow>
          (let isExpired = (now > expiresAt r);
               detailsChanged = (detailsHash r \<noteq> ev_detailsHash eventData)
           in if isExpired \<or> detailsChanged then None else Some r))"

text \<open>
  \<open>InMemoryAdapter.track\<close>. \<open>now\<close> is the adapter's reading of the clock,
  \<open>snow\<close> the strategy's later one. When the strategy throws, nothing is
  stored and the error propagates.
\<close>

definition InMemoryAdapter_track ::
  "mem_adapter \<Rightarrow> string \<Rightarrow> event_data \<Rightarrow> tracker_config \<Rightarrow> strategy \<Rightarrow> rat \<Rightarrow> rat
     \<Rightarrow> error + (track_result \<times> mem_adapter)" where
  "InMemoryAdapter_track a k eventData trackerConfig strat now snow =
     (let prior = mem_fresh_record a k eventData now
      in if prior = None \<and> maxKeys trackerConfig > 0
            \<and> of_nat (length (events a)) \<ge> maxKeys trackerConfig
            \<and> map_of (events a) k = None
         then Inr (\<lparr>tr_outcome = Ignored, tr_record = None,
                    tr_reason = Some ''key_limit_reached''\<rparr>, a)
         else
           (case strategy_track strat trackerConfig snow prior
                   (eventData\<lparr>ev_compositeKey := k\<rparr>) of
              Inl e \<Rightarrow> Inl e
            | Inr (outcome, updatedRecord) \<Rightarrow>
                Inr (\<lparr>tr_outcome = outcome, tr_record = Some updatedRecord,
                      tr_reason = None\<rparr>,
                     a\<lparr>events := AList.update k updatedRecord (events a),
                       deferredKeys :=
                         (if deferred updatedRecord
                          then set_add k (deferredKeys a)
                          else set_delete k (deferredKeys a))\<rparr>)))"


text \<open>
  A record is due when it is deferred, its \<open>scheduledSendAt\<close> is truthy
  (set and not zero) and not after the timestamp.
\<close>

definition is_due :: "rat \<Rightarrow> event_record \<Rightarrow> bool" where
  "is_due timestamp r =
     (deferred r \<and>
      (case scheduledSendAt r of
         None \<Rightarrow> False
       | Some t \<Rightarrow> t \<noteq> 0 \<and> timestamp \<ge> t))"

text \<open>The keys of \<open>deferredKeys\<close>, in order, whose stored record is due.\<close>

definition due_keys :: "mem_adapter \<Rightarrow> rat \<Rightarrow> string list" where
  "due_keys a timestamp =
     filter (\<lambda>k. case map_of (events a) k of
                    None \<Rightarrow> False
                  | Some r \<Rightarrow> is_due timestamp r)
            (deferredKeys a)"

text \<open>The due records, in the order of \<open>deferredKeys\<close>.\<close>

definition due_records :: "mem_adapter \<Rightarrow> rat \<Rightarrow> event_record list" where
  "due_records a timestamp =
     List.map_filter
       (\<lambda>k. case map_of (events a) k of
               None \<Rightarrow> None
             | Some r \<Rightarrow> if is_due timestamp r then Some r else None)
       (deferredKeys a)"

definition InMemoryAdapter_findDueDeferred ::
  "mem_adapter \<Rightarrow> rat \<Rightarrow> error + event_record list" where
  "InMemoryAdapter_findDueDeferred a timestamp = Inr (due_records a timestamp)"

definition InMemoryAdapter_popDueDeferred ::
  "mem_adapter \<Rightarrow> rat \<Rightarrow> error + (event_record list \<times> mem_adapter)" where
  "InMemoryAdapter_popDueDeferred a timestamp =
     (let dueEvents = due_records a timestamp;
          keysToDelete = due_keys a timestamp
      in Inr (dueEvents,
              a\<lparr>events := filter (\<lambda>(k, r). k \<notin> set keysToDelete) (events a),
                deferredKeys := filter (\<lambda>k. k \<notin> set keysToDelete) (deferredKeys a)\<rparr>))"

section \<open>The distributed adapter\<close>

text \<open>
  In Redis a record is a hash under \<open>event-tracker:\<close> followed by the key, the deferred
  index a sorted set from member to score, the size a counter. The hash
  fields are strings; the model keeps what the strings encode (a number, a
  flag, the JSON of \<open>config\<close> and of \<open>strategyData\<close>) and takes printing and
  parsing of numbers as exact. A field the script reads with \<open>or 0\<close> is
  present in the model; \<open>strategyData\<close> may be missing (\<open>None\<close>), and
  \<open>Some NoData\<close> is the empty object. \<open>h_expireAt\<close> is the expiry time of the
  key in seconds, set by \<open>EXPIREAT\<close>.
\<close>

record redis_hash =
  h_key :: string
  h_category :: string
  h_id :: string
  h_details :: details
  h_detailsHash :: string
  h_count :: rat
  h_lastEventTime :: rat
  h_expiresAt :: rat
  h_deferred :: bool
  h_scheduledSendAt :: rat
  h_strategyData :: "strategy_data option"
  h_config :: record_config
  h_expireAt :: int

record redis_store =
  isOpen :: bool
  hashes :: "(string \<times> redis_hash) list"
  sizeCounter :: int
  deferredSet :: "(string \<times> rat) list"

definition KEY_PREFIX :: string where
  "KEY_PREFIX = ''event-tracker:''"

definition getRecordKey :: "string \<Rightarrow> string" where
  "getRecordKey k = KEY_PREFIX @ k"

text \<open>The arguments \<open>ARGV[1..13]\<close> of the track script.\<close>

record script_args =
  a_key :: string
  a_category :: string
  a_id :: string
  a_details :: details
  a_detailsHash :: string
  a_now :: rat
  a_expireTime :: rat
  a_maxKeys :: rat
  a_strategyType :: string
  a_sParam1 :: rat
  a_sParam2 :: rat
  a_sParam3 :: rat
  a_initialConfig :: record_config

text \<open>
  The reply of the track script: \<open>{'ignored', 'key_limit_reached'}\<close>, or
  \<open>{outcome, count, scheduledSendAt, expiresAt, config, strategyData}\<close>.
\<close>

datatype script_reply =
    KeyLimitReached
  | TrackReply outcome rat rat rat record_config strategy_data

text \<open>Lua's \<open>a % b\<close> for \<open>b \<noteq> 0\<close>: \<open>a - floor(a / b) * b\<close>.\<close>

definition lua_mod :: "rat \<Rightarrow> rat \<Rightarrow> rat" where
  "lua_mod a b = a - of_int \<lfloor>a / b\<rfloor> * b"

text \<open>
  The freshness rule of the script: the final value of \<open>isNew\<close>.
\<close>

definition script_isNew :: "redis_hash option \<Rightarrow> script_args \<Rightarrow> bool" where
  "script_isNew existing args =
     (case existing of
        None \<Rightarrow> True
      | Some h \<Rightarrow>
          (let isExpired = (a_now args > h_expiresAt h);
               detailsChanged = (h_detailsHash h \<noteq> a_detailsHash args)
           in isExpired \<or> detailsChanged))"

text \<open>
  The three arms of the script. Each takes the values of \<open>count\<close>,
  \<open>deferred\<close> and \<open>scheduledSendAt\<close> before the arm and returns the outcome
  with their values and the \<open>strategyData\<close> table after it.
\<close>

definition script_simple ::
  "rat \<Rightarrow> rat \<Rightarrow> rat \<Rightarrow> rat \<Rightarrow> bool \<Rightarrow> rat
     \<Rightarrow> error + (outcome \<times> rat \<times> bool \<times> rat \<times> strategy_data)" where
  "script_simple now cLimit deferInt count0 deferred0 sched0 =
     (if deferred0 then Inr (Ignored, count0, deferred0, sched0, NoData)
      else
        (let cnt = count0 + 1
         in if cnt > cLimit
            then Inr (Deferred, cnt, True, now + deferInt, NoData)
            else Inr (Immediate, cnt, deferred0, sched0, NoData)))"

text \<open>
  The token arm computes in Lua numbers, which are doubles as well:
  \<open>script_token\<close> loads and refills the level, \<open>script_token_decide\<close> is the
  test \<open>tokens >= 1\<close> with its two branches. \<open>tonumber\<close> reads a decimal text
  as the double nearest to it.
\<close>

definition script_token_decide ::
  "rat \<Rightarrow> rat \<Rightarrow> rat \<Rightarrow> rat
     \<Rightarrow> error + (outcome \<times> rat \<times> bool \<times> rat \<times> strategy_data)" where
  "script_token_decide now refillRate tokens count0 =
     (if tokens \<ge> 1
      then Inr (Immediate, count0 + 1, False, 0, TokenData (double (tokens - 1)) now)
      else if refillRate = 0 then Inl Unmodelled
      else
        (let timeToNextTokenMs = double (double (1 - tokens) * double (1000 / refillRate))
         in Inr (Deferred, count0, True, double (now + max timeToNextTokenMs 1),
                 TokenData tokens now)))"

definition script_token ::
  "rat \<Rightarrow> rat \<Rightarrow> rat \<Rightarrow> bool \<Rightarrow> strategy_data option \<Rightarrow> rat
     \<Rightarrow> error + (outcome \<times> rat \<times> bool \<times> rat \<times> strategy_data)" where
  "script_token now bucketSize refillRate isNew sd count0 =
     (case (if isNew then None else sd) of
        None \<Rightarrow> script_token_decide now refillRate bucketSize count0
      | Some (TokenData tokens lastRefill) \<Rightarrow>
          (let tokens = double tokens;
               lastRefill = double lastRefill;
               elapsedMs = double (now - lastRefill)
           in script_token_decide now refillRate
                (min bucketSize
                   (double (tokens + double (double (elapsedMs / 1000) * refillRate))))
                count0)
      | Some _ \<Rightarrow> Inl (Error ''attempt to perform arithmetic on a nil value''))"

definition script_window ::
  "rat \<Rightarrow> rat \<Rightarrow> rat \<Rightarrow> rat \<Rightarrow> bool \<Rightarrow> strategy_data option \<Rightarrow> rat \<Rightarrow> bool \<Rightarrow> rat
     \<Rightarrow> error + (outcome \<times> rat \<times> bool \<times> rat \<times> strategy_data)" where
  "script_window now cLimit windowSize deferInt isNew sd count0 deferred0 sched0 =
     (let loaded =
            (case (if isNew then None else sd) of
               Some (WindowData c p w) \<Rightarrow> (c, p, w)
             | _ \<Rightarrow> (0, 0, now));
          cc = fst loaded;
          pc = fst (snd loaded);
          ws = snd (snd loaded)
      in if windowSize = 0 then Inl Unmodelled
         else
           (let elapsed = now - ws;
                slide = (elapsed \<ge> windowSize);
                previousCount =
                  (if slide then (if elapsed \<ge> windowSize * 2 then 0 else cc) else pc);
                currentCount = (if slide then 0 else cc);
                windowStart = (if slide then now - lua_mod elapsed windowSize else ws);
                weight = (windowSize - (now - windowStart)) / windowSize;
                estimatedCount = currentCount + previousCount * weight
            in if estimatedCount < cLimit
               then Inr (Immediate, of_int \<lfloor>estimatedCount + 1\<rfloor>, False, 0,
                         WindowData (currentCount + 1) previousCount windowStart)
               else Inr (Deferred, count0, True, now + deferInt,
                         WindowData currentCount previousCount windowStart)))"

text \<open>
  The choice of the arm by the type tag. A strategy type that is none of the
  three runs no arm.
\<close>

definition script_arm ::
  "script_args \<Rightarrow> bool \<Rightarrow> strategy_data option \<Rightarrow> rat \<Rightarrow> bool \<Rightarrow> rat
     \<Rightarrow> error + (outcome \<times> rat \<times> bool \<times> rat \<times> strategy_data)" where
  "script_arm args isNew sd count0 deferred0 sched0 =
     (if a_strategyType args = ''simple''
      then script_simple (a_now args) (a_sParam1 args) (a_sParam2 args)
             count0 deferred0 sched0
      else if a_strategyType args = ''token-bucket''
      then script_token (a_now args) (a_sParam1 args) (a_sParam2 args) isNew sd count0
      else if a_strategyType args = ''sliding-window''
      then script_window (a_now args) (a_sParam1 args) (a_sParam2 args) (a_sParam3 args)
             isNew sd count0 deferred0 sched0
      else Inr (Immediate, count0, deferred0, sched0, NoData))"

text \<open>
  The track script on the hash at \<open>recordKey\<close>. \<open>HGETALL\<close> of a missing key
  is empty, and so is \<open>EXISTS\<close> zero exactly then.
\<close>

definition trackScript ::
  "redis_store \<Rightarrow> string \<Rightarrow> script_args \<Rightarrow> error + (script_reply \<times> redis_store)" where
  "trackScript s recordKey args =
     (let existing = map_of (hashes s) recordKey;
          now = a_now args;
          isNew = script_isNew existing args
      in if isNew \<and> a_maxKeys args > 0 \<and> of_int (sizeCounter s) \<ge> a_maxKeys args
            \<and> existing = None
         then Inr (KeyLimitReached, s)
         else
           (let s1 = (if isNew \<and> existing = None
                      then s\<lparr>sizeCounter := sizeCounter s + 1\<rparr> else s);
                count0 = (case existing of
                            None \<Rightarrow> 0
                          | Some h \<Rightarrow> if isNew then 0 else h_count h);
                deferred0 = (case existing of
                               None \<Rightarrow> False
                             | Some h \<Rightarrow> \<not> isNew \<and> h_deferred h);
                sched0 = (case existing of
                            None \<Rightarrow> 0
                          | Some h \<Rightarrow> if isNew then 0 else h_scheduledSendAt h);
                sd = (case existing of None \<Rightarrow> None | Some h \<Rightarrow> h_strategyData h);
                arm = script_arm args isNew sd count0 deferred0 sched0
            in case arm of
                 Inl e \<Rightarrow> Inl e
               | Inr (outcome, cnt, dfr, sched, sd') \<Rightarrow>
                   (let expiresAt' = now + a_expireTime args;
                        config' = (case existing of
                                     None \<Rightarrow> a_initialConfig args
                                   | Some h \<Rightarrow>
                                       if isNew then a_initialConfig args else h_config h);
                        h' = \<lparr> h_key = a_key args,
                               h_category = a_category args,
                               h_id = a_id args,
                               h_details = a_details args,
                               h_detailsHash = a_detailsHash args,
                               h_count = cnt,
                               h_lastEventTime = now,
                               h_expiresAt = expiresAt',
                               h_deferred = dfr,
                               h_scheduledSendAt = sched,
                               h_strategyData = Some sd',
                               h_config = config',
                               h_expireAt = \<lceil>expiresAt' / 1000\<rceil> \<rparr>
                    in Inr (TrackReply outcome cnt sched expiresAt' config' sd',
                            s1\<lparr>hashes := AList.update recordKey h' (hashes s1),
                               deferredSet :=
                                 (if dfr
                                  then AList.update (a_key args) sched (deferredSet s1)
                                  else AList.delete (a_key args) (deferredSet s1))\<rparr>))))"

text \<open>
  \<open>RedisAdapter.track\<close>: it reads the clock once, passes the strategy's type
  tag and parameters to the script, and rebuilds a record from the reply.
  \<open>parseInt\<close> drops the fraction of a number. An error of the script is
  rethrown as an \<open>Error\<close> with the prefix of the operation.
\<close>

definition track_args ::
  "string \<Rightarrow> event_data \<Rightarrow> tracker_config \<Rightarrow> strategy \<Rightarrow> rat \<Rightarrow> script_args" where
  "track_args k eventData trackerConfig strat now =
     \<lparr> a_key = k,
       a_category = ev_category eventData,
       a_id = ev_id eventData,
       a_details = ev_details eventData,
       a_detailsHash = ev_detailsHash eventData,
       a_now = now,
       a_expireTime = expireTime trackerConfig,
       a_maxKeys = maxKeys trackerConfig,
       a_strategyType = getStrategyType strat,
       a_sParam1 =
         (case strat of
            SimpleCounterStrategy \<Rightarrow> limit trackerConfig
          | TokenBucketStrategy bucketSize _ \<Rightarrow> bucketSize
          | SlidingWindowStrategy sLimit _ \<Rightarrow> sLimit),
       a_sParam2 =
         (case strat of
            SimpleCounterStrategy \<Rightarrow> deferInterval trackerConfig
          | TokenBucketStrategy _ refillRate \<Rightarrow> refillRate
          | SlidingWindowStrategy _ sWindowSize \<Rightarrow> sWindowSize),
       a_sParam3 =
         (case strat of
            SimpleCounterStrategy \<Rightarrow> 0
          | _ \<Rightarrow> deferInterval trackerConfig),
       a_initialConfig =
         (case strat of
            SimpleCounterStrategy \<Rightarrow>
              SimpleConfig (limit trackerConfig) (deferInterval trackerConfig)
          | TokenBucketStrategy bucketSize refillRate \<Rightarrow>
              TokenConfig bucketSize refillRate (deferInterval trackerConfig)
          | SlidingWindowStrategy sLimit sWindowSize \<Rightarrow>
              WindowConfig sLimit sWindowSize (deferInterval trackerConfig)) \<rparr>"

text \<open>The record \<open>RedisAdapter.track\<close> rebuilds from the reply of the script.\<close>

definition reply_record ::
  "string \<Rightarrow> event_data \<Rightarrow> rat \<Rightarrow> outcome \<Rightarrow> rat \<Rightarrow> rat \<Rightarrow> rat \<Rightarrow> record_config
     \<Rightarrow> strategy_data \<Rightarrow> event_record" where
  "reply_record k eventData now outcome cnt sched expAt cfg sd =
     \<lparr> key = k,
       category = ev_category eventData,
       ident = ev_id eventData,
       details = ev_details eventData,
       detailsHash = ev_detailsHash eventData,
       count = js_or_zero (of_int (js_trunc cnt)),
       lastEventTime = now,
       expiresAt = js_or_zero (of_int (js_trunc expAt)),
       deferred = (outcome = Deferred),
       scheduledSendAt = (if sched = 0 then None else Some (of_int (js_trunc sched))),
       config = cfg,
       strategyData = sd \<rparr>"

definition RedisAdapter_track ::
  "redis_store \<Rightarrow> string \<Rightarrow> event_data \<Rightarrow> tracker_config \<Rightarrow> strategy \<Rightarrow> rat \<Rightarrow> rat
     \<Rightarrow> error + (track_result \<times> redis_store)" where
  "RedisAdapter_track s k eventData trackerConfig strat now snow =
     (if \<not> isOpen s then Inl (Error ''Redis client is not connected.'')
      else
        (case trackScript s (getRecordKey k)
                (track_args k eventData trackerConfig strat now) of
           Inl Unmodelled \<Rightarrow> Inl Unmodelled
         | Inl _ \<Rightarrow> Inl (Error ''Redis TRACK failed'')
         | Inr (KeyLimitReached, s') \<Rightarrow>
             Inr (\<lparr>tr_outcome = Ignored, tr_record = None,
                   tr_reason = Some ''key_limit_reached''\<rparr>, s')
         | Inr (TrackReply outcome cnt sched expAt cfg sd, s') \<Rightarrow>
             Inr (\<lparr>tr_outcome = outcome,
                   tr_record =
                     Some (reply_record k eventData now outcome cnt sched expAt cfg sd),
                   tr_reason = None\<rparr>, s')))"

text \<open>
  \<open>_deserialize\<close>: the record a hash encodes, or nothing when the hash is
  missing or has no \<open>key\<close>. Numbers go through \<open>parseInt\<close>.
\<close>

definition deserialize :: "redis_hash option \<Rightarrow> event_record option" where
  "deserialize data =
     (case data of
        None \<Rightarrow> None
      | Some h \<Rightarrow>
          (if h_key h = [] then None
           else Some
             \<lparr> key = h_key h,
               category = h_category h,
               ident = h_id h,
               details = h_details h,
               detailsHash = h_detailsHash h,
               count = js_or_zero (of_int (js_trunc (h_count h))),
               lastEventTime = js_or_zero (of_int (js_trunc (h_lastEventTime h))),
               expiresAt = js_or_zero (of_int (js_trunc (h_expiresAt h))),
               deferred = h_deferred h,
               scheduledSendAt =
                 (if h_scheduledSendAt h = 0 then None
                  else Some (of_int (js_trunc (h_scheduledSendAt h)))),
               config = h_config h,
               strategyData =
                 (case h_strategyData h of None \<Rightarrow> NoData | Some sd \<Rightarrow> sd) \<rparr>))"

text \<open>
  \<open>ZRANGEBYSCORE\<close>: the members with a score in the closed range, by
  ascending score, members of equal score in lexicographic order.
\<close>

definition zrangebyscore :: "(string \<times> rat) list \<Rightarrow> rat \<Rightarrow> rat \<Rightarrow> string list" where
  "zrangebyscore zset lo hi =
     map snd (sort (map (\<lambda>(member, score). (score, member))
                        (filter (\<lambda>(member, score). lo \<le> score \<and> score \<le> hi) zset)))"

text \<open>
  The loop of the pop script over the due keys: read the hash, delete it,
  decrement the size counter.
\<close>

fun pop_records ::
  "string \<Rightarrow> string list \<Rightarrow> redis_store
     \<Rightarrow> (string \<times> redis_hash option) list \<times> redis_store" where
  "pop_records keyPrefix [] s = ([], s)"
| "pop_records keyPrefix (k # ks) s =
     (let recordKey = keyPrefix @ k;
          recordData = map_of (hashes s) recordKey;
          s' = s\<lparr>hashes := AList.delete recordKey (hashes s),
                 sizeCounter := sizeCounter s - 1\<rparr>;
          rest = pop_records keyPrefix ks s'
      in ((k, recordData) # fst rest, snd rest))"

definition popDueDeferredScript ::
  "redis_store \<Rightarrow> string \<Rightarrow> rat \<Rightarrow> (string \<times> redis_hash option) list \<times> redis_store" where
  "popDueDeferredScript s keyPrefix timestamp =
     (let dueKeys = zrangebyscore (deferredSet s) 0 timestamp
      in if length dueKeys = 0 then ([], s)
         else pop_records keyPrefix dueKeys
                (s\<lparr>deferredSet :=
                     filter (\<lambda>(member, score). member \<notin> set dueKeys) (deferredSet s)\<rparr>))"

definition RedisAdapter_popDueDeferred ::
  "redis_store \<Rightarrow> rat \<Rightarrow> error + (event_record list \<times> redis_store)" where
  "RedisAdapter_popDueDeferred s timestamp =
     (if \<not> isOpen s then Inl (Error ''Redis client is not connected.'')
      else
        (let popped = popDueDeferredScript s KEY_PREFIX timestamp
         in Inr (List.map_filter (\<lambda>(k, data). deserialize data) (fst popped), snd popped)))"

definition RedisAdapter_findDueDeferred ::
  "redis_store \<Rightarrow> rat \<Rightarrow> error + event_record list" where
  "RedisAdapter_findDueDeferred s timestamp =
     (if \<not> isOpen s then Inl (Error ''Redis client is not connected.'')
      else
        (let dueKeys = zrangebyscore (deferredSet s) 0 timestamp
         in Inr (List.map_filter
                   (\<lambda>k. deserialize (map_of (hashes s) (getRecordKey k))) dueKeys)))"

section \<open>The adapter interface\<close>

text \<open>
  The engine calls its storage through the methods of \<open>BaseAdapter\<close>. An
  adapter is the record of these methods over its own state; each method
  takes the state and, when it mutates, returns the new one. The clock
  readings a method makes are arguments.
\<close>

record 's adapter =
  adapter_track ::
    "'s \<Rightarrow> string \<Rightarrow> event_data \<Rightarrow> tracker_config \<Rightarrow> strategy \<Rightarrow> rat \<Rightarrow> rat
       \<Rightarrow> error + (track_result \<times> 's)"
  adapter_findDueDeferred :: "'s \<Rightarrow> rat \<Rightarrow> error + event_record list"
  adapter_popDueDeferred :: "'s \<Rightarrow> rat \<Rightarrow> error + (event_record list \<times> 's)"

definition InMemoryAdapter :: "mem_adapter adapter" where
  "InMemoryAdapter =
     \<lparr> adapter_track = InMemoryAdapter_track,
       adapter_findDueDeferred = InMemoryAdapter_findDueDeferred,
       adapter_popDueDeferred = InMemoryAdapter_popDueDeferred \<rparr>"

definition RedisAdapter :: "redis_store adapter" where
  "RedisAdapter =
     \<lparr> adapter_track = RedisAdapter_track,
       adapter_findDueDeferred = RedisAdapter_findDueDeferred,
       adapter_popDueDeferred = RedisAdapter_popDueDeferred \<rparr>"

section \<open>The tracker engine\<close>

text \<open>
  A value that is thrown and caught, as far as the engine looks at it: it
  keeps the value and reads its \<open>message\<close>. The value is \<open>null\<close>, or
  \<open>undefined\<close>, or any other value. \<open>ThrownValue m\<close> is one whose \<open>message\<close>
  reads as \<open>m\<close> inside a template string (an \<open>Error\<close> with that message; for a
  value without the property the text is \<open>undefined\<close>). \<open>ThrownOpaque\<close> is one
  whose \<open>message\<close> cannot be read or rendered (a getter that throws, a
  symbol).
\<close>

datatype thrown = ThrownNull | ThrownUndefined | ThrownValue string | ThrownOpaque

text \<open>
  Lifecycle notifications, published with \<open>emit\<close>. \<open>NOutcome\<close> is the
  notification named after the outcome (\<open>immediate\<close> or \<open>deferred\<close>) with the
  record; \<open>NIgnored\<close> carries \<open>{reason, category, id, details}\<close>; \<open>NRetry\<close>
  carries \<open>{attempt, maxRetries, delay, events}\<close>; \<open>NProcessFailed\<close> carries
  \<open>{error, events, attempts}\<close>; \<open>NErrorProcessorFailed n m\<close> is the \<open>error\<close>
  notification with the error \<open>ProcessorFailed n m\<close>.
\<close>

datatype notification =
    NOutcome outcome "event_record option"
  | NIgnored string string string details
  | NProcessed event_record
  | NRetry rat rat rat "event_record list"
  | NProcessFailed thrown "event_record list" rat
  | NErrorProcessorFailed rat string

text \<open>
  What the engine does that its environment observes, in order: a call of
  the user's processor (numbered from 0), a call of \<open>emit\<close> with a
  notification, the wait for a timer set to the given delay in milliseconds.
\<close>

datatype effect =
    CallProcessor nat
  | Emit notification
  | Sleep rat

text \<open>
  The user's processor is a callback that may throw, or return a promise
  that rejects. It is a function of the number of the call and the batch,
  returning the value it throws, or \<open>None\<close> when it returns normally.
\<close>

type_synonym processor = "nat \<Rightarrow> event_record list \<Rightarrow> thrown option"

text \<open>
  The tracker is an \<open>EventEmitter\<close>. A listener is code of the application
  and is taken to return normally. The emitter itself treats one name
  apart: \<open>emit('error', e)\<close> throws \<open>e\<close> when no listener is registered for
  \<open>error\<close>. \<open>t_errorListener\<close> tells whether one is.
\<close>

record 's tracker =
  t_config :: tracker_config
  t_storage :: "'s adapter"
  t_store :: 's
  t_strategy :: strategy
  t_processor :: "processor option"
  t_maxRetries :: rat
  t_retryDelay :: rat
  t_errorListener :: bool
  t_trace :: "effect list"

subsection \<open>Identity and fingerprint\<close>

text \<open>
  SHA-256 is an external collaborator: \<open>sha256\<close> is a parameter of every
  function that hashes.
\<close>

fun the_string :: "jsval \<Rightarrow> string" where
  "the_string (JStr s) = s"
| "the_string _ = []"

definition generateCompositeKey :: "(string \<Rightarrow> string) \<Rightarrow> jsval \<Rightarrow> jsval \<Rightarrow> error + string" where
  "generateCompositeKey sha256 cat idt =
     (if typeof cat \<noteq> ''string'' \<or> typeof idt \<noteq> ''string''
      then Inl (TypeError ''category and id must be strings.'')
      else if the_string cat = [] \<or> the_string idt = []
      then Inl (Error ''category and id cannot be empty.'')
      else Inr (sha256 (the_string cat @ '':'' @ the_string idt)))"

fun generateDetailsHash :: "(string \<Rightarrow> string) \<Rightarrow> details \<Rightarrow> string" where
  "generateDetailsHash sha256 EmptyDetails = []"
| "generateDetailsHash sha256 (Payload s) = sha256 s"
| "generateDetailsHash sha256 Unserialisable = []"

subsection \<open>trackEvent\<close>

text \<open>What \<open>trackEvent\<close> resolves to: \<open>{type, data, reason}\<close>.\<close>

record track_event_result =
  te_type :: outcome
  te_data :: "event_record option"
  te_reason :: "string option"

text \<open>
  \<open>trackEvent\<close>. An error thrown by the validation or by the adapter rejects
  the call; nothing has been published then and the tracker is as before.
  The event data carries no composite key yet (the adapter passes it on).
\<close>

definition trackEvent ::
  "(string \<Rightarrow> string) \<Rightarrow> 's tracker \<Rightarrow> jsval \<Rightarrow> jsval \<Rightarrow> details \<Rightarrow> rat \<Rightarrow> rat
     \<Rightarrow> error + (track_event_result \<times> 's tracker)" where
  "trackEvent sha256 t cat idt dets now snow =
     (case generateCompositeKey sha256 cat idt of
        Inl e \<Rightarrow> Inl e
      | Inr compositeKey \<Rightarrow>
          (let dHash = generateDetailsHash sha256 dets;
               eventData = \<lparr> ev_compositeKey = [], ev_category = the_string cat,
                             ev_id = the_string idt, ev_details = dets,
                             ev_detailsHash = dHash \<rparr>
           in case adapter_track (t_storage t) (t_store t) compositeKey eventData
                     (t_config t) (t_strategy t) now snow of
                Inl e \<Rightarrow> Inl e
              | Inr (res, store') \<Rightarrow>
                  (if tr_outcome res = Ignored
                   then
                     (let ignoreReason =
                            (case tr_reason res of
                               None \<Rightarrow> ''already_deferred''
                             | Some s \<Rightarrow> s)
                      in Inr (\<lparr> te_type = Ignored,
                                 te_data =
                                   (case tr_reason res of
                                      None \<Rightarrow> tr_record res
                                    | Some s \<Rightarrow> if s = [] then tr_record res else None),
                                 te_reason = Some ignoreReason \<rparr>,
                               t\<lparr>t_store := store',
                                 t_trace := t_trace t @
                                   [Emit (NIgnored ignoreReason (the_string cat)
                                            (the_string idt) dets)]\<rparr>))
                   else Inr (\<lparr> te_type = tr_outcome res,
                                te_data = tr_record res,
                                te_reason = None \<rparr>,
                             t\<lparr>t_store := store',
                               t_trace := t_trace t @
                                 [Emit (NOutcome (tr_outcome res) (tr_record res))]\<rparr>))))"


subsection \<open>processDeferredEvents\<close>

text \<open>
  How the retry loop ends: the processor returned (the function returns from
  inside the loop), or every attempt threw and the loop ran out, with the
  value of \<open>lastError\<close>.
\<close>

datatype loop_end = Succeeded | Exhausted thrown

text \<open>
  The loop \<open>for (attempt = 0; attempt <= maxRetries; attempt++)\<close> from the
  iteration \<open>attempt\<close> on, with the effects it performs in order.
\<close>

function attempt_loop ::
  "processor \<Rightarrow> rat \<Rightarrow> rat \<Rightarrow> event_record list \<Rightarrow> nat \<Rightarrow> thrown
     \<Rightarrow> effect list \<times> loop_end" where
  "attempt_loop proc maxR retryD dueEvents attempt lastError =
     (if of_nat attempt \<le> maxR
      then
        (case proc attempt dueEvents of
           None \<Rightarrow>
             (CallProcessor attempt # map (\<lambda>e. Emit (NProcessed e)) dueEvents, Succeeded)
         | Some err \<Rightarrow>
             (let backoff =
                    (if of_nat attempt < maxR
                     then (let delay = retryD * 2 ^ attempt
                           in [Emit (NRetry (of_nat attempt + 1) maxR delay dueEvents),
                               Sleep delay])
                     else []);
                  rest = attempt_loop proc maxR retryD dueEvents (Suc attempt) err
              in (CallProcessor attempt # backoff @ fst rest, snd rest)))
      else ([], Exhausted lastError))"
  by pat_completeness auto
termination
proof (relation "measure (\<lambda>(proc, maxR, retryD, dueEvents, attempt, lastError).
                            nat \<lfloor>maxR\<rfloor> + 1 - attempt)")
  show "wf (measure (\<lambda>(proc, maxR, retryD, dueEvents, attempt, lastError).
                       nat \<lfloor>maxR\<rfloor> + 1 - attempt))"
    by simp
next
  fix proc :: processor and maxR retryD :: rat and dueEvents :: "event_record list"
    and attempt :: nat and lastError :: thrown and x2 :: thrown and x :: "effect list"
  assume "of_nat attempt \<le> maxR"
  then have "int attempt \<le> \<lfloor>maxR\<rfloor>"
    by (simp add: le_floor_iff)
  then have "attempt \<le> nat \<lfloor>maxR\<rfloor>"
    by linarith
  then show "((proc, maxR, retryD, dueEvents, Suc attempt, x2),
              (proc, maxR, retryD, dueEvents, attempt, lastError))
             \<in> measure (\<lambda>(proc, maxR, retryD, dueEvents, attempt, lastError).
                           nat \<lfloor>maxR\<rfloor> + 1 - attempt)"
    by simp
qed

text \<open>
  \<open>processDeferredEvents\<close>, with the clock reading \<open>now\<close>. A notification
  published before a later statement throws stays published, so the tracker
  is returned beside the result. \<open>lastError\<close> starts as \<open>null\<close>. After the
  loop, reading \<open>lastError.message\<close> throws a \<open>TypeError\<close> when \<open>lastError\<close> is
  \<open>null\<close> or \<open>undefined\<close>; and \<open>emit('error', e)\<close> throws \<open>e\<close> when the tracker
  has no listener for \<open>error\<close>. Either way the call rejects. For a value
  whose \<open>message\<close> cannot be read the call rejects as well, with an error
  that is outside the model.
\<close>

definition processDeferredEvents ::
  "'s tracker \<Rightarrow> rat \<Rightarrow> (error + event_record list) \<times> 's tracker" where
  "processDeferredEvents t now =
     (case t_processor t of
        None \<Rightarrow>
          (case adapter_findDueDeferred (t_storage t) (t_store t) now of
             Inl e \<Rightarrow> (Inl e, t)
           | Inr evs \<Rightarrow> (Inr evs, t))
      | Some proc \<Rightarrow>
          (case adapter_popDueDeferred (t_storage t) (t_store t) now of
             Inl e \<Rightarrow> (Inl e, t)
           | Inr (dueEvents, store') \<Rightarrow>
               (if length dueEvents = 0 then (Inr dueEvents, t\<lparr>t_store := store'\<rparr>)
                else
                  (case attempt_loop proc (t_maxRetries t) (t_retryDelay t) dueEvents 0
                          ThrownNull of
                     (effs, Succeeded) \<Rightarrow>
                       (Inr dueEvents,
                        t\<lparr>t_store := store', t_trace := t_trace t @ effs\<rparr>)
                   | (effs, Exhausted lastError) \<Rightarrow>
                       (let attempts = t_maxRetries t + 1;
                            failed = Emit (NProcessFailed lastError dueEvents attempts)
                        in case lastError of
                             ThrownNull \<Rightarrow>
                               (Inl (TypeError ''Cannot read properties of null''),
                                t\<lparr>t_store := store',
                                  t_trace := t_trace t @ effs @ [failed]\<rparr>)
                           | ThrownUndefined \<Rightarrow>
                               (Inl (TypeError ''Cannot read properties of undefined''),
                                t\<lparr>t_store := store',
                                  t_trace := t_trace t @ effs @ [failed]\<rparr>)
                           | ThrownOpaque \<Rightarrow>
                               (Inl Unmodelled,
                                t\<lparr>t_store := store',
                                  t_trace := t_trace t @ effs @ [failed]\<rparr>)
                           | ThrownValue msg \<Rightarrow>
                               (let t' = t\<lparr>t_store := store',
                                           t_trace := t_trace t @ effs @
                                             [failed,
                                              Emit (NErrorProcessorFailed attempts msg)]\<rparr>
                                in if t_errorListener t
                                   then (Inr dueEvents, t')
                                   else (Inl (ProcessorFailed attempts msg), t')))))))"

text \<open>
  Whether an effect is the publication of \<open>process_failed\<close>, and of \<open>error\<close>.
\<close>

fun is_process_failed :: "effect \<Rightarrow> bool" where
  "is_process_failed (Emit (NProcessFailed _ _ _)) = True"
| "is_process_failed _ = False"

fun is_error_notification :: "effect \<Rightarrow> bool" where
  "is_error_notification (Emit (NErrorProcessorFailed _ _)) = True"
| "is_error_notification _ = False"

subsection \<open>The constructor\<close>

text \<open>
  The options object: its numeric properties by name (a missing property
  reads \<open>undefined\<close>), and the \<open>strategy\<close> option, which is unset, an instance
  of \<open>BaseStrategy\<close>, or something else. The storage and processor options
  play no part in the validation.
\<close>

datatype strategy_option = StrategyUnset | StrategyInstance strategy | NotAStrategy

record options =
  opt_fields :: "(string \<times> jsval) list"
  opt_strategy :: strategy_option

definition option_get :: "(string \<times> jsval) list \<Rightarrow> string \<Rightarrow> jsval" where
  "option_get props field =
     (case map_of props field of None \<Rightarrow> JUndefined | Some v \<Rightarrow> v)"

definition numericFields :: "string list" where
  "numericFields =
     [''limit'', ''deferInterval'', ''expireTime'', ''maxKeys'',
      ''processingInterval'', ''maxRetries'', ''retryDelay'']"

fun isNaN :: "jsval \<Rightarrow> bool" where
  "isNaN (JNum NaN) = True"
| "isNaN _ = False"

text \<open>\<open>v < 0\<close> for a value that is a number.\<close>

fun js_negative :: "jsval \<Rightarrow> bool" where
  "js_negative (JNum (Fin x)) = (x < 0)"
| "js_negative (JNum NegInf) = True"
| "js_negative _ = False"

text \<open>The body of the loop of \<open>_validateConfig\<close> for one field.\<close>

definition validateField :: "(string \<times> jsval) list \<Rightarrow> string \<Rightarrow> error option" where
  "validateField props field =
     (let v = option_get props field
      in if v \<noteq> JUndefined
         then (if typeof v \<noteq> ''number'' \<or> isNaN v
               then Some (TypeError (field @ '' must be a number.''))
               else if js_negative v
               then Some (RangeError (field @ '' must be non-negative.''))
               else None)
         else None)"

fun validateFields :: "(string \<times> jsval) list \<Rightarrow> string list \<Rightarrow> error option" where
  "validateFields props [] = None"
| "validateFields props (field # rest) =
     (case validateField props field of
        Some e \<Rightarrow> Some e
      | None \<Rightarrow> validateFields props rest)"

definition validateConfig :: "(string \<times> jsval) list \<Rightarrow> error option" where
  "validateConfig props = validateFields props numericFields"

text \<open>\<open>Math.max\<close> of two numbers.\<close>

fun Math_max :: "jsnum \<Rightarrow> jsnum \<Rightarrow> jsnum" where
  "Math_max NaN _ = NaN"
| "Math_max _ NaN = NaN"
| "Math_max PosInf _ = PosInf"
| "Math_max _ PosInf = PosInf"
| "Math_max NegInf y = y"
| "Math_max x NegInf = x"
| "Math_max (Fin a) (Fin b) = Fin (max a b)"

text \<open>
  \<open>v ?? d\<close> where \<open>Math.max\<close> then reads a number. After the validation
  \<open>v\<close> is \<open>undefined\<close> or a number.
\<close>

fun coalesce :: "jsval \<Rightarrow> rat \<Rightarrow> jsnum" where
  "coalesce JUndefined d = Fin d"
| "coalesce JNull d = Fin d"
| "coalesce (JNum n) d = n"
| "coalesce _ d = NaN"

definition DEFAULT_LIMIT :: rat where "DEFAULT_LIMIT = 5"
definition DEFAULT_DEFER_INTERVAL_MS :: rat where "DEFAULT_DEFER_INTERVAL_MS = 60 * 60 * 1000"
definition DEFAULT_EXPIRE_TIME_MS :: rat where "DEFAULT_EXPIRE_TIME_MS = 24 * 60 * 60 * 1000"
definition DEFAULT_PROCESSING_INTERVAL_MS :: rat where "DEFAULT_PROCESSING_INTERVAL_MS = 10000"
definition MIN_PROCESSING_INTERVAL_MS :: rat where "MIN_PROCESSING_INTERVAL_MS = 10"
definition DEFAULT_MAX_RETRIES :: rat where "DEFAULT_MAX_RETRIES = 3"
definition DEFAULT_RETRY_DELAY_MS :: rat where "DEFAULT_RETRY_DELAY_MS = 1000"

text \<open>The properties the constructor sets from the options.\<close>

record settings =
  s_limit :: jsnum
  s_deferInterval :: jsnum
  s_expireTime :: jsnum
  s_maxKeys :: jsnum
  s_strategy :: strategy
  s_processingIntervalMs :: jsnum
  s_maxRetries :: jsnum
  s_retryDelay :: jsnum

definition EventTracker_constructor :: "options \<Rightarrow> error + settings" where
  "EventTracker_constructor opts =
     (case validateConfig (opt_fields opts) of
        Some e \<Rightarrow> Inl e
      | None \<Rightarrow>
          (let get = option_get (opt_fields opts)
           in case opt_strategy opts of
                NotAStrategy \<Rightarrow>
                  Inl (TypeError ''strategy must be an instance of BaseStrategy.'')
              | chosen \<Rightarrow>
                  Inr \<lparr> s_limit = Math_max (Fin 0) (coalesce (get ''limit'') DEFAULT_LIMIT),
                        s_deferInterval =
                          Math_max (Fin 0)
                            (coalesce (get ''deferInterval'') DEFAULT_DEFER_INTERVAL_MS),
                        s_expireTime =
                          Math_max (Fin 1)
                            (coalesce (get ''expireTime'') DEFAULT_EXPIRE_TIME_MS),
                        s_maxKeys = Math_max (Fin 0) (coalesce (get ''maxKeys'') 0),
                        s_strategy =
                          (case chosen of
                             StrategyInstance st \<Rightarrow> st
                           | _ \<Rightarrow> SimpleCounterStrategy),
                        s_processingIntervalMs =
                          Math_max (Fin MIN_PROCESSING_INTERVAL_MS)
                            (coalesce (get ''processingInterval'')
                               DEFAULT_PROCESSING_INTERVAL_MS),
                        s_maxRetries =
                          Math_max (Fin 0) (coalesce (get ''maxRetries'') DEFAULT_MAX_RETRIES),
                        s_retryDelay =
                          Math_max (Fin 0)
                            (coalesce (get ''retryDelay'') DEFAULT_RETRY_DELAY_MS) \<rparr>))"


subsection \<open>A tracker on the default storage\<close>

text \<open>The state of a new \<open>InMemoryAdapter\<close>.\<close>

definition InMemoryAdapter_new :: mem_adapter where
  "InMemoryAdapter_new = \<lparr>events = [], deferredKeys = []\<rparr>"

text \<open>
  The tracker the constructor builds on the default storage, for finite
  settings, before any processor is set or listener registered.
\<close>

definition new_tracker :: "tracker_config \<Rightarrow> strategy \<Rightarrow> rat \<Rightarrow> rat \<Rightarrow> mem_adapter tracker" where
  "new_tracker cfg strat maxR retryD =
     \<lparr> t_config = cfg,
       t_storage = InMemoryAdapter,
       t_store = InMemoryAdapter_new,
       t_strategy = strat,
       t_processor = None,
       t_maxRetries = maxR,
       t_retryDelay = retryD,
       t_errorListener = False,
       t_trace = [] \<rparr>"

text \<open>
  A caller that awaits one \<open>trackEvent\<close> after the other and collects the
  results. A call is \<open>(category, id, details, now, snow)\<close>, with the two
  clock readings made during the call.
\<close>

type_synonym call = "jsval \<times> jsval \<times> details \<times> rat \<times> rat"

fun trackEvents ::
  "(string \<Rightarrow> string) \<Rightarrow> 's tracker \<Rightarrow> call list
     \<Rightarrow> error + (track_event_result list \<times> 's tracker)" where
  "trackEvents sha256 t [] = Inr ([], t)"
| "trackEvents sha256 t ((cat, idt, dets, now, snow) # rest) =
     (case trackEvent sha256 t cat idt dets now snow of
        Inl e \<Rightarrow> Inl e
      | Inr (res, t') \<Rightarrow>
          (case trackEvents sha256 t' rest of
             Inl e \<Rightarrow> Inl e
           | Inr (ress, t'') \<Rightarrow> Inr (res # ress, t'')))"

text \<open>
  What a caller reads off a result: the type, the reason, and the \<open>count\<close>
  and \<open>lastEventTime\<close> of the returned record.
\<close>

definition result_summary ::
  "track_event_result \<Rightarrow> outcome \<times> string option \<times> rat option \<times> rat option" where
  "result_summary res =
     (te_type res, te_reason res, map_option count (te_data res),
      map_option lastEventTime (te_data res))"

definition run_summary ::
  "error + (track_event_result list \<times> 's tracker)
     \<Rightarrow> error + (outcome \<times> string option \<times> rat option \<times> rat option) list" where
  "run_summary run =
     (case run of
        Inl e \<Rightarrow> Inl e
      | Inr (ress, t) \<Rightarrow> Inr (map result_summary ress))"

text \<open>
  A caller that feeds the record a strategy returns back into it, once for
  each clock reading, as the strategy tests do: one lifetime of a record.
\<close>

fun strategy_run ::
  "strategy \<Rightarrow> tracker_config \<Rightarrow> event_record \<Rightarrow> event_data \<Rightarrow> rat list
     \<Rightarrow> error + (outcome \<times> event_record) list" where
  "strategy_run strat tc r ed [] = Inr []"
| "strategy_run strat tc r ed (now # nows) =
     (case strategy_track strat tc now (Some r) ed of
        Inl e \<Rightarrow> Inl e
      | Inr (oc, r') \<Rightarrow>
          (case strategy_run strat tc r' ed nows of
             Inl e \<Rightarrow> Inl e
           | Inr steps \<Rightarrow> Inr ((oc, r') # steps)))"

subsection \<open>A tracker on the distributed storage\<close>

text \<open>
  The tracker the constructor builds when the storage option is a
  \<open>RedisAdapter\<close> whose client holds the given store.
\<close>

definition new_redis_tracker ::
  "tracker_config \<Rightarrow> strategy \<Rightarrow> rat \<Rightarrow> rat \<Rightarrow> redis_store \<Rightarrow> redis_store tracker" where
  "new_redis_tracker cfg strat maxR retryD store =
     \<lparr> t_config = cfg,
       t_storage = RedisAdapter,
       t_store = store,
       t_strategy = strat,
       t_processor = None,
       t_maxRetries = maxR,
       t_retryDelay = retryD,
       t_errorListener = False,
       t_trace = [] \<rparr>"

definition empty_redis_store :: redis_store where
  "empty_redis_store = \<lparr>isOpen = True, hashes = [], sizeCounter = 0, deferredSet = []\<rparr>"

subsection \<open>Concrete states\<close>

text \<open>
  The configuration of the literal scenarios, and the record of the identity
  \<open>(auth, login_fail)\<close> as the simple counter leaves it after three events at
  0, 10 and 20 ms: deferred, with count 3. The composite key is written
  with the identity in place of SHA-256. The same record as a Redis hash.
\<close>

definition scenario_config :: tracker_config where
  "scenario_config = \<lparr>limit = 2, deferInterval = 100, expireTime = 200, maxKeys = 0\<rparr>"

definition deferred_record :: event_record where
  "deferred_record =
     \<lparr> key = ''auth:login_fail'',
       category = ''auth'',
       ident = ''login_fail'',
       details = EmptyDetails,
       detailsHash = [],
       count = 3,
       lastEventTime = 20,
       expiresAt = 220,
       deferred = True,
       scheduledSendAt = Some 120,
       config = SimpleConfig 2 100,
       strategyData = NoData \<rparr>"

definition deferred_hash :: redis_hash where
  "deferred_hash =
     \<lparr> h_key = ''auth:login_fail'',
       h_category = ''auth'',
       h_id = ''login_fail'',
       h_details = EmptyDetails,
       h_detailsHash = [],
       h_count = 3,
       h_lastEventTime = 20,
       h_expiresAt = 220,
       h_deferred = True,
       h_scheduledSendAt = 120,
       h_strategyData = Some NoData,
       h_config = SimpleConfig 2 100,
       h_expireAt = 1 \<rparr>"

definition deferred_mem_tracker :: "mem_adapter tracker" where
  "deferred_mem_tracker =
     (new_tracker scenario_config SimpleCounterStrategy 3 1000)
       \<lparr>t_store := \<lparr>events = [(''auth:login_fail'', deferred_record)],
                    deferredKeys = [''auth:login_fail'']\<rparr>\<rparr>"

definition deferred_redis_tracker :: "redis_store tracker" where
  "deferred_redis_tracker =
     new_redis_tracker scenario_config SimpleCounterStrategy 3 1000
       \<lparr>isOpen = True,
        hashes = [(''event-tracker:auth:login_fail'', deferred_hash)],
        sizeCounter = 1,
        deferredSet = [(''auth:login_fail'', 120)]\<rparr>"

text \<open>
  A token bucket record of the identity \<open>(api, u1)\<close> with bucket size 5 and
  refill rate 10 per second, emptied at 0 ms by a burst of five events; the
  same record as a Redis hash in a store; and the event data of a further
  event of that identity.
\<close>

definition bucket_record :: event_record where
  "bucket_record =
     \<lparr> key = ''api:u1'',
       category = ''api'',
       ident = ''u1'',
       details = EmptyDetails,
       detailsHash = [],
       count = 5,
       lastEventTime = 0,
       expiresAt = 200,
       deferred = False,
       scheduledSendAt = None,
       config = TokenConfig 5 10 100,
       strategyData = TokenData 0 0 \<rparr>"

definition bucket_hash :: redis_hash where
  "bucket_hash =
     \<lparr> h_key = ''api:u1'',
       h_category = ''api'',
       h_id = ''u1'',
       h_details = EmptyDetails,
       h_detailsHash = [],
       h_count = 5,
       h_lastEventTime = 0,
       h_expiresAt = 200,
       h_deferred = False,
       h_scheduledSendAt = 0,
       h_strategyData = Some (TokenData 0 0),
       h_config = TokenConfig 5 10 100,
       h_expireAt = 1 \<rparr>"

definition bucket_store :: redis_store where
  "bucket_store =
     \<lparr> isOpen = True,
       hashes = [(''event-tracker:api:u1'', bucket_hash)],
       sizeCounter = 1,
       deferredSet = [] \<rparr>"

definition bucket_event :: event_data where
  "bucket_event =
     \<lparr> ev_compositeKey = ''api:u1'',
       ev_category = ''api'',
       ev_id = ''u1'',
       ev_details = EmptyDetails,
       ev_detailsHash = [] \<rparr>"

text \<open>
  A token bucket record of the identity \<open>(api, u1)\<close> with bucket size 1 and
  refill rate 5 per second: the event at 0 ms took the token, and the event
  at 20 ms was deferred at a level of 0.1 tokens and scheduled for 200 ms.
  The same record as a Redis hash in a store, the level written as \<open>0.1\<close>.
\<close>

definition drained_record :: event_record where
  "drained_record =
     \<lparr> key = ''api:u1'',
       category = ''api'',
       ident = ''u1'',
       details = EmptyDetails,
       detailsHash = [],
       count = 1,
       lastEventTime = 20,
       expiresAt = 220,
       deferred = True,
       scheduledSendAt = Some 200,
       config = TokenConfig 1 5 100,
       strategyData = TokenData (double (1 / 10)) 20 \<rparr>"



text \<open>
  A processor that throws \<open>new Error('boom')\<close> on every call, and one whose
  promise rejects with \<open>null\<close> on every call
  (\<open>async () => { throw null }\<close>). The tracker of the retry scenario: the
  deferred record above is due at 120 ms, \<open>maxRetries = 2\<close>,
  \<open>retryDelay = 10\<close>, a listener for \<open>error\<close> is registered, and the
  processor is the given one.
\<close>

definition always_throws :: processor where
  "always_throws attempt batch = Some (ThrownValue ''boom'')"

definition throws_null :: processor where
  "throws_null attempt batch = Some ThrownNull"

definition failing_tracker :: "processor \<Rightarrow> mem_adapter tracker" where
  "failing_tracker proc =
     deferred_mem_tracker
       \<lparr>t_processor := Some proc, t_maxRetries := 2, t_retryDelay := 10,
        t_errorListener := True\<rparr>"

section \<open>How the layers compose\<close>

text \<open>
  The lemmas of this section unfold one layer each: the in-process adapter in
  terms of the strategy, \<open>trackEvent\<close> in terms of the adapter, and the simple
  counter case by case.
\<close>

lemma mem_track_strategy:
  assumes "\<not> (mem_fresh_record a k ed now = None \<and> maxKeys tc > 0
            \<and> of_nat (length (events a)) \<ge> maxKeys tc \<and> map_of (events a) k = None)"
    and "strategy_track strat tc snow (mem_fresh_record a k ed now) (ed\<lparr>ev_compositeKey := k\<rparr>) = Inr (oc, r)"
  shows "InMemoryAdapter_track a k ed tc strat now snow =
     Inr (\<lparr>tr_outcome = oc, tr_record = Some r, tr_reason = None\<rparr>,
          a\<lparr>events := AList.update k r (events a),
            deferredKeys := (if deferred r then set_add k (deferredKeys a)
                             else set_delete k (deferredKeys a))\<rparr>)"
  using assms unfolding InMemoryAdapter_track_def Let_def by auto

lemma mem_track_key_limit:
  assumes "map_of (events a) k = None" "maxKeys tc > 0" "of_nat (length (events a)) \<ge> maxKeys tc"
  shows "InMemoryAdapter_track a k ed tc strat now snow =
     Inr (\<lparr>tr_outcome = Ignored, tr_record = None, tr_reason = Some ''key_limit_reached''\<rparr>, a)"
  using assms unfolding InMemoryAdapter_track_def Let_def mem_fresh_record_def by simp

lemma trackEvent_of_adapter:
  assumes "generateCompositeKey sha cat idt = Inr k"
    and "adapter_track (t_storage t) (t_store t) k
           \<lparr> ev_compositeKey = [], ev_category = the_string cat, ev_id = the_string idt,
             ev_details = dets, ev_detailsHash = generateDetailsHash sha dets \<rparr>
           (t_config t) (t_strategy t) now snow = Inr (res, store')"
  shows "trackEvent sha t cat idt dets now snow =
     (if tr_outcome res = Ignored
      then Inr (\<lparr> te_type = Ignored,
                  te_data = (case tr_reason res of None \<Rightarrow> tr_record res
                             | Some s \<Rightarrow> if s = [] then tr_record res else None),
                  te_reason = Some (case tr_reason res of None \<Rightarrow> ''already_deferred'' | Some s \<Rightarrow> s) \<rparr>,
                t\<lparr>t_store := store',
                  t_trace := t_trace t @
                    [Emit (NIgnored (case tr_reason res of None \<Rightarrow> ''already_deferred'' | Some s \<Rightarrow> s)
                             (the_string cat) (the_string idt) dets)]\<rparr>)
      else Inr (\<lparr> te_type = tr_outcome res, te_data = tr_record res, te_reason = None \<rparr>,
                t\<lparr>t_store := store',
                  t_trace := t_trace t @ [Emit (NOutcome (tr_outcome res) (tr_record res))]\<rparr>))"
  using assms unfolding trackEvent_def Let_def by simp

lemma generateCompositeKey_strings:
  assumes "c \<noteq> []" "i \<noteq> []"
  shows "generateCompositeKey sha (JStr c) (JStr i) = Inr (sha (c @ '':'' @ i))"
  using assms by (simp add: generateCompositeKey_def)

lemma trackEvent_mem_step:
  assumes st: "t_storage t = InMemoryAdapter"
    and k: "generateCompositeKey sha cat idt = Inr k"
    and ed: "ed = \<lparr> ev_compositeKey = [], ev_category = the_string cat, ev_id = the_string idt,
             ev_details = dets, ev_detailsHash = generateDetailsHash sha dets \<rparr>"
    and nolimit: "\<not> (mem_fresh_record (t_store t) k ed now = None \<and> maxKeys (t_config t) > 0
            \<and> of_nat (length (events (t_store t))) \<ge> maxKeys (t_config t)
            \<and> map_of (events (t_store t)) k = None)"
    and strat: "strategy_track (t_strategy t) (t_config t) snow
              (mem_fresh_record (t_store t) k ed now) (ed\<lparr>ev_compositeKey := k\<rparr>) = Inr (oc, r)"
  shows "trackEvent sha t cat idt dets now snow =
     Inr (\<lparr> te_type = oc, te_data = Some r,
            te_reason = (if oc = Ignored then Some ''already_deferred'' else None) \<rparr>,
          t\<lparr>t_store := (t_store t)\<lparr>events := AList.update k r (events (t_store t)),
                 deferredKeys := (if deferred r then set_add k (deferredKeys (t_store t))
                                  else set_delete k (deferredKeys (t_store t)))\<rparr>,
            t_trace := t_trace t @
              [if oc = Ignored
               then Emit (NIgnored ''already_deferred'' (the_string cat) (the_string idt) dets)
               else Emit (NOutcome oc (Some r))]\<rparr>)"
proof -
  have "adapter_track (t_storage t) (t_store t) k ed (t_config t) (t_strategy t) now snow =
     Inr (\<lparr>tr_outcome = oc, tr_record = Some r, tr_reason = None\<rparr>,
          (t_store t)\<lparr>events := AList.update k r (events (t_store t)),
            deferredKeys := (if deferred r then set_add k (deferredKeys (t_store t))
                             else set_delete k (deferredKeys (t_store t)))\<rparr>)"
    using mem_track_strategy [OF nolimit strat] by (simp add: st InMemoryAdapter_def)
  from trackEvent_of_adapter [OF k this [unfolded ed]]
  show ?thesis by simp
qed


lemma simple_track_new:
  "SimpleCounterStrategy_track tc now None ed =
     (let r = createBaseRecord ed now (expireTime tc) (SimpleConfig (limit tc) (deferInterval tc)) NoData
      in if 1 > limit tc
         then Inr (Deferred, r\<lparr>deferred := True, scheduledSendAt := Some (now + deferInterval tc)\<rparr>)
         else Inr (Immediate, r))"
  by (simp add: simple_limit_check_def createBaseRecord_def js_or_zero_def INITIAL_EVENT_COUNT_def Let_def)

lemma simple_track_active:
  assumes "\<not> deferred r" "config r = SimpleConfig l d"
  shows "SimpleCounterStrategy_track tc now (Some r) ed =
     (let r' = r\<lparr>count := count r + 1, lastEventTime := now, expiresAt := now + expireTime tc\<rparr>
      in if count r + 1 > l
         then Inr (Deferred, r'\<lparr>deferred := True, scheduledSendAt := Some (now + d)\<rparr>)
         else Inr (Immediate, r'))"
  using assms by (simp add: simple_limit_check_def js_or_zero_def Let_def)

lemma simple_track_deferred:
  assumes "deferred r"
  shows "SimpleCounterStrategy_track tc now (Some r) ed =
     Inr (Ignored, r\<lparr>expiresAt := now + expireTime tc\<rparr>)"
  using assms by (simp add: js_or_zero_def)

declare SimpleCounterStrategy_track.simps [simp del]

lemma mem_fresh_record_stored:
  assumes "map_of (events a) k = Some r" "\<not> now > expiresAt r" "detailsHash r = ev_detailsHash ed"
  shows "mem_fresh_record a k ed now = Some r"
  using assms by (simp add: mem_fresh_record_def)

lemma mem_fresh_record_absent:
  assumes "map_of (events a) k = None"
  shows "mem_fresh_record a k ed now = None"
  using assms by (simp add: mem_fresh_record_def)

section \<open>The simple counter scenario\<close>

text \<open>
  Claim C1. A tracker on the in-process adapter with the simple counter
  strategy and \<open>limit = 2\<close>, \<open>deferInterval = 100\<close>, \<open>expireTime = 200\<close> tracks
  four events of one identity with the same details, the identity not stored
  before, each event arriving before the record expires. The four calls
  return immediate, immediate, deferred and ignored with reason
  \<open>already_deferred\<close>; the counts returned, and the counts stored after each
  call, are 1, 2, 3, 3.
\<close>

theorem C1_simple_counter_scenario:
  fixes t0 :: "mem_adapter tracker"
  assumes storage: "t_storage t0 = InMemoryAdapter"
    and strat: "t_strategy t0 = SimpleCounterStrategy"
    and cfg: "t_config t0 = \<lparr>limit = 2, deferInterval = 100, expireTime = 200, maxKeys = 0\<rparr>"
    and cat: "c \<noteq> []" and idt: "i \<noteq> []"
    and absent: "map_of (events (t_store t0)) (sha (c @ '':'' @ i)) = None"
    and n2: "n2 \<le> s1 + 200" and n3: "n3 \<le> s2 + 200" and n4: "n4 \<le> s3 + 200"
  shows "\<exists>r1 t1 r2 t2 r3 t3 r4 t4.
           trackEvent sha t0 (JStr c) (JStr i) d n1 s1 = Inr (r1, t1) \<and>
           trackEvent sha t1 (JStr c) (JStr i) d n2 s2 = Inr (r2, t2) \<and>
           trackEvent sha t2 (JStr c) (JStr i) d n3 s3 = Inr (r3, t3) \<and>
           trackEvent sha t3 (JStr c) (JStr i) d n4 s4 = Inr (r4, t4) \<and>
           map te_type [r1, r2, r3, r4] = [Immediate, Immediate, Deferred, Ignored] \<and>
           te_reason r4 = Some ''already_deferred'' \<and>
           map (\<lambda>r. map_option count (te_data r)) [r1, r2, r3, r4] = [Some 1, Some 2, Some 3, Some 3] \<and>
           map (\<lambda>t. map_option count (map_of (events (t_store t)) (sha (c @ '':'' @ i))))
             [t1, t2, t3, t4] = [Some 1, Some 2, Some 3, Some 3]"
proof -
  define k where "k = sha (c @ '':'' @ i)"
  define ed where "ed = \<lparr> ev_compositeKey = [], ev_category = the_string (JStr c),
      ev_id = the_string (JStr i), ev_details = d, ev_detailsHash = generateDetailsHash sha d \<rparr>"
  have key: "generateCompositeKey sha (JStr c) (JStr i) = Inr k"
    unfolding k_def by (rule generateCompositeKey_strings [OF cat idt])
  define rec1 where "rec1 = createBaseRecord (ed\<lparr>ev_compositeKey := k\<rparr>) s1 200 (SimpleConfig 2 100) NoData"
  define rec2 where "rec2 = rec1\<lparr>count := 2, lastEventTime := s2, expiresAt := s2 + 200\<rparr>"
  define rec3 where "rec3 = rec2\<lparr>count := 3, lastEventTime := s3, expiresAt := s3 + 200,
      deferred := True, scheduledSendAt := Some (s3 + 100)\<rparr>"
  define rec4 where "rec4 = rec3\<lparr>expiresAt := s4 + 200\<rparr>"
  have absent': "map_of (events (t_store t0)) k = None"
    using absent by (simp add: k_def)
  \<comment> \<open>first event\<close>
  have f1: "mem_fresh_record (t_store t0) k ed n1 = None"
    by (rule mem_fresh_record_absent [OF absent'])
  have s1: "strategy_track (t_strategy t0) (t_config t0) s1
              (mem_fresh_record (t_store t0) k ed n1) (ed\<lparr>ev_compositeKey := k\<rparr>) = Inr (Immediate, rec1)"
    by (simp add: f1 strat cfg simple_track_new rec1_def)
  obtain t1 where e1: "trackEvent sha t0 (JStr c) (JStr i) d n1 s1 =
        Inr (\<lparr>te_type = Immediate, te_data = Some rec1, te_reason = None\<rparr>, t1)"
    and t1: "t_storage t1 = InMemoryAdapter" "t_strategy t1 = SimpleCounterStrategy"
      "t_config t1 = t_config t0" "map_of (events (t_store t1)) k = Some rec1"
    using trackEvent_mem_step [OF storage key ed_def _ s1] cfg
    by (simp add: storage strat update_conv')
  \<comment> \<open>second event\<close>
  have f2: "mem_fresh_record (t_store t1) k ed n2 = Some rec1"
    using n2 by (intro mem_fresh_record_stored t1) (simp_all add: rec1_def createBaseRecord_def ed_def)
  have s2: "strategy_track (t_strategy t1) (t_config t1) s2
              (mem_fresh_record (t_store t1) k ed n2) (ed\<lparr>ev_compositeKey := k\<rparr>) = Inr (Immediate, rec2)"
    by (simp add: f2 t1 cfg simple_track_active [where l = 2 and d = 100] rec1_def rec2_def
        createBaseRecord_def INITIAL_EVENT_COUNT_def)
  obtain t2 where e2: "trackEvent sha t1 (JStr c) (JStr i) d n2 s2 =
        Inr (\<lparr>te_type = Immediate, te_data = Some rec2, te_reason = None\<rparr>, t2)"
    and t2: "t_storage t2 = InMemoryAdapter" "t_strategy t2 = SimpleCounterStrategy"
      "t_config t2 = t_config t0" "map_of (events (t_store t2)) k = Some rec2"
    using trackEvent_mem_step [OF t1(1) key ed_def _ s2] cfg t1
    by (simp add: update_conv')
  \<comment> \<open>third event\<close>
  have f3: "mem_fresh_record (t_store t2) k ed n3 = Some rec2"
    using n3 by (intro mem_fresh_record_stored t2)
      (simp_all add: rec2_def rec1_def createBaseRecord_def ed_def)
  have s3: "strategy_track (t_strategy t2) (t_config t2) s3
              (mem_fresh_record (t_store t2) k ed n3) (ed\<lparr>ev_compositeKey := k\<rparr>) = Inr (Deferred, rec3)"
    by (simp add: f3 t2 cfg simple_track_active [where l = 2 and d = 100] rec1_def rec2_def rec3_def
        createBaseRecord_def)
  obtain t3 where e3: "trackEvent sha t2 (JStr c) (JStr i) d n3 s3 =
        Inr (\<lparr>te_type = Deferred, te_data = Some rec3, te_reason = None\<rparr>, t3)"
    and t3: "t_storage t3 = InMemoryAdapter" "t_strategy t3 = SimpleCounterStrategy"
      "t_config t3 = t_config t0" "map_of (events (t_store t3)) k = Some rec3"
    using trackEvent_mem_step [OF t2(1) key ed_def _ s3] cfg t2
    by (simp add: update_conv')
  \<comment> \<open>fourth event\<close>
  have f4: "mem_fresh_record (t_store t3) k ed n4 = Some rec3"
    using n4 by (intro mem_fresh_record_stored t3)
      (simp_all add: rec3_def rec2_def rec1_def createBaseRecord_def ed_def)
  have s4: "strategy_track (t_strategy t3) (t_config t3) s4
              (mem_fresh_record (t_store t3) k ed n4) (ed\<lparr>ev_compositeKey := k\<rparr>) = Inr (Ignored, rec4)"
    by (simp add: f4 t3 cfg simple_track_deferred rec3_def rec4_def)
  obtain t4 where e4: "trackEvent sha t3 (JStr c) (JStr i) d n4 s4 =
        Inr (\<lparr>te_type = Ignored, te_data = Some rec4, te_reason = Some ''already_deferred''\<rparr>, t4)"
    and t4: "map_of (events (t_store t4)) k = Some rec4"
    using trackEvent_mem_step [OF t3(1) key ed_def _ s4] cfg t3
    by (simp add: update_conv')
  have counts: "count rec1 = 1" "count rec2 = 2" "count rec3 = 3" "count rec4 = 3"
    by (simp_all add: rec1_def rec2_def rec3_def rec4_def createBaseRecord_def INITIAL_EVENT_COUNT_def)
  let ?r1 = "\<lparr>te_type = Immediate, te_data = Some rec1, te_reason = None\<rparr>"
  let ?r2 = "\<lparr>te_type = Immediate, te_data = Some rec2, te_reason = None\<rparr>"
  let ?r3 = "\<lparr>te_type = Deferred, te_data = Some rec3, te_reason = None\<rparr>"
  let ?r4 = "\<lparr>te_type = Ignored, te_data = Some rec4, te_reason = Some ''already_deferred''\<rparr>"
  have "trackEvent sha t0 (JStr c) (JStr i) d n1 s1 = Inr (?r1, t1) \<and>
        trackEvent sha t1 (JStr c) (JStr i) d n2 s2 = Inr (?r2, t2) \<and>
        trackEvent sha t2 (JStr c) (JStr i) d n3 s3 = Inr (?r3, t3) \<and>
        trackEvent sha t3 (JStr c) (JStr i) d n4 s4 = Inr (?r4, t4) \<and>
        map te_type [?r1, ?r2, ?r3, ?r4] = [Immediate, Immediate, Deferred, Ignored] \<and>
        te_reason ?r4 = Some ''already_deferred'' \<and>
        map (\<lambda>r. map_option count (te_data r)) [?r1, ?r2, ?r3, ?r4]
          = [Some 1, Some 2, Some 3, Some 3] \<and>
        map (\<lambda>t. map_option count (map_of (events (t_store t)) (sha (c @ '':'' @ i))))
          [t1, t2, t3, t4] = [Some 1, Some 2, Some 3, Some 3]"
    using e1 e2 e3 e4 t1(4) t2(4) t3(4) t4 counts
    unfolding k_def [symmetric] by simp
  then show ?thesis
    by - ((rule exI)+, assumption)
qed

theorem C1_simple_counter_scenario_witness:
  "''auth'' \<noteq> [] \<and> ''login_fail'' \<noteq> [] \<and>
   (10::rat) \<le> 0 + 200 \<and> (20::rat) \<le> 10 + 200 \<and> (30::rat) \<le> 20 + 200 \<and>
   (\<exists>r1 t1 r2 t2 r3 t3 r4 t4.
      trackEvent (\<lambda>s. s)
        (new_tracker \<lparr>limit = 2, deferInterval = 100, expireTime = 200, maxKeys = 0\<rparr>
           SimpleCounterStrategy 3 1000)
        (JStr ''auth'') (JStr ''login_fail'') EmptyDetails 0 0 = Inr (r1, t1) \<and>
      trackEvent (\<lambda>s. s) t1 (JStr ''auth'') (JStr ''login_fail'') EmptyDetails 10 10
        = Inr (r2, t2) \<and>
      trackEvent (\<lambda>s. s) t2 (JStr ''auth'') (JStr ''login_fail'') EmptyDetails 20 20
        = Inr (r3, t3) \<and>
      trackEvent (\<lambda>s. s) t3 (JStr ''auth'') (JStr ''login_fail'') EmptyDetails 30 30
        = Inr (r4, t4) \<and>
      map te_type [r1, r2, r3, r4] = [Immediate, Immediate, Deferred, Ignored] \<and>
      te_reason r4 = Some ''already_deferred'' \<and>
      map (\<lambda>r. map_option count (te_data r)) [r1, r2, r3, r4]
        = [Some 1, Some 2, Some 3, Some 3] \<and>
      map (\<lambda>t. map_option count
                 (map_of (events (t_store t)) ((\<lambda>s. s) (''auth'' @ '':'' @ ''login_fail''))))
          [t1, t2, t3, t4] = [Some 1, Some 2, Some 3, Some 3])"
proof -
  have "\<exists>r1 t1 r2 t2 r3 t3 r4 t4.
      trackEvent (\<lambda>s. s)
        (new_tracker \<lparr>limit = 2, deferInterval = 100, expireTime = 200, maxKeys = 0\<rparr>
           SimpleCounterStrategy 3 1000)
        (JStr ''auth'') (JStr ''login_fail'') EmptyDetails 0 0 = Inr (r1, t1) \<and>
      trackEvent (\<lambda>s. s) t1 (JStr ''auth'') (JStr ''login_fail'') EmptyDetails 10 10
        = Inr (r2, t2) \<and>
      trackEvent (\<lambda>s. s) t2 (JStr ''auth'') (JStr ''login_fail'') EmptyDetails 20 20
        = Inr (r3, t3) \<and>
      trackEvent (\<lambda>s. s) t3 (JStr ''auth'') (JStr ''login_fail'') EmptyDetails 30 30
        = Inr (r4, t4) \<and>
      map te_type [r1, r2, r3, r4] = [Immediate, Immediate, Deferred, Ignored] \<and>
      te_reason r4 = Some ''already_deferred'' \<and>
      map (\<lambda>r. map_option count (te_data r)) [r1, r2, r3, r4]
        = [Some 1, Some 2, Some 3, Some 3] \<and>
      map (\<lambda>t. map_option count
                 (map_of (events (t_store t)) ((\<lambda>s. s) (''auth'' @ '':'' @ ''login_fail''))))
          [t1, t2, t3, t4] = [Some 1, Some 2, Some 3, Some 3]"
    by (rule C1_simple_counter_scenario)
       (simp_all add: new_tracker_def InMemoryAdapter_new_def)
  then show ?thesis by simp
qed

section \<open>Events on a deferred record\<close>


lemma script_isNew_fresh:
  assumes "\<not> a_now args > h_expiresAt h" "h_detailsHash h = a_detailsHash args"
  shows "script_isNew (Some h) args = False"
  using assms by (simp add: script_isNew_def)

lemma trackScript_existing:
  assumes ex: "map_of (hashes s) recordKey = Some h"
    and fresh: "script_isNew (Some h) args = False"
    and arm: "script_arm args False (h_strategyData h) (h_count h) (h_deferred h)
                (h_scheduledSendAt h) = Inr (oc, cnt, dfr, sched, sd')"
  shows "trackScript s recordKey args =
     Inr (TrackReply oc cnt sched (a_now args + a_expireTime args) (h_config h) sd',
          s\<lparr>hashes := AList.update recordKey
                 \<lparr> h_key = a_key args, h_category = a_category args, h_id = a_id args,
                   h_details = a_details args, h_detailsHash = a_detailsHash args,
                   h_count = cnt, h_lastEventTime = a_now args,
                   h_expiresAt = a_now args + a_expireTime args,
                   h_deferred = dfr, h_scheduledSendAt = sched,
                   h_strategyData = Some sd', h_config = h_config h,
                   h_expireAt = \<lceil>(a_now args + a_expireTime args) / 1000\<rceil> \<rparr> (hashes s),
             deferredSet := (if dfr then AList.update (a_key args) sched (deferredSet s)
                             else AList.delete (a_key args) (deferredSet s))\<rparr>)"
  unfolding trackScript_def Let_def by (simp add: ex fresh arm)

lemma trackScript_reinit:
  assumes new: "script_isNew (map_of (hashes s) recordKey) args"
    and nolimit: "\<not> (a_maxKeys args > 0 \<and> of_int (sizeCounter s) \<ge> a_maxKeys args
                     \<and> map_of (hashes s) recordKey = None)"
    and arm: "script_arm args True (case map_of (hashes s) recordKey of None \<Rightarrow> None
                                     | Some h \<Rightarrow> h_strategyData h) 0 False 0
                = Inr (oc, cnt, dfr, sched, sd')"
  shows "trackScript s recordKey args =
     Inr (TrackReply oc cnt sched (a_now args + a_expireTime args) (a_initialConfig args) sd',
          s\<lparr>sizeCounter := (if map_of (hashes s) recordKey = None
                             then sizeCounter s + 1 else sizeCounter s),
            hashes := AList.update recordKey
                 \<lparr> h_key = a_key args, h_category = a_category args, h_id = a_id args,
                   h_details = a_details args, h_detailsHash = a_detailsHash args,
                   h_count = cnt, h_lastEventTime = a_now args,
                   h_expiresAt = a_now args + a_expireTime args,
                   h_deferred = dfr, h_scheduledSendAt = sched,
                   h_strategyData = Some sd', h_config = a_initialConfig args,
                   h_expireAt = \<lceil>(a_now args + a_expireTime args) / 1000\<rceil> \<rparr> (hashes s),
             deferredSet := (if dfr then AList.update (a_key args) sched (deferredSet s)
                             else AList.delete (a_key args) (deferredSet s))\<rparr>)"
  using new nolimit arm unfolding trackScript_def Let_def
  by (cases "map_of (hashes s) recordKey") simp_all

lemma trackScript_key_limit:
  assumes "map_of (hashes s) recordKey = None" "a_maxKeys args > 0"
    "of_int (sizeCounter s) \<ge> a_maxKeys args"
  shows "trackScript s recordKey args = Inr (KeyLimitReached, s)"
  using assms unfolding trackScript_def Let_def by (simp add: script_isNew_def)


lemma js_or_zero_id [simp]: "js_or_zero x = x"
  by (simp add: js_or_zero_def)

lemma RedisAdapter_track_reply:
  assumes "isOpen s"
    and "trackScript s (getRecordKey k) (track_args k ed tc strat now)
           = Inr (TrackReply oc cnt sched expAt cfg sd, s')"
  shows "RedisAdapter_track s k ed tc strat now snow =
     Inr (\<lparr>tr_outcome = oc,
            tr_record = Some (reply_record k ed now oc cnt sched expAt cfg sd),
            tr_reason = None\<rparr>, s')"
  using assms by (simp add: RedisAdapter_track_def)

lemma RedisAdapter_track_key_limit:
  assumes "isOpen s"
    and "trackScript s (getRecordKey k) (track_args k ed tc strat now) = Inr (KeyLimitReached, s')"
  shows "RedisAdapter_track s k ed tc strat now snow =
     Inr (\<lparr>tr_outcome = Ignored, tr_record = None, tr_reason = Some ''key_limit_reached''\<rparr>, s')"
  using assms by (simp add: RedisAdapter_track_def)

lemma script_arm_simple:
  "script_arm (track_args k ed tc SimpleCounterStrategy now) isNew sd count0 deferred0 sched0 =
     script_simple now (limit tc) (deferInterval tc) count0 deferred0 sched0"
  by (simp add: script_arm_def track_args_def)

lemma mem_already_deferred:
  fixes t :: "mem_adapter tracker"
  assumes mem: "t_storage t = InMemoryAdapter" "t_strategy t = SimpleCounterStrategy"
    and key: "generateCompositeKey sha cat idt = Inr k"
    and stored: "map_of (events (t_store t)) k = Some r" "deferred r" "\<not> now > expiresAt r"
      "detailsHash r = generateDetailsHash sha dets"
  shows "\<exists>t'. trackEvent sha t cat idt dets now snow =
            Inr (\<lparr>te_type = Ignored,
                   te_data = Some (r\<lparr>expiresAt := snow + expireTime (t_config t)\<rparr>),
                   te_reason = Some ''already_deferred''\<rparr>, t')
          \<and> map_of (events (t_store t')) k = Some (r\<lparr>expiresAt := snow + expireTime (t_config t)\<rparr>)"
proof -
  define ed where "ed = \<lparr> ev_compositeKey = [], ev_category = the_string cat,
      ev_id = the_string idt, ev_details = dets, ev_detailsHash = generateDetailsHash sha dets \<rparr>"
  have fresh: "mem_fresh_record (t_store t) k ed now = Some r"
    using stored by (intro mem_fresh_record_stored) (simp_all add: ed_def)
  have strat: "strategy_track (t_strategy t) (t_config t) snow
                 (mem_fresh_record (t_store t) k ed now) (ed\<lparr>ev_compositeKey := k\<rparr>)
               = Inr (Ignored, r\<lparr>expiresAt := snow + expireTime (t_config t)\<rparr>)"
    by (simp add: fresh mem simple_track_deferred stored)
  show ?thesis
    using trackEvent_mem_step [OF mem(1) key ed_def _ strat]
    by (simp add: fresh update_conv')
qed

lemma redis_already_deferred:
  fixes u :: "redis_store tracker"
  assumes redis: "t_storage u = RedisAdapter" "t_strategy u = SimpleCounterStrategy"
      "isOpen (t_store u)"
    and key: "generateCompositeKey sha cat idt = Inr k"
    and hstored: "map_of (hashes (t_store u)) (getRecordKey k) = Some h" "h_deferred h"
      "\<not> now > h_expiresAt h" "h_detailsHash h = generateDetailsHash sha dets"
  shows "\<exists>res u' h'. trackEvent sha u cat idt dets now snow = Inr (res, u')
          \<and> te_type res = Ignored \<and> te_reason res = Some ''already_deferred''
          \<and> map_of (hashes (t_store u')) (getRecordKey k) = Some h'
          \<and> h_count h' = h_count h \<and> h_deferred h'
          \<and> h_expiresAt h' = now + expireTime (t_config u)"
proof -
  define ed where "ed = \<lparr> ev_compositeKey = [], ev_category = the_string cat,
      ev_id = the_string idt, ev_details = dets, ev_detailsHash = generateDetailsHash sha dets \<rparr>"
  define args where "args = track_args k ed (t_config u) SimpleCounterStrategy now"
  have fresh: "script_isNew (Some h) args = False"
    using hstored by (intro script_isNew_fresh) (simp_all add: args_def track_args_def ed_def)
  have arm: "script_arm args False (h_strategyData h) (h_count h) (h_deferred h)
               (h_scheduledSendAt h)
             = Inr (Ignored, h_count h, True, h_scheduledSendAt h, NoData)"
    unfolding args_def script_arm_simple by (simp add: script_simple_def hstored)
  note script = trackScript_existing [OF hstored(1) fresh arm]
  have track: "adapter_track (t_storage u) (t_store u) k ed (t_config u) (t_strategy u) now snow
        = Inr (\<lparr>tr_outcome = Ignored,
                 tr_record = Some (reply_record k ed now Ignored (h_count h) (h_scheduledSendAt h)
                                     (a_now args + a_expireTime args) (h_config h) NoData),
                 tr_reason = None\<rparr>,
               (t_store u)\<lparr>hashes := AList.update (getRecordKey k)
                 \<lparr> h_key = a_key args, h_category = a_category args, h_id = a_id args,
                   h_details = a_details args, h_detailsHash = a_detailsHash args,
                   h_count = h_count h, h_lastEventTime = a_now args,
                   h_expiresAt = a_now args + a_expireTime args,
                   h_deferred = True, h_scheduledSendAt = h_scheduledSendAt h,
                   h_strategyData = Some NoData, h_config = h_config h,
                   h_expireAt = \<lceil>(a_now args + a_expireTime args) / 1000\<rceil> \<rparr>
                   (hashes (t_store u)),
                 deferredSet := AList.update (a_key args) (h_scheduledSendAt h)
                                  (deferredSet (t_store u))\<rparr>)"
    using RedisAdapter_track_reply [OF redis(3) script [unfolded args_def]]
    by (simp add: redis RedisAdapter_def args_def)
  show ?thesis
    using trackEvent_of_adapter [OF key track [unfolded ed_def]]
    by (simp add: update_conv' args_def track_args_def)
qed

text \<open>
  On the ignored path the track script still rewrites the whole hash, and
  with it \<open>lastEventTime\<close>, which the in-process strategy leaves alone.
\<close>

lemma script_ignored_moves_lastEventTime:
  assumes hstored: "map_of (hashes s) recordKey = Some h"
    and hfresh: "\<not> a_now args > h_expiresAt h" "h_detailsHash h = a_detailsHash args"
    and dfr: "h_deferred h"
    and ty: "a_strategyType args = ''simple''"
  shows "\<exists>cnt sched expAt cfg sd s' h'.
           trackScript s recordKey args = Inr (TrackReply Ignored cnt sched expAt cfg sd, s')
           \<and> map_of (hashes s') recordKey = Some h'
           \<and> h_lastEventTime h' = a_now args \<and> h_count h' = h_count h"
proof -
  have fresh: "script_isNew (Some h) args = False"
    by (rule script_isNew_fresh [OF hfresh])
  have arm: "script_arm args False (h_strategyData h) (h_count h) (h_deferred h)
               (h_scheduledSendAt h)
             = Inr (Ignored, h_count h, True, h_scheduledSendAt h, NoData)"
    by (simp add: script_arm_def script_simple_def ty dfr)
  show ?thesis
    using trackScript_existing [OF hstored fresh arm]
    by (simp add: update_conv')
qed

text \<open>
  Claim C2 as stated fails for the sliding window strategy, which has no
  branch for a deferred record and decides every event anew. With limit 1
  and a window of 1000 ms, the event at 5 ms defers the record; the event at
  10 ms finds it deferred and is answered \<open>deferred\<close> again, not \<open>ignored\<close>,
  and \<open>lastEventTime\<close> moves from 5 to 10.
\<close>

theorem C2_counterexample:
  "run_summary
     (trackEvents id
        (new_tracker \<lparr>limit = 5, deferInterval = 100, expireTime = 200, maxKeys = 0\<rparr>
           (SlidingWindowStrategy 1 1000) 3 1000)
        [(JStr ''auth'', JStr ''login_fail'', EmptyDetails, 0, 0),
         (JStr ''auth'', JStr ''login_fail'', EmptyDetails, 5, 5),
         (JStr ''auth'', JStr ''login_fail'', EmptyDetails, 10, 10)])
   = Inr [(Immediate, None, Some 1, Some 0),
          (Deferred, None, Some 1, Some 5),
          (Deferred, None, Some 1, Some 10)]"
  by (simp add: run_summary_def result_summary_def trackEvent_def generateCompositeKey_def
      new_tracker_def InMemoryAdapter_new_def InMemoryAdapter_def InMemoryAdapter_track_def
      mem_fresh_record_def createBaseRecord_def INITIAL_EVENT_COUNT_def
      set_add_def set_delete_def SLIDE_THRESHOLD_MULTIPLIER_def Let_def)


text \<open>
  Claim C2, as amended. Under the simple counter strategy, an event for an
  identity whose stored record is deferred and still fresh (not expired, same
  details) is ignored with reason \<open>already_deferred\<close>, on the in-process
  adapter and on the distributed one. In process the stored record changes in
  \<open>expiresAt\<close> only, which becomes the strategy's clock reading plus
  \<open>expireTime\<close>: \<open>count\<close> and \<open>lastEventTime\<close> stay. In Redis the stored
  hash keeps its \<open>count\<close>, stays deferred and has \<open>expiresAt\<close> refreshed.
\<close>

theorem C2_simple_already_deferred:
  fixes t :: "mem_adapter tracker" and u :: "redis_store tracker"
  assumes mem: "t_storage t = InMemoryAdapter" "t_strategy t = SimpleCounterStrategy"
    and redis: "t_storage u = RedisAdapter" "t_strategy u = SimpleCounterStrategy"
      "isOpen (t_store u)"
    and key: "generateCompositeKey sha cat idt = Inr k"
    and stored: "map_of (events (t_store t)) k = Some r" "deferred r" "\<not> now > expiresAt r"
      "detailsHash r = generateDetailsHash sha dets"
    and hstored: "map_of (hashes (t_store u)) (getRecordKey k) = Some h" "h_deferred h"
      "\<not> now > h_expiresAt h" "h_detailsHash h = generateDetailsHash sha dets"
  shows "(\<exists>t'. trackEvent sha t cat idt dets now snow =
            Inr (\<lparr>te_type = Ignored,
                   te_data = Some (r\<lparr>expiresAt := snow + expireTime (t_config t)\<rparr>),
                   te_reason = Some ''already_deferred''\<rparr>, t')
          \<and> map_of (events (t_store t')) k
              = Some (r\<lparr>expiresAt := snow + expireTime (t_config t)\<rparr>))
       \<and> (\<exists>res u' h'. trackEvent sha u cat idt dets now snow = Inr (res, u')
          \<and> te_type res = Ignored \<and> te_reason res = Some ''already_deferred''
          \<and> map_of (hashes (t_store u')) (getRecordKey k) = Some h'
          \<and> h_count h' = h_count h \<and> h_deferred h'
          \<and> h_expiresAt h' = now + expireTime (t_config u))"
  using mem_already_deferred [OF mem key stored] redis_already_deferred [OF redis key hstored]
  by (rule conjI)

theorem C2_simple_already_deferred_witness:
  "deferred deferred_record \<and> h_deferred deferred_hash \<and>
   \<not> (30::rat) > expiresAt deferred_record \<and> \<not> (30::rat) > h_expiresAt deferred_hash \<and>
   (\<exists>t'. trackEvent id deferred_mem_tracker (JStr ''auth'') (JStr ''login_fail'') EmptyDetails 30 31 =
            Inr (\<lparr>te_type = Ignored,
                   te_data = Some (deferred_record
                     \<lparr>expiresAt := 31 + expireTime (t_config deferred_mem_tracker)\<rparr>),
                   te_reason = Some ''already_deferred''\<rparr>, t')
          \<and> map_of (events (t_store t')) ''auth:login_fail''
              = Some (deferred_record
                        \<lparr>expiresAt := 31 + expireTime (t_config deferred_mem_tracker)\<rparr>))
   \<and> (\<exists>res u' h'. trackEvent id deferred_redis_tracker (JStr ''auth'') (JStr ''login_fail'')
                      EmptyDetails 30 31 = Inr (res, u')
          \<and> te_type res = Ignored \<and> te_reason res = Some ''already_deferred''
          \<and> map_of (hashes (t_store u')) (getRecordKey ''auth:login_fail'') = Some h'
          \<and> h_count h' = h_count deferred_hash \<and> h_deferred h'
          \<and> h_expiresAt h' = 30 + expireTime (t_config deferred_redis_tracker))"
proof -
  have "(\<exists>t'. trackEvent id deferred_mem_tracker (JStr ''auth'') (JStr ''login_fail'') EmptyDetails 30 31 =
            Inr (\<lparr>te_type = Ignored,
                   te_data = Some (deferred_record
                     \<lparr>expiresAt := 31 + expireTime (t_config deferred_mem_tracker)\<rparr>),
                   te_reason = Some ''already_deferred''\<rparr>, t')
          \<and> map_of (events (t_store t')) ''auth:login_fail''
              = Some (deferred_record
                        \<lparr>expiresAt := 31 + expireTime (t_config deferred_mem_tracker)\<rparr>))
   \<and> (\<exists>res u' h'. trackEvent id deferred_redis_tracker (JStr ''auth'') (JStr ''login_fail'')
                      EmptyDetails 30 31 = Inr (res, u')
          \<and> te_type res = Ignored \<and> te_reason res = Some ''already_deferred''
          \<and> map_of (hashes (t_store u')) (getRecordKey ''auth:login_fail'') = Some h'
          \<and> h_count h' = h_count deferred_hash \<and> h_deferred h'
          \<and> h_expiresAt h' = 30 + expireTime (t_config deferred_redis_tracker))"
    by (rule C2_simple_already_deferred)
       (simp_all add: deferred_mem_tracker_def deferred_redis_tracker_def new_tracker_def
          new_redis_tracker_def generateCompositeKey_def deferred_record_def deferred_hash_def
          getRecordKey_def KEY_PREFIX_def)
  then show ?thesis
    by (simp add: deferred_record_def deferred_hash_def)
qed

section \<open>The freshness rule\<close>


lemma mem_fresh_record_None_iff:
  "mem_fresh_record a k ed now = None \<longleftrightarrow>
     (case map_of (events a) k of
        None \<Rightarrow> True
      | Some r \<Rightarrow> now > expiresAt r \<or> detailsHash r \<noteq> ev_detailsHash ed)"
  by (simp add: mem_fresh_record_def Let_def split: option.splits)

lemma script_isNew_iff:
  "script_isNew existing args \<longleftrightarrow>
     (case existing of
        None \<Rightarrow> True
      | Some h \<Rightarrow> a_now args > h_expiresAt h \<or> h_detailsHash h \<noteq> a_detailsHash args)"
  by (simp add: script_isNew_def Let_def split: option.splits)

lemma strategy_track_new_count:
  "\<exists>oc r. strategy_track strat tc now None ed = Inr (oc, r) \<and> count r = 1
     \<and> lastEventTime r = now \<and> expiresAt r = now + expireTime tc
     \<and> key r = ev_compositeKey ed \<and> detailsHash r = ev_detailsHash ed"
  by (cases strat)
     (simp_all add: simple_track_new createBaseRecord_def INITIAL_EVENT_COUNT_def Let_def)

lemma mem_track_reinit:
  assumes stored: "map_of (events a) k = Some r"
    and stale: "now > expiresAt r \<or> detailsHash r \<noteq> ev_detailsHash ed"
  shows "\<exists>oc r' a'. InMemoryAdapter_track a k ed tc strat now snow =
            Inr (\<lparr>tr_outcome = oc, tr_record = Some r', tr_reason = None\<rparr>, a')
          \<and> count r' = 1 \<and> map_of (events a') k = Some r'"
proof -
  have fresh: "mem_fresh_record a k ed now = None"
    using stored stale by (simp add: mem_fresh_record_None_iff)
  obtain oc r' where st: "strategy_track strat tc snow None (ed\<lparr>ev_compositeKey := k\<rparr>) = Inr (oc, r')"
    and cnt: "count r' = 1"
    using strategy_track_new_count by blast
  have "InMemoryAdapter_track a k ed tc strat now snow =
     Inr (\<lparr>tr_outcome = oc, tr_record = Some r', tr_reason = None\<rparr>,
          a\<lparr>events := AList.update k r' (events a),
            deferredKeys := (if deferred r' then set_add k (deferredKeys a)
                             else set_delete k (deferredKeys a))\<rparr>)"
    by (rule mem_track_strategy) (simp_all add: stored fresh st)
  then show ?thesis
    using cnt by (simp add: update_conv')
qed

lemma script_reinit_counts_one:
  assumes new: "script_isNew (map_of (hashes s) recordKey) args"
    and nolimit: "\<not> (a_maxKeys args > 0 \<and> of_int (sizeCounter s) \<ge> a_maxKeys args
                     \<and> map_of (hashes s) recordKey = None)"
    and ty: "a_strategyType args = ''simple''
             \<or> (a_strategyType args = ''token-bucket'' \<and> 1 \<le> a_sParam1 args)
             \<or> (a_strategyType args = ''sliding-window'' \<and> 0 < a_sParam1 args
                  \<and> a_sParam2 args \<noteq> 0)"
  shows "\<exists>reply s' h'. trackScript s recordKey args = Inr (reply, s')
           \<and> map_of (hashes s') recordKey = Some h' \<and> h_count h' = 1"
proof -
  let ?sd = "case map_of (hashes s) recordKey of None \<Rightarrow> None | Some h \<Rightarrow> h_strategyData h"
  have "\<exists>oc dfr sched sd'. script_arm args True ?sd 0 False 0 = Inr (oc, 1, dfr, sched, sd')"
    using ty
    by (auto simp: script_arm_def script_simple_def script_token_def script_token_decide_def
          script_window_def lua_mod_def Let_def)
  then obtain oc dfr sched sd' where
    arm: "script_arm args True ?sd 0 False 0 = Inr (oc, 1, dfr, sched, sd')"
    by blast
  show ?thesis
    using trackScript_reinit [OF new nolimit arm]
    by (simp add: update_conv')
qed

text \<open>
  Claim C3 asks that a record reinitialised by \<open>track\<close> (expired, or details
  changed) restarts with count 1. Both adapters apply the freshness rule as
  stated (\<open>mem_fresh_record_None_iff\<close>, \<open>script_isNew_iff\<close>), and in process
  every strategy restarts the count at 1 (\<open>mem_track_reinit\<close>). The track
  script has no initial count: it starts from 0 and adds 1 only in the
  allowing branch of the arm, so it restarts at 1 for the simple counter, for
  a bucket size of at least 1 and for a positive window limit
  (\<open>script_reinit_counts_one\<close>), and at 0 otherwise. Evaluated on a sliding
  window strategy with
  limit 0: an identity is tracked twice, the second time with changed
  details. On the distributed adapter both events are deferred with count
  0; on the in-process adapter both are immediate with count 1.
\<close>

theorem C3_reinit_count_diverges:
  "run_summary
     (trackEvents id
        (new_redis_tracker scenario_config (SlidingWindowStrategy 0 1000) 3 1000 empty_redis_store)
        [(JStr ''auth'', JStr ''login_fail'', Payload ''ip=1.1.1.1'', 0, 0),
         (JStr ''auth'', JStr ''login_fail'', Payload ''ip=2.2.2.2'', 10, 10)])
   = Inr [(Deferred, None, Some 0, Some 0), (Deferred, None, Some 0, Some 10)]
   \<and>
   run_summary
     (trackEvents id
        (new_tracker scenario_config (SlidingWindowStrategy 0 1000) 3 1000)
        [(JStr ''auth'', JStr ''login_fail'', Payload ''ip=1.1.1.1'', 0, 0),
         (JStr ''auth'', JStr ''login_fail'', Payload ''ip=2.2.2.2'', 10, 10)])
   = Inr [(Immediate, None, Some 1, Some 0), (Immediate, None, Some 1, Some 10)]"
  by (simp add: run_summary_def result_summary_def trackEvent_def generateCompositeKey_def
      new_tracker_def new_redis_tracker_def empty_redis_store_def scenario_config_def
      InMemoryAdapter_new_def InMemoryAdapter_def InMemoryAdapter_track_def
      RedisAdapter_def RedisAdapter_track_def trackScript_def script_isNew_def script_arm_def
      script_window_def track_args_def reply_record_def getRecordKey_def KEY_PREFIX_def
      mem_fresh_record_def createBaseRecord_def INITIAL_EVENT_COUNT_def js_trunc_def
      set_add_def set_delete_def SLIDE_THRESHOLD_MULTIPLIER_def Let_def)

section \<open>Rounding to a double\<close>

text \<open>
  What \<open>double\<close> computes. The exponent \<open>ilog2\<close> finds is the binary exponent
  (\<open>ilog2_bounds\<close>, \<open>ilog2_unique\<close>). \<open>double x\<close> is a multiple of the spacing
  of the doubles at \<open>x\<close>, with a significand of at most \<open>2^53\<close> in
  magnitude, and no further from \<open>x\<close> than half the spacing (\<open>double_near\<close>);
  halfway between two integers \<open>round_half_even\<close> takes the even one
  (\<open>round_half_even_tie\<close>). A number that is a double already, normal or
  subnormal, is left as it is (\<open>double_normal\<close>, \<open>double_subnormal\<close>).
\<close>

lemma pow2_powi: "pow2 k = 2 powi k"
  by (simp add: pow2_def power_int_def field_simps)

lemma pow2_pos [simp]: "0 < pow2 k"
  by (simp add: pow2_powi)

lemma pow2_nonzero [simp]: "pow2 k \<noteq> 0"
  using pow2_pos [of k] by linarith

lemma pow2_abs [simp]: "\<bar>pow2 k\<bar> = pow2 k"
  using pow2_pos [of k] by linarith

lemma pow2_add: "pow2 (a + b) = pow2 a * pow2 b"
  by (simp add: pow2_powi power_int_add)

lemma pow2_diff: "pow2 (a - b) = pow2 a / pow2 b"
  by (simp add: pow2_powi power_int_diff)

lemma pow2_mono: "a \<le> b \<Longrightarrow> pow2 a \<le> pow2 b"
  by (simp add: pow2_powi power_int_increasing)

lemma pow2_nat: "0 \<le> k \<Longrightarrow> pow2 k = 2 ^ nat k"
  by (simp add: pow2_def)

lemma bitlen_pow2:
  assumes "0 < (n::int)"
  shows "pow2 (bitlen n - 1) \<le> of_int n" "of_int n < pow2 (bitlen n)"
proof -
  from bitlen_bounds [OF assms] have lo: "2 ^ nat (bitlen n - 1) \<le> n" and hi: "n < 2 ^ nat (bitlen n)"
    by simp_all
  have b: "0 < bitlen n"
  proof (rule ccontr)
    assume "\<not> 0 < bitlen n"
    then have "nat (bitlen n) = 0" by simp
    with hi assms show False by simp
  qed
  have "(of_int (2 ^ nat (bitlen n - 1)) :: rat) \<le> of_int n"
    using lo by (rule of_int_le_iff [THEN iffD2])
  then show "pow2 (bitlen n - 1) \<le> of_int n"
    using b by (simp add: pow2_nat)
  have "(of_int n :: rat) < of_int (2 ^ nat (bitlen n))"
    using hi by (rule of_int_less_iff [THEN iffD2])
  then show "of_int n < pow2 (bitlen n)"
    using b by (simp add: pow2_nat)
qed

lemma ilog2_bounds:
  assumes "0 < x"
  shows "pow2 (ilog2 x) \<le> x \<and> x < pow2 (ilog2 x + 1)"
proof -
  obtain p q where pq: "quotient_of x = (p, q)"
    by (cases "quotient_of x")
  then have q: "0 < q" and x: "x = of_int p / of_int q"
    by (simp_all add: quotient_of_denom_pos quotient_of_div)
  from assms x q have p: "0 < p"
    by (simp add: zero_less_divide_iff)
  let ?d = "bitlen p - bitlen q"
  have lo: "pow2 (?d - 1) \<le> x"
  proof -
    have "pow2 (?d - 1) = pow2 (bitlen p - 1) / pow2 (bitlen q)"
      using pow2_diff [of "bitlen p - 1" "bitlen q"] by (simp add: algebra_simps)
    also have "\<dots> \<le> of_int p / of_int q"
      using bitlen_pow2 [OF p] bitlen_pow2 [OF q] q p
      by (intro frac_le) (simp_all add: less_imp_le)
    finally show ?thesis by (simp add: x)
  qed
  have hi: "x < pow2 (?d + 1)"
  proof -
    have "of_int p / of_int q < pow2 (bitlen p) / pow2 (bitlen q - 1)"
      using bitlen_pow2 [OF p] bitlen_pow2 [OF q] q p
      by (intro frac_less) simp_all
    also have "\<dots> = pow2 (?d + 1)"
      using pow2_diff [of "bitlen p" "bitlen q - 1"] by (simp add: algebra_simps)
    finally show ?thesis by (simp add: x)
  qed
  show ?thesis
  proof (cases "pow2 ?d \<le> x")
    case True
    then have "ilog2 x = ?d"
      by (simp add: ilog2_def pq Let_def)
    with True hi show ?thesis by simp
  next
    case False
    then have "ilog2 x = ?d - 1"
      by (simp add: ilog2_def pq Let_def)
    with False lo show ?thesis by simp
  qed
qed

lemma round_half_even_near: "\<bar>of_int (round_half_even y) - y\<bar> \<le> 1 / 2"
proof -
  have "of_int \<lfloor>y\<rfloor> \<le> y" "y < of_int \<lfloor>y\<rfloor> + 1"
    by linarith+
  then show ?thesis
    unfolding round_half_even_def Let_def by (auto simp: abs_le_iff) 
qed

lemma round_half_even_int [simp]: "round_half_even (of_int n) = n"
  by (simp add: round_half_even_def)

lemma round_half_even_tie:
  assumes "y = of_int n + 1 / 2"
  shows "even (round_half_even y)"
proof -
  have f: "\<lfloor>y\<rfloor> = n"
    unfolding assms by linarith
  show ?thesis
    by (simp add: round_half_even_def f Let_def assms)
qed

lemma double_near:
  assumes "x \<noteq> 0"
  shows "\<exists>n. double x = of_int n * pow2 (max (ilog2 \<bar>x\<bar>) (- 1022) - 52) \<and>
             \<bar>double x - x\<bar> \<le> pow2 (max (ilog2 \<bar>x\<bar>) (- 1022) - 52) / 2 \<and>
             \<bar>n\<bar> \<le> 2 ^ 53"
proof -
  let ?e = "max (ilog2 \<bar>x\<bar>) (- 1022)"
  let ?u = "pow2 (?e - 52)"
  let ?n = "round_half_even (x / ?u)"
  have d: "double x = of_int ?n * ?u"
    using assms by (simp add: double_def Let_def)
  have u: "0 < ?u" by simp
  have "\<bar>of_int ?n - x / ?u\<bar> \<le> 1 / 2"
    by (rule round_half_even_near)
  then have "\<bar>of_int ?n - x / ?u\<bar> * ?u \<le> 1 / 2 * ?u"
    by (rule mult_right_mono) (rule less_imp_le [OF u])
  moreover have "\<bar>of_int ?n - x / ?u\<bar> * ?u = \<bar>of_int ?n * ?u - x\<bar>"
  proof -
    have "\<bar>of_int ?n - x / ?u\<bar> * ?u = \<bar>(of_int ?n - x / ?u) * ?u\<bar>"
      by (simp add: abs_mult abs_of_pos [OF u])
    also have "(of_int ?n - x / ?u) * ?u = of_int ?n * ?u - x"
    proof -
      show ?thesis by (simp add: left_diff_distrib)
    qed
    finally show ?thesis .
  qed
  ultimately have near: "\<bar>double x - x\<bar> \<le> ?u / 2"
    by (simp add: d)
  have ax: "0 < \<bar>x\<bar>" using assms by simp
  from ilog2_bounds [OF ax] have "\<bar>x\<bar> < pow2 (ilog2 \<bar>x\<bar> + 1)" by simp
  also have "\<dots> \<le> pow2 (?e + 1)"
    by (rule pow2_mono) simp
  finally have "\<bar>x\<bar> < pow2 (?e + 1)" .
  then have "\<bar>x\<bar> / ?u < pow2 (?e + 1) / ?u"
    using u by (simp add: divide_strict_right_mono)
  also have "pow2 (?e + 1) / ?u = pow2 53"
    using pow2_diff [of "?e + 1" "?e - 52"] by simp
  finally have q: "\<bar>x / ?u\<bar> < 2 ^ 53"
    using u by (simp add: pow2_def)
  have "\<bar>(of_int ?n :: rat)\<bar> \<le> \<bar>of_int ?n - x / ?u\<bar> + \<bar>x / ?u\<bar>"
    by linarith
  also have "\<dots> < 1 / 2 + 2 ^ 53"
    using round_half_even_near [of "x / ?u"] q by linarith
  finally have "(of_int \<bar>?n\<bar> :: rat) < of_int (2 ^ 53 + 1)"
    by simp
  then have "\<bar>?n\<bar> < 2 ^ 53 + 1"
    by (simp only: of_int_less_iff)
  then have "\<bar>?n\<bar> \<le> 2 ^ 53" by simp
  with d near show ?thesis by blast
qed

lemma pow2_less_cancel: "pow2 a < pow2 b \<Longrightarrow> a < b"
  using pow2_mono [of b a] by (cases "a < b") simp_all

lemma ilog2_unique:
  assumes "pow2 a \<le> x" "x < pow2 (a + 1)"
  shows "ilog2 x = a"
proof -
  have "0 < pow2 a" by simp
  with assms(1) have x: "0 < x" by linarith
  from ilog2_bounds [OF x] have b: "pow2 (ilog2 x) \<le> x" "x < pow2 (ilog2 x + 1)"
    by simp_all
  from assms(1) b(2) have "pow2 a < pow2 (ilog2 x + 1)" by linarith
  then have 1: "a < ilog2 x + 1" by (rule pow2_less_cancel)
  from b(1) assms(2) have "pow2 (ilog2 x) < pow2 (a + 1)" by linarith
  then have 2: "ilog2 x < a + 1" by (rule pow2_less_cancel)
  from 1 2 show ?thesis by simp
qed

lemma double_normal:
  assumes lo: "2 ^ 52 \<le> \<bar>n\<bar>" and hi: "\<bar>n\<bar> < 2 ^ 53" and k: "- 1074 \<le> k"
  shows "double (of_int n * pow2 k) = of_int n * pow2 k"
proof -
  let ?x = "of_int n * pow2 k :: rat"
  have ax: "\<bar>?x\<bar> = of_int \<bar>n\<bar> * pow2 k"
    by (simp add: abs_mult)
  have "(of_int (2 ^ 52) :: rat) \<le> of_int \<bar>n\<bar>"
    using lo by (simp only: of_int_le_iff)
  then have "pow2 52 * pow2 k \<le> \<bar>?x\<bar>"
    unfolding ax by (intro mult_right_mono) (simp_all add: pow2_def less_imp_le)
  then have 1: "pow2 (52 + k) \<le> \<bar>?x\<bar>"
    by (simp add: pow2_add)
  have "(of_int \<bar>n\<bar> :: rat) < of_int (2 ^ 53)"
    using hi by (simp only: of_int_less_iff)
  then have "\<bar>?x\<bar> < pow2 53 * pow2 k"
    unfolding ax by (intro mult_strict_right_mono) (simp_all add: pow2_def)
  then have 2: "\<bar>?x\<bar> < pow2 (52 + k + 1)"
    using pow2_add [of 53 k] by (simp add: add.commute add.left_commute)
  have e: "ilog2 \<bar>?x\<bar> = 52 + k"
    by (rule ilog2_unique [OF 1 2])
  have n0: "n \<noteq> 0" using lo by auto
  have m: "max (52 + k) (- 1022) - 52 = k"
    using k by simp
  show ?thesis
    using n0 by (simp add: double_def Let_def e m)
qed

lemma double_subnormal:
  assumes hi: "\<bar>n\<bar> < 2 ^ 52"
  shows "double (of_int n * pow2 (- 1074)) = of_int n * pow2 (- 1074)"
proof (cases "n = 0")
  case True
  then show ?thesis by (simp add: double_def)
next
  case False
  let ?x = "of_int n * pow2 (- 1074) :: rat"
  have ax: "\<bar>?x\<bar> = of_int \<bar>n\<bar> * pow2 (- 1074)"
    by (simp add: abs_mult)
  have "(of_int \<bar>n\<bar> :: rat) < of_int (2 ^ 52)"
    using hi by (simp only: of_int_less_iff)
  then have "\<bar>?x\<bar> < pow2 52 * pow2 (- 1074)"
    unfolding ax by (intro mult_strict_right_mono) (simp_all add: pow2_def)
  then have small: "\<bar>?x\<bar> < pow2 (- 1022)"
    using pow2_add [of 52 "- 1074"] by simp
  have pos: "0 < \<bar>?x\<bar>" using False by simp
  from ilog2_bounds [OF pos] small have "pow2 (ilog2 \<bar>?x\<bar>) < pow2 (- 1022)"
    by linarith
  then have "ilog2 \<bar>?x\<bar> < - 1022" by (rule pow2_less_cancel)
  then have m: "max (ilog2 \<bar>?x\<bar>) (- 1022) - 52 = - 1074"
    by simp
  show ?thesis
    using False by (simp add: double_def Let_def m)
qed

section \<open>The token bucket on an existing record\<close>

text \<open>
  Values of \<open>double\<close>: the doubles written \<open>0.1\<close> and \<open>0.18\<close>, the product
  \<open>0.18 * 5\<close>, which is \<open>0.8999999999999999\<close>, a third, and two ties
  above \<open>2^53\<close>, which go to the even significand.
\<close>

lemma double_examples:
  "double 0 = 0"
  "double 1 = 1"
  "double (1 / 10) = 3602879701896397 / 36028797018963968"
  "double (18 / 100) = 3242591731706757 / 18014398509481984"
  "double (3242591731706757 / 18014398509481984 * 5) = 2026619832316723 / 2251799813685248"
  "double (1 / 3) = 6004799503160661 / 18014398509481984"
  "double (- (1 / 3)) = - (6004799503160661 / 18014398509481984)"
  "double 9007199254740993 = 9007199254740992"
  "double 9007199254740995 = 9007199254740996"
  by code_simp+



lemma token_track_existing:
  assumes cfg: "config r = TokenConfig cb cr cd" and sd: "strategyData r = TokenData tk lr"
    and rate: "cr \<noteq> 0"
  shows "TokenBucketStrategy_track bucketSize refillRate tc now (Some r) ed =
     (let tokens = min cb (double (tk + double (double (double (now - lr) / 1000) * cr)))
      in if tokens \<ge> 1
         then Inr (Immediate,
                   r\<lparr>strategyData := TokenData (double (tokens - 1)) now,
                     count := count r + 1,
                     lastEventTime := now,
                     expiresAt := now + expireTime tc,
                     deferred := False,
                     scheduledSendAt := None\<rparr>)
         else Inr (Deferred,
                   r\<lparr>strategyData := TokenData tokens now,
                     deferred := True,
                     lastEventTime := now,
                     expiresAt := now + expireTime tc,
                     scheduledSendAt :=
                       Some (double (now + max 1 (double (double (1 - tokens) *
                                                          double (1000 / cr)))))\<rparr>))"
  using assms
  by (simp add: Let_def MS_PER_SECOND_def MIN_RETRY_DELAY_MS_def max.commute)







lemma token_bucket_example_values:
  "TokenBucketStrategy_track 5 10 scenario_config 50 (Some bucket_record) bucket_event =
     Inr (Deferred, bucket_record\<lparr>strategyData := TokenData (1/2) 50, deferred := True,
            lastEventTime := 50, expiresAt := 250, scheduledSendAt := Some 100\<rparr>)"
  "TokenBucketStrategy_track 5 10 scenario_config 150 (Some bucket_record) bucket_event =
     Inr (Immediate, bucket_record\<lparr>strategyData := TokenData (1/2) 150, count := 6,
            lastEventTime := 150, expiresAt := 350, deferred := False,
            scheduledSendAt := None\<rparr>)"
proof -
  have cfg: "config bucket_record = TokenConfig 5 10 100"
    and sd: "strategyData bucket_record = TokenData 0 0"
    by (simp_all add: bucket_record_def)
  have rate: "(10::rat) \<noteq> 0"
    by simp
  have v50: "min 5 (double (0 + double (double (double (50 - 0) / 1000) * 10))) = 1 / 2"
    "double (50 + max 1 (double (double (1 - 1 / 2) * double (1000 / 10)))) = 100"
    by code_simp+
  have v150: "min 5 (double (0 + double (double (double (150 - 0) / 1000) * 10))) = 3 / 2"
    "double (3 / 2 - 1) = 1 / 2"
    by code_simp+
  show "TokenBucketStrategy_track 5 10 scenario_config 50 (Some bucket_record) bucket_event =
     Inr (Deferred, bucket_record\<lparr>strategyData := TokenData (1/2) 50, deferred := True,
            lastEventTime := 50, expiresAt := 250, scheduledSendAt := Some 100\<rparr>)"
    unfolding token_track_existing
                [OF cfg sd rate, where bucketSize = 5 and refillRate = 10
                   and tc = scenario_config and now = 50 and ed = bucket_event]
      Let_def v50
    by (simp add: scenario_config_def)
  show "TokenBucketStrategy_track 5 10 scenario_config 150 (Some bucket_record) bucket_event =
     Inr (Immediate, bucket_record\<lparr>strategyData := TokenData (1/2) 150, count := 6,
            lastEventTime := 150, expiresAt := 350, deferred := False,
            scheduledSendAt := None\<rparr>)"
    unfolding token_track_existing
                [OF cfg sd rate, where bucketSize = 5 and refillRate = 10
                   and tc = scenario_config and now = 150 and ed = bucket_event]
      Let_def v150
    by (simp add: scenario_config_def bucket_record_def)
qed


text \<open>
  \<open>drained_record\<close> is what the strategy leaves after an event at 0 ms and
  one at 20 ms.
\<close>

lemma drained_record_history:
  "TokenBucketStrategy_track 1 5 scenario_config 0 None bucket_event =
     Inr (Immediate,
          drained_record\<lparr>lastEventTime := 0, expiresAt := 200, deferred := False,
                           scheduledSendAt := None, strategyData := TokenData 0 0\<rparr>)"
  "TokenBucketStrategy_track 1 5 scenario_config 20
     (Some (drained_record\<lparr>lastEventTime := 0, expiresAt := 200, deferred := False,
                             scheduledSendAt := None, strategyData := TokenData 0 0\<rparr>))
     bucket_event = Inr (Deferred, drained_record)"
proof -
  let ?r = "drained_record\<lparr>lastEventTime := 0, expiresAt := 200, deferred := False,
                            scheduledSendAt := None, strategyData := TokenData 0 0\<rparr>"
  have zero: "double (1 - 1) = 0"
    by code_simp
  show "TokenBucketStrategy_track 1 5 scenario_config 0 None bucket_event = Inr (Immediate, ?r)"
    unfolding TokenBucketStrategy_track.simps zero
    by (simp add: createBaseRecord_def INITIAL_EVENT_COUNT_def drained_record_def
          bucket_event_def scenario_config_def)
  have cfg: "config ?r = TokenConfig 1 5 100" and sd: "strategyData ?r = TokenData 0 0"
    by (simp_all add: drained_record_def)
  have rate: "(5::rat) \<noteq> 0"
    by simp
  have v: "min 1 (double (0 + double (double (double (20 - 0) / 1000) * 5))) = double (1 / 10)"
    "double (20 + max 1 (double (double (1 - double (1 / 10)) * double (1000 / 5)))) = 200"
    by code_simp+
  have below: "\<not> 1 \<le> double (1 / 10)"
    by code_simp
  show "TokenBucketStrategy_track 1 5 scenario_config 20 (Some ?r) bucket_event =
          Inr (Deferred, drained_record)"
    unfolding token_track_existing
                [OF cfg sd rate, where bucketSize = 1 and refillRate = 5
                   and tc = scenario_config and now = 20 and ed = bucket_event]
      Let_def v if_not_P [OF below]
    by (simp add: scenario_config_def drained_record_def)
qed


section \<open>The key limit\<close>


lemma mem_track_stored_reason:
  assumes "map_of (events b) k = Some r"
    and "InMemoryAdapter_track b k ed tc strat now snow = Inr (res, b')"
  shows "tr_reason res = None \<and> tr_record res \<noteq> None"
  using assms unfolding InMemoryAdapter_track_def Let_def
  by (auto split: sum.splits prod.splits)

lemma trackScript_stored_reply:
  assumes "map_of (hashes u) recordKey = Some h"
    and "trackScript u recordKey args = Inr (reply, u')"
  shows "reply \<noteq> KeyLimitReached"
  using assms unfolding trackScript_def Let_def
  by (auto split: sum.splits prod.splits)

lemma redis_track_stored_reason:
  assumes "map_of (hashes u) (getRecordKey k) = Some h"
    and "RedisAdapter_track u k ed tc strat now snow = Inr (res, u')"
  shows "tr_reason res = None \<and> tr_record res \<noteq> None"
proof -
  from assms(2) obtain reply where
    script: "trackScript u (getRecordKey k) (track_args k ed tc strat now) = Inr (reply, u')"
    unfolding RedisAdapter_track_def
    by (auto split: if_splits sum.splits prod.splits error.splits script_reply.splits)
  have "reply \<noteq> KeyLimitReached"
    by (rule trackScript_stored_reply [OF assms(1) script])
  then show ?thesis
    using assms(2) script unfolding RedisAdapter_track_def
    by (auto split: if_splits script_reply.splits)
qed

lemma redis_track_key_limit:
  assumes "isOpen s" "map_of (hashes s) (getRecordKey k) = None" "maxKeys tc > 0"
    "of_int (sizeCounter s) \<ge> maxKeys tc"
  shows "RedisAdapter_track s k ed tc strat now snow =
     Inr (\<lparr>tr_outcome = Ignored, tr_record = None, tr_reason = Some ''key_limit_reached''\<rparr>, s)"
proof -
  have "trackScript s (getRecordKey k) (track_args k ed tc strat now) = Inr (KeyLimitReached, s)"
    using assms by (intro trackScript_key_limit) (simp_all add: track_args_def)
  then show ?thesis
    by (rule RedisAdapter_track_key_limit [OF assms(1)])
qed

text \<open>
  Claim C5, as amended. With \<open>maxKeys > 0\<close>: when no record is stored under
  the key and the number of live records (the size of the map in process,
  the size counter in Redis) is at least \<open>maxKeys\<close>, \<open>track\<close> returns outcome
  ignored with reason \<open>key_limit_reached\<close> and no record, and the store is
  the one before the call. When a record is stored under the key, also an
  expired one or one whose details changed, \<open>track\<close> never answers with the
  key limit: the record keeps its slot and the strategy decides.
\<close>

theorem C5_key_limit:
  assumes lim: "maxKeys tc > 0"
    and absent: "map_of (events a) k = None"
    and full: "of_nat (length (events a)) \<ge> maxKeys tc"
    and conn: "isOpen s"
    and habsent: "map_of (hashes s) (getRecordKey k) = None"
    and hfull: "of_int (sizeCounter s) \<ge> maxKeys tc"
    and stored: "map_of (events b) k = Some r"
    and hstored: "map_of (hashes u) (getRecordKey k) = Some h"
  shows "InMemoryAdapter_track a k ed tc strat now snow =
           Inr (\<lparr>tr_outcome = Ignored, tr_record = None,
                  tr_reason = Some ''key_limit_reached''\<rparr>, a)
       \<and> RedisAdapter_track s k ed tc strat now snow =
           Inr (\<lparr>tr_outcome = Ignored, tr_record = None,
                  tr_reason = Some ''key_limit_reached''\<rparr>, s)
       \<and> (\<forall>res b'. InMemoryAdapter_track b k ed tc strat now snow = Inr (res, b')
             \<longrightarrow> tr_reason res = None \<and> tr_record res \<noteq> None)
       \<and> (\<forall>res u'. RedisAdapter_track u k ed tc strat now snow = Inr (res, u')
             \<longrightarrow> tr_reason res = None \<and> tr_record res \<noteq> None)"
proof (intro conjI allI impI)
  show "InMemoryAdapter_track a k ed tc strat now snow =
          Inr (\<lparr>tr_outcome = Ignored, tr_record = None,
                 tr_reason = Some ''key_limit_reached''\<rparr>, a)"
    by (rule mem_track_key_limit [OF absent lim full])
  show "RedisAdapter_track s k ed tc strat now snow =
          Inr (\<lparr>tr_outcome = Ignored, tr_record = None,
                 tr_reason = Some ''key_limit_reached''\<rparr>, s)"
    by (rule redis_track_key_limit [OF conn habsent lim hfull])
next
  fix res b'
  assume run: "InMemoryAdapter_track b k ed tc strat now snow = Inr (res, b')"
  show "tr_reason res = None" and "tr_record res \<noteq> None"
    using mem_track_stored_reason [OF stored run] by simp_all
next
  fix res u'
  assume run: "RedisAdapter_track u k ed tc strat now snow = Inr (res, u')"
  show "tr_reason res = None" and "tr_record res \<noteq> None"
    using redis_track_stored_reason [OF hstored run] by simp_all
qed

text \<open>
  Claim C5 as stated fails for a record that is being reinitialised. With
  \<open>maxKeys = 1\<close>, the first event of an identity fills the only slot. The
  second event of the same identity has changed details, so its record is
  reinitialised while one record is live: it is answered \<open>immediate\<close> with
  count 1, not \<open>ignored\<close>.
\<close>

theorem C5_counterexample:
  "run_summary
     (trackEvents id
        (new_tracker \<lparr>limit = 2, deferInterval = 100, expireTime = 200, maxKeys = 1\<rparr>
           SimpleCounterStrategy 3 1000)
        [(JStr ''auth'', JStr ''login_fail'', Payload ''ip=1.1.1.1'', 0, 0),
         (JStr ''auth'', JStr ''login_fail'', Payload ''ip=2.2.2.2'', 10, 10)])
   = Inr [(Immediate, None, Some 1, Some 0), (Immediate, None, Some 1, Some 10)]"
  by (simp add: run_summary_def result_summary_def trackEvent_def generateCompositeKey_def
      new_tracker_def InMemoryAdapter_new_def InMemoryAdapter_def InMemoryAdapter_track_def
      mem_fresh_record_def createBaseRecord_def INITIAL_EVENT_COUNT_def simple_track_new
      set_add_def set_delete_def Let_def)


theorem C5_key_limit_witness:
  "InMemoryAdapter_track \<lparr>events = [(''api:u1'', bucket_record)], deferredKeys = []\<rparr>
       ''auth:login_fail'' bucket_event (scenario_config\<lparr>maxKeys := 1\<rparr>)
       SimpleCounterStrategy 30 31 =
           Inr (\<lparr>tr_outcome = Ignored, tr_record = None,
                  tr_reason = Some ''key_limit_reached''\<rparr>,
                \<lparr>events = [(''api:u1'', bucket_record)], deferredKeys = []\<rparr>)
   \<and> RedisAdapter_track bucket_store ''auth:login_fail'' bucket_event
           (scenario_config\<lparr>maxKeys := 1\<rparr>) SimpleCounterStrategy 30 31 =
           Inr (\<lparr>tr_outcome = Ignored, tr_record = None,
                  tr_reason = Some ''key_limit_reached''\<rparr>, bucket_store)
   \<and> (\<exists>res b'. InMemoryAdapter_track (t_store deferred_mem_tracker) ''auth:login_fail''
                  bucket_event (scenario_config\<lparr>maxKeys := 1\<rparr>)
                  SimpleCounterStrategy 30 31 = Inr (res, b')
          \<and> tr_reason res = None \<and> tr_record res \<noteq> None)
   \<and> (\<exists>res u'. RedisAdapter_track (t_store deferred_redis_tracker) ''auth:login_fail''
                  bucket_event (scenario_config\<lparr>maxKeys := 1\<rparr>)
                  SimpleCounterStrategy 30 31 = Inr (res, u')
          \<and> tr_reason res = None \<and> tr_record res \<noteq> None)"
proof -
  let ?tc = "scenario_config\<lparr>maxKeys := 1\<rparr>"
  let ?a = "\<lparr>events = [(''api:u1'', bucket_record)], deferredKeys = []\<rparr>"
  have limited:
    "InMemoryAdapter_track ?a ''auth:login_fail'' bucket_event ?tc SimpleCounterStrategy 30 31 =
           Inr (\<lparr>tr_outcome = Ignored, tr_record = None,
                  tr_reason = Some ''key_limit_reached''\<rparr>, ?a)
       \<and> RedisAdapter_track bucket_store ''auth:login_fail'' bucket_event ?tc
           SimpleCounterStrategy 30 31 =
           Inr (\<lparr>tr_outcome = Ignored, tr_record = None,
                  tr_reason = Some ''key_limit_reached''\<rparr>, bucket_store)
       \<and> (\<forall>res b'. InMemoryAdapter_track (t_store deferred_mem_tracker) ''auth:login_fail''
                      bucket_event ?tc SimpleCounterStrategy 30 31 = Inr (res, b')
             \<longrightarrow> tr_reason res = None \<and> tr_record res \<noteq> None)
       \<and> (\<forall>res u'. RedisAdapter_track (t_store deferred_redis_tracker) ''auth:login_fail''
                      bucket_event ?tc SimpleCounterStrategy 30 31 = Inr (res, u')
             \<longrightarrow> tr_reason res = None \<and> tr_record res \<noteq> None)"
    by (rule C5_key_limit [where r = deferred_record and h = deferred_hash])
       (simp_all add: scenario_config_def bucket_store_def deferred_mem_tracker_def
          deferred_redis_tracker_def new_tracker_def new_redis_tracker_def
          getRecordKey_def KEY_PREFIX_def)
  have mem_runs:
    "\<exists>res b'. InMemoryAdapter_track (t_store deferred_mem_tracker) ''auth:login_fail''
                 bucket_event ?tc SimpleCounterStrategy 30 31 = Inr (res, b')"
    by (simp add: InMemoryAdapter_track_def mem_fresh_record_def deferred_mem_tracker_def
          new_tracker_def deferred_record_def bucket_event_def simple_track_deferred)
  have redis_runs:
    "\<exists>res u'. RedisAdapter_track (t_store deferred_redis_tracker) ''auth:login_fail''
                 bucket_event ?tc SimpleCounterStrategy 30 31 = Inr (res, u')"
    by (simp add: RedisAdapter_track_def trackScript_def script_isNew_def script_arm_def
          script_simple_def track_args_def deferred_redis_tracker_def new_redis_tracker_def
          deferred_hash_def bucket_event_def getRecordKey_def KEY_PREFIX_def Let_def)
  from limited mem_runs redis_runs show ?thesis
    by blast
qed

section \<open>Monotonicity of the count\<close>


lemma floor_rat_numeral_div [simp]:
  "\<lfloor>numeral a / numeral b :: rat\<rfloor> = numeral a div numeral b"
  using floor_divide_of_int_eq [of "numeral a" "numeral b", where ?'a = rat] by simp

lemma simple_track_count:
  assumes "SimpleCounterStrategy_track tc now (Some r) ed = Inr (oc, r')"
  shows "count r \<le> count r'"
  using assms
  by (auto simp: SimpleCounterStrategy_track.simps simple_limit_check_def
           split: if_splits record_config.splits)

lemma token_track_count:
  assumes "TokenBucketStrategy_track bucketSize refillRate tc now (Some r) ed = Inr (oc, r')"
  shows "count r \<le> count r'"
  using assms
  by (auto simp: Let_def split: if_splits record_config.splits strategy_data.splits)

lemma strategy_track_count:
  assumes notwindow: "\<forall>l w. strat \<noteq> SlidingWindowStrategy l w"
    and run: "strategy_track strat tc now (Some r) ed = Inr (oc, r')"
  shows "count r \<le> count r'"
proof (cases strat)
  case SimpleCounterStrategy
  with run have "SimpleCounterStrategy_track tc now (Some r) ed = Inr (oc, r')"
    by (simp only: strategy_track.simps)
  then show ?thesis by (rule simple_track_count)
next
  case (TokenBucketStrategy b rr)
  with run have "TokenBucketStrategy_track b rr tc now (Some r) ed = Inr (oc, r')"
    by (simp only: strategy_track.simps)
  then show ?thesis by (rule token_track_count)
next
  case (SlidingWindowStrategy l w)
  with notwindow show ?thesis by simp
qed

lemma mem_track_count:
  assumes strat: "\<forall>l w. strat \<noteq> SlidingWindowStrategy l w"
    and fresh: "mem_fresh_record a k ed now = Some r"
    and run: "InMemoryAdapter_track a k ed tc strat now snow = Inr (res, a')"
  shows "\<exists>r'. tr_record res = Some r' \<and> map_of (events a') k = Some r' \<and> count r \<le> count r'"
proof -
  from run fresh obtain oc r' where
    st: "strategy_track strat tc snow (Some r) (ed\<lparr>ev_compositeKey := k\<rparr>) = Inr (oc, r')"
    and res: "res = \<lparr>tr_outcome = oc, tr_record = Some r', tr_reason = None\<rparr>"
    and a': "a' = a\<lparr>events := AList.update k r' (events a),
                     deferredKeys := (if deferred r' then set_add k (deferredKeys a)
                                      else set_delete k (deferredKeys a))\<rparr>"
    unfolding InMemoryAdapter_track_def Let_def
    by (auto split: sum.splits prod.splits)
  have "count r \<le> count r'"
    by (rule strategy_track_count [OF strat st])
  then show ?thesis
    by (simp add: res a' update_conv')
qed

lemma script_arm_count:
  assumes ty: "a_strategyType args = ''simple'' \<or> a_strategyType args = ''token-bucket''"
    and arm: "script_arm args False sd count0 deferred0 sched0 = Inr (oc, cnt, dfr, sched, sd')"
  shows "count0 \<le> cnt"
  using assms
  by (auto simp: script_arm_def script_simple_def script_token_def script_token_decide_def
        Let_def split: if_splits option.splits strategy_data.splits)

lemma trackScript_count:
  assumes hstored: "map_of (hashes s) recordKey = Some h"
    and hfresh: "\<not> a_now args > h_expiresAt h" "h_detailsHash h = a_detailsHash args"
    and ty: "a_strategyType args = ''simple'' \<or> a_strategyType args = ''token-bucket''"
    and run: "trackScript s recordKey args = Inr (reply, s')"
  shows "\<exists>h'. map_of (hashes s') recordKey = Some h' \<and> h_count h \<le> h_count h'"
proof -
  have fresh: "script_isNew (Some h) args = False"
    by (rule script_isNew_fresh [OF hfresh])
  show ?thesis
  proof (cases "script_arm args False (h_strategyData h) (h_count h) (h_deferred h)
                  (h_scheduledSendAt h)")
    case (Inl e)
    then have "trackScript s recordKey args = Inl e"
      unfolding trackScript_def Let_def by (simp add: hstored fresh)
    with run show ?thesis by simp
  next
    case (Inr tuple)
    obtain oc cnt dfr sched sd' where tuple: "tuple = (oc, cnt, dfr, sched, sd')"
      by (cases tuple) auto
    have arm: "script_arm args False (h_strategyData h) (h_count h) (h_deferred h)
                 (h_scheduledSendAt h) = Inr (oc, cnt, dfr, sched, sd')"
      using Inr tuple by simp
    have "h_count h \<le> cnt"
      by (rule script_arm_count [OF ty arm])
    then show ?thesis
      using run trackScript_existing [OF hstored fresh arm]
      by (auto simp: update_conv')
  qed
qed

text \<open>
  Claim C6, as amended. Under the simple counter and the token bucket, an
  event that continues the lifetime of a record (a record is stored, it has
  not expired and the details are the same) never lowers the stored count:
  whatever the outcome, the record stored and returned after the call has a
  count at least that of the record before, in process and in the track
  script. Along any sequence of events of one lifetime the counts are
  therefore non-decreasing (\<open>strategy_run_counts_sorted\<close>).
\<close>

theorem C6_count_monotone:
  assumes strat: "\<forall>l w. strat \<noteq> SlidingWindowStrategy l w"
    and fresh: "mem_fresh_record a k ed now = Some r"
    and run: "InMemoryAdapter_track a k ed tc strat now snow = Inr (res, a')"
    and hstored: "map_of (hashes s) recordKey = Some h"
    and hfresh: "\<not> a_now args > h_expiresAt h" "h_detailsHash h = a_detailsHash args"
    and ty: "a_strategyType args = ''simple'' \<or> a_strategyType args = ''token-bucket''"
    and hrun: "trackScript s recordKey args = Inr (reply, s')"
  shows "(\<exists>r'. tr_record res = Some r' \<and> map_of (events a') k = Some r' \<and> count r \<le> count r')
       \<and> (\<exists>h'. map_of (hashes s') recordKey = Some h' \<and> h_count h \<le> h_count h')"
  using mem_track_count [OF strat fresh run] trackScript_count [OF hstored hfresh ty hrun]
  by (rule conjI)

text \<open>
  Claim C6 as stated fails for the sliding window strategy, which stores
  \<open>floor(estimated + 1)\<close> as the count. With limit 10 and a window of 1000
  ms, three events at 0 ms bring the count to 3; the event at 1900 ms slides
  the window, estimates \<open>0 + 3 * 0.1\<close> and is accepted with count 1. All
  four events are immediate and belong to one lifetime of the record.
\<close>

theorem C6_counterexample:
  "run_summary
     (trackEvents id
        (new_tracker \<lparr>limit = 2, deferInterval = 100, expireTime = 5000, maxKeys = 0\<rparr>
           (SlidingWindowStrategy 10 1000) 3 1000)
        [(JStr ''auth'', JStr ''login_fail'', EmptyDetails, 0, 0),
         (JStr ''auth'', JStr ''login_fail'', EmptyDetails, 0, 0),
         (JStr ''auth'', JStr ''login_fail'', EmptyDetails, 0, 0),
         (JStr ''auth'', JStr ''login_fail'', EmptyDetails, 1900, 1900)])
   = Inr [(Immediate, None, Some 1, Some 0),
          (Immediate, None, Some 2, Some 0),
          (Immediate, None, Some 3, Some 0),
          (Immediate, None, Some 1, Some 1900)]"
  by (simp add: run_summary_def result_summary_def trackEvent_def generateCompositeKey_def
      new_tracker_def InMemoryAdapter_new_def InMemoryAdapter_def InMemoryAdapter_track_def
      mem_fresh_record_def createBaseRecord_def INITIAL_EVENT_COUNT_def
      set_add_def set_delete_def SLIDE_THRESHOLD_MULTIPLIER_def js_rem_def js_trunc_def Let_def)


theorem C6_count_monotone_witness:
  "(\<exists>res a' r'.
      InMemoryAdapter_track \<lparr>events = [(''api:u1'', bucket_record)], deferredKeys = []\<rparr>
        ''api:u1'' bucket_event scenario_config (TokenBucketStrategy 5 10) 150 150
        = Inr (res, a') \<and>
      tr_record res = Some r' \<and> map_of (events a') ''api:u1'' = Some r' \<and>
      count bucket_record \<le> count r')
   \<and> (\<exists>reply s' h'.
      trackScript bucket_store ''event-tracker:api:u1''
        (track_args ''api:u1'' bucket_event scenario_config (TokenBucketStrategy 5 10) 150)
        = Inr (reply, s') \<and>
      map_of (hashes s') ''event-tracker:api:u1'' = Some h' \<and>
      h_count bucket_hash \<le> h_count h')"
proof -
  let ?a = "\<lparr>events = [(''api:u1'', bucket_record)], deferredKeys = []\<rparr>"
  let ?args = "track_args ''api:u1'' bucket_event scenario_config (TokenBucketStrategy 5 10) 150"
  have "\<exists>res a'. InMemoryAdapter_track ?a ''api:u1'' bucket_event scenario_config
                    (TokenBucketStrategy 5 10) 150 150 = Inr (res, a')"
    by (simp add: InMemoryAdapter_track_def mem_fresh_record_def bucket_record_def
          bucket_event_def scenario_config_def MS_PER_SECOND_def MIN_RETRY_DELAY_MS_def
          Let_def)
  then obtain res a' where
    run: "InMemoryAdapter_track ?a ''api:u1'' bucket_event scenario_config
            (TokenBucketStrategy 5 10) 150 150 = Inr (res, a')"
    by blast
  have "\<exists>reply s'. trackScript bucket_store ''event-tracker:api:u1'' ?args = Inr (reply, s')"
    by (simp add: trackScript_def script_isNew_def script_arm_def script_token_def
          script_token_decide_def track_args_def bucket_store_def bucket_hash_def
          bucket_event_def scenario_config_def Let_def)
  then obtain reply s' where
    hrun: "trackScript bucket_store ''event-tracker:api:u1'' ?args = Inr (reply, s')"
    by blast
  have strat: "\<forall>l w. TokenBucketStrategy 5 10 \<noteq> SlidingWindowStrategy l w"
    by simp
  have fresh: "mem_fresh_record ?a ''api:u1'' bucket_event 150 = Some bucket_record"
    by (simp add: mem_fresh_record_def bucket_record_def bucket_event_def)
  have hstored: "map_of (hashes bucket_store) ''event-tracker:api:u1'' = Some bucket_hash"
    by (simp add: bucket_store_def)
  have hfresh: "\<not> a_now ?args > h_expiresAt bucket_hash"
    "h_detailsHash bucket_hash = a_detailsHash ?args"
    by (simp_all add: track_args_def bucket_hash_def bucket_event_def)
  have ty: "a_strategyType ?args = ''simple'' \<or> a_strategyType ?args = ''token-bucket''"
    by (simp add: track_args_def)
  from C6_count_monotone [OF strat fresh run hstored hfresh ty hrun] run hrun
  show ?thesis by blast
qed

lemma strategy_run_counts_sorted:
  assumes "\<forall>l w. strat \<noteq> SlidingWindowStrategy l w"
    and "strategy_run strat tc r ed nows = Inr steps"
  shows "sorted (map count (r # map snd steps))"
  using assms(2)
proof (induction nows arbitrary: r steps)
  case Nil
  then show ?case by simp
next
  case (Cons now nows)
  from Cons.prems obtain oc r' rest where
    step: "strategy_track strat tc now (Some r) ed = Inr (oc, r')"
    and rest: "strategy_run strat tc r' ed nows = Inr rest"
    and steps: "steps = (oc, r') # rest"
    by (auto split: sum.splits prod.splits)
  have le: "count r \<le> count r'"
    by (rule strategy_track_count [OF assms(1) step])
  have "sorted (map count (r' # map snd rest))"
    by (rule Cons.IH [OF rest])
  with le show ?case
    by (auto simp: steps)
qed

section \<open>The retry loop of the processor\<close>


declare attempt_loop.simps [simp del]

lemma attempt_in_range:
  assumes "0 \<le> m"
  shows "(of_nat a :: rat) \<le> m \<longleftrightarrow> a \<le> nat \<lfloor>m\<rfloor>"
proof -
  have "(of_nat a :: rat) \<le> m \<longleftrightarrow> int a \<le> \<lfloor>m\<rfloor>"
    by (simp add: le_floor_iff)
  also have "\<dots> \<longleftrightarrow> a \<le> nat \<lfloor>m\<rfloor>"
    using assms by linarith
  finally show ?thesis .
qed

lemma attempt_loop_exhausted:
  assumes m: "0 \<le> m"
    and throws: "\<forall>k. proc k evs = Some (thr k)"
  shows "a \<le> Suc (nat \<lfloor>m\<rfloor>) \<Longrightarrow>
     attempt_loop proc m d evs a lastError =
       (concat (map (\<lambda>k. CallProcessor k #
                      (if of_nat k < m
                       then [Emit (NRetry (of_nat k + 1) m (d * 2 ^ k) evs), Sleep (d * 2 ^ k)]
                       else []))
                  [a..<Suc (nat \<lfloor>m\<rfloor>)]),
        Exhausted (if a \<le> nat \<lfloor>m\<rfloor> then thr (nat \<lfloor>m\<rfloor>) else lastError))"
proof (induction "Suc (nat \<lfloor>m\<rfloor>) - a" arbitrary: a lastError)
  case 0
  then have a: "a = Suc (nat \<lfloor>m\<rfloor>)" by simp
  then have "\<not> (of_nat a :: rat) \<le> m"
    using attempt_in_range [OF m, of a] by simp
  then show ?case
    by (subst attempt_loop.simps) (simp add: a)
next
  case (Suc j)
  let ?f = "\<lambda>k. CallProcessor k #
                (if of_nat k < m
                 then [Emit (NRetry (of_nat k + 1) m (d * 2 ^ k) evs), Sleep (d * 2 ^ k)]
                 else [])"
  from Suc have le: "a \<le> nat \<lfloor>m\<rfloor>" by simp
  then have inrange: "(of_nat a :: rat) \<le> m"
    using attempt_in_range [OF m, of a] by simp
  have next_le: "Suc a \<le> Suc (nat \<lfloor>m\<rfloor>)" using le by simp
  have j: "j = Suc (nat \<lfloor>m\<rfloor>) - Suc a" using Suc.hyps(2) by simp
  note IH = Suc.hyps(1) [OF j next_le, of "thr a"]
  have unfold: "attempt_loop proc m d evs a lastError =
      (?f a @ fst (attempt_loop proc m d evs (Suc a) (thr a)),
       snd (attempt_loop proc m d evs (Suc a) (thr a)))"
    by (subst attempt_loop.simps) (simp add: inrange throws Let_def)
  have upt: "[a..<Suc (nat \<lfloor>m\<rfloor>)] = a # [Suc a..<Suc (nat \<lfloor>m\<rfloor>)]"
    using le by (simp add: upt_conv_Cons del: upt_Suc)
  have last: "(if Suc a \<le> nat \<lfloor>m\<rfloor> then thr (nat \<lfloor>m\<rfloor>) else thr a)
              = thr (nat \<lfloor>m\<rfloor>)"
    using le by (auto simp: not_less_eq_eq le_antisym)
  show ?case
    unfolding unfold IH upt using le by (simp add: last del: upt_Suc)
qed

lemma processDeferredEvents_exhausted:
  fixes t :: "'s tracker"
  assumes proc: "t_processor t = Some proc"
    and pop: "adapter_popDueDeferred (t_storage t) (t_store t) now = Inr (dueEvents, store')"
    and nonempty: "dueEvents \<noteq> []"
    and loop: "attempt_loop proc (t_maxRetries t) (t_retryDelay t) dueEvents 0 ThrownNull
                 = (effs, Exhausted (ThrownValue m))"
  shows "processDeferredEvents t now =
     (if t_errorListener t then Inr dueEvents
      else Inl (ProcessorFailed (t_maxRetries t + 1) m),
      t\<lparr>t_store := store',
        t_trace := t_trace t @ effs @
          [Emit (NProcessFailed (ThrownValue m) dueEvents (t_maxRetries t + 1)),
           Emit (NErrorProcessorFailed (t_maxRetries t + 1) m)]\<rparr>)"
  using nonempty unfolding processDeferredEvents_def
  by (simp add: proc pop loop Let_def)

lemma processDeferredEvents_exhausted_nullish:
  fixes t :: "'s tracker"
  assumes proc: "t_processor t = Some proc"
    and pop: "adapter_popDueDeferred (t_storage t) (t_store t) now = Inr (dueEvents, store')"
    and nonempty: "dueEvents \<noteq> []"
    and loop: "attempt_loop proc (t_maxRetries t) (t_retryDelay t) dueEvents 0 ThrownNull
                 = (effs, Exhausted lastError)"
    and nullish: "lastError = ThrownNull \<or> lastError = ThrownUndefined"
  shows "processDeferredEvents t now =
     (Inl (TypeError (if lastError = ThrownNull
                      then ''Cannot read properties of null''
                      else ''Cannot read properties of undefined'')),
      t\<lparr>t_store := store',
        t_trace := t_trace t @ effs @
          [Emit (NProcessFailed lastError dueEvents (t_maxRetries t + 1))]\<rparr>)"
  using nonempty nullish unfolding processDeferredEvents_def
  by (auto simp: proc pop loop Let_def)

lemma failed_attempt_not_process_failed:
  "filter is_process_failed
     (concat (map (\<lambda>k. CallProcessor k #
                     (if of_nat k < (m :: rat)
                      then [Emit (NRetry (of_nat k + 1) m (d * 2 ^ k) evs), Sleep (d * 2 ^ k)]
                      else []))
                 ks)) = []"
  by (induction ks) auto

lemma failed_attempt_not_error_notification:
  "filter is_error_notification
     (concat (map (\<lambda>k. CallProcessor k #
                     (if of_nat k < (m :: rat)
                      then [Emit (NRetry (of_nat k + 1) m (d * 2 ^ k) evs), Sleep (d * 2 ^ k)]
                      else []))
                 ks)) = []"
  by (induction ks) auto

text \<open>
  A processor is configured, \<open>popDueDeferred\<close> returns a non-empty batch and
  the processor throws on every call; \<open>maxRetries\<close> is not negative. What
  \<open>processDeferredEvents\<close> does is exactly this: the calls number 0 up to
  \<open>floor(maxRetries)\<close>; after the failed call \<open>k\<close>, while \<open>k < maxRetries\<close>, a
  \<open>retry\<close> notification with \<open>attempt = k + 1\<close> and \<open>delay = retryDelay * 2^k\<close>
  and then a sleep of that delay; after the last call one \<open>process_failed\<close>
  notification with the value thrown last, the batch and
  \<open>attempts = maxRetries + 1\<close>. The store is the one \<open>popDueDeferred\<close> left:
  nothing is written back. When the \<open>message\<close> of the value thrown last can
  be read, the \<open>error\<close> notification follows, and the call resolves with
  the batch if a listener for \<open>error\<close> is registered and rejects with the
  error otherwise.
\<close>

lemma processor_retries_then_error:
  fixes t :: "'s tracker"
  assumes proc: "t_processor t = Some proc"
    and pop: "adapter_popDueDeferred (t_storage t) (t_store t) now = Inr (dueEvents, store')"
    and nonempty: "dueEvents \<noteq> []"
    and throws: "\<forall>k. proc k dueEvents = Some (thr k)"
    and retries: "0 \<le> t_maxRetries t"
    and last: "thr (nat \<lfloor>t_maxRetries t\<rfloor>) = ThrownValue m"
  shows "\<exists>new_trace.
           processDeferredEvents t now =
             (if t_errorListener t then Inr dueEvents
              else Inl (ProcessorFailed (t_maxRetries t + 1) m),
              t\<lparr>t_store := store', t_trace := t_trace t @ new_trace\<rparr>) \<and>
           new_trace =
             concat (map (\<lambda>k. CallProcessor k #
                            (if of_nat k < t_maxRetries t
                             then [Emit (NRetry (of_nat k + 1) (t_maxRetries t)
                                          (t_retryDelay t * 2 ^ k) dueEvents),
                                   Sleep (t_retryDelay t * 2 ^ k)]
                             else []))
                        [0..<Suc (nat \<lfloor>t_maxRetries t\<rfloor>)]) @
             [Emit (NProcessFailed (ThrownValue m) dueEvents (t_maxRetries t + 1)),
              Emit (NErrorProcessorFailed (t_maxRetries t + 1) m)] \<and>
           length (filter is_process_failed new_trace) = 1"
proof -
  let ?m = "t_maxRetries t"
  let ?effs = "concat (map (\<lambda>k. CallProcessor k #
                            (if of_nat k < ?m
                             then [Emit (NRetry (of_nat k + 1) ?m
                                          (t_retryDelay t * 2 ^ k) dueEvents),
                                   Sleep (t_retryDelay t * 2 ^ k)]
                             else []))
                        [0..<Suc (nat \<lfloor>?m\<rfloor>)])"
  let ?tail = "[Emit (NProcessFailed (ThrownValue m) dueEvents (?m + 1)),
                Emit (NErrorProcessorFailed (?m + 1) m)]"
  have loop: "attempt_loop proc ?m (t_retryDelay t) dueEvents 0 ThrownNull
                = (?effs, Exhausted (ThrownValue m))"
    using attempt_loop_exhausted
            [where m = "t_maxRetries t" and proc = proc and evs = dueEvents and thr = thr
               and a = 0 and d = "t_retryDelay t" and lastError = ThrownNull]
          retries throws last
    by simp
  have run: "processDeferredEvents t now =
               (if t_errorListener t then Inr dueEvents
                else Inl (ProcessorFailed (?m + 1) m),
                t\<lparr>t_store := store', t_trace := t_trace t @ (?effs @ ?tail)\<rparr>)"
    using processDeferredEvents_exhausted [OF proc pop nonempty loop] by simp
  have "filter is_process_failed ?effs = []"
    by (rule failed_attempt_not_process_failed)
  then have one: "length (filter is_process_failed (?effs @ ?tail)) = 1"
    by simp
  from run one show ?thesis by blast
qed

text \<open>
  When the value thrown last is \<open>null\<close> or \<open>undefined\<close>, the call rejects with
  a \<open>TypeError\<close> after \<open>process_failed\<close>: no \<open>error\<close> notification is published,
  whatever the listeners.
\<close>

lemma processor_retries_nullish:
  fixes t :: "'s tracker"
  assumes proc: "t_processor t = Some proc"
    and pop: "adapter_popDueDeferred (t_storage t) (t_store t) now = Inr (dueEvents, store')"
    and nonempty: "dueEvents \<noteq> []"
    and throws: "\<forall>k. proc k dueEvents = Some (thr k)"
    and retries: "0 \<le> t_maxRetries t"
    and last: "thr (nat \<lfloor>t_maxRetries t\<rfloor>) = ThrownNull \<or>
               thr (nat \<lfloor>t_maxRetries t\<rfloor>) = ThrownUndefined"
  shows "\<exists>e new_trace.
           processDeferredEvents t now =
             (Inl (TypeError e),
              t\<lparr>t_store := store', t_trace := t_trace t @ new_trace\<rparr>) \<and>
           new_trace =
             concat (map (\<lambda>k. CallProcessor k #
                            (if of_nat k < t_maxRetries t
                             then [Emit (NRetry (of_nat k + 1) (t_maxRetries t)
                                          (t_retryDelay t * 2 ^ k) dueEvents),
                                   Sleep (t_retryDelay t * 2 ^ k)]
                             else []))
                        [0..<Suc (nat \<lfloor>t_maxRetries t\<rfloor>)]) @
             [Emit (NProcessFailed (thr (nat \<lfloor>t_maxRetries t\<rfloor>)) dueEvents
                      (t_maxRetries t + 1))] \<and>
           filter is_error_notification new_trace = []"
proof -
  let ?m = "t_maxRetries t"
  let ?effs = "concat (map (\<lambda>k. CallProcessor k #
                            (if of_nat k < ?m
                             then [Emit (NRetry (of_nat k + 1) ?m
                                          (t_retryDelay t * 2 ^ k) dueEvents),
                                   Sleep (t_retryDelay t * 2 ^ k)]
                             else []))
                        [0..<Suc (nat \<lfloor>?m\<rfloor>)])"
  let ?tail = "[Emit (NProcessFailed (thr (nat \<lfloor>?m\<rfloor>)) dueEvents (?m + 1))]"
  have loop: "attempt_loop proc ?m (t_retryDelay t) dueEvents 0 ThrownNull
                = (?effs, Exhausted (thr (nat \<lfloor>?m\<rfloor>)))"
    using attempt_loop_exhausted
            [where m = "t_maxRetries t" and proc = proc and evs = dueEvents and thr = thr
               and a = 0 and d = "t_retryDelay t" and lastError = ThrownNull]
          retries throws
    by simp
  have run: "processDeferredEvents t now =
               (Inl (TypeError (if thr (nat \<lfloor>?m\<rfloor>) = ThrownNull
                                then ''Cannot read properties of null''
                                else ''Cannot read properties of undefined'')),
                t\<lparr>t_store := store', t_trace := t_trace t @ (?effs @ ?tail)\<rparr>)"
    using processDeferredEvents_exhausted_nullish [OF proc pop nonempty loop last] by simp
  have "filter is_error_notification ?effs = []"
    by (rule failed_attempt_not_error_notification)
  then have none: "filter is_error_notification (?effs @ ?tail) = []"
    by simp
  from run none show ?thesis by blast
qed

lemma failing_tracker_pop:
  "t_processor (failing_tracker proc) = Some proc"
  "adapter_popDueDeferred (t_storage (failing_tracker proc)) (t_store (failing_tracker proc)) 120
     = Inr ([deferred_record], \<lparr>events = [], deferredKeys = []\<rparr>)"
  "t_maxRetries (failing_tracker proc) = 2"
  "t_retryDelay (failing_tracker proc) = 10"
  "t_trace (failing_tracker proc) = []"
  "t_errorListener (failing_tracker proc)"
  by (simp_all add: failing_tracker_def deferred_mem_tracker_def new_tracker_def
        InMemoryAdapter_def InMemoryAdapter_popDueDeferred_def due_keys_def
        due_records_def is_due_def deferred_record_def)

lemma retry_scenario_with_error:
  "processDeferredEvents (failing_tracker always_throws) 120 =
     (Inr [deferred_record],
      (failing_tracker always_throws)
        \<lparr>t_store := \<lparr>events = [], deferredKeys = []\<rparr>,
         t_trace :=
           [CallProcessor 0, Emit (NRetry 1 2 10 [deferred_record]), Sleep 10,
            CallProcessor 1, Emit (NRetry 2 2 20 [deferred_record]), Sleep 20,
            CallProcessor 2,
            Emit (NProcessFailed (ThrownValue ''boom'') [deferred_record] 3),
            Emit (NErrorProcessorFailed 3 ''boom'')]\<rparr>)"
proof -
  have throws: "\<forall>k. always_throws k [deferred_record] = Some ((\<lambda>k. ThrownValue ''boom'') k)"
    by (simp add: always_throws_def)
  have upt: "[0..<Suc (nat \<lfloor>2::rat\<rfloor>)] = [0, 1, 2]"
    by (simp add: upt_rec)
  note run = processor_retries_then_error
         [where t = "failing_tracker always_throws" and proc = always_throws and now = 120
            and dueEvents = "[deferred_record]"
            and store' = "\<lparr>events = [], deferredKeys = []\<rparr>"
            and thr = "\<lambda>k. ThrownValue ''boom''" and m = "''boom''"]
  from run throws show ?thesis
    unfolding failing_tracker_pop(3-5) upt by (simp add: failing_tracker_pop)
qed

lemma retry_scenario_without_listener:
  "processDeferredEvents ((failing_tracker always_throws)\<lparr>t_errorListener := False\<rparr>) 120 =
     (Inl (ProcessorFailed 3 ''boom''),
      (failing_tracker always_throws)
        \<lparr>t_errorListener := False,
         t_store := \<lparr>events = [], deferredKeys = []\<rparr>,
         t_trace :=
           [CallProcessor 0, Emit (NRetry 1 2 10 [deferred_record]), Sleep 10,
            CallProcessor 1, Emit (NRetry 2 2 20 [deferred_record]), Sleep 20,
            CallProcessor 2,
            Emit (NProcessFailed (ThrownValue ''boom'') [deferred_record] 3),
            Emit (NErrorProcessorFailed 3 ''boom'')]\<rparr>)"
proof -
  let ?t = "(failing_tracker always_throws)\<lparr>t_errorListener := False\<rparr>"
  have throws: "\<forall>k. always_throws k [deferred_record] = Some ((\<lambda>k. ThrownValue ''boom'') k)"
    by (simp add: always_throws_def)
  have upt: "[0..<Suc (nat \<lfloor>2::rat\<rfloor>)] = [0, 1, 2]"
    by (simp add: upt_rec)
  have proc: "t_processor ?t = Some always_throws"
    and pop: "adapter_popDueDeferred (t_storage ?t) (t_store ?t) 120
               = Inr ([deferred_record], \<lparr>events = [], deferredKeys = []\<rparr>)"
    and m: "t_maxRetries ?t = 2" "t_retryDelay ?t = 10" "t_trace ?t = []"
    by (simp_all add: failing_tracker_pop)
  note run = processor_retries_then_error
         [where t = ?t and proc = always_throws and now = 120
            and dueEvents = "[deferred_record]"
            and store' = "\<lparr>events = [], deferredKeys = []\<rparr>"
            and thr = "\<lambda>k. ThrownValue ''boom''" and m = "''boom''"]
  from run proc pop throws show ?thesis
    unfolding m upt by simp
qed

text \<open>
  Claim C7 asks that, when the processor throws at every attempt on a
  non-empty popped batch, the engine retries with the delays
  \<open>retryDelay * 2^k\<close>, a \<open>retry\<close> notification before each sleep, then
  publishes one \<open>process_failed\<close> notification and after it an \<open>error\<close>
  notification, the popped events staying removed. The engine does so when
  the value thrown last is an \<open>Error\<close>, or any other value whose \<open>message\<close>
  can be read (\<open>processor_retries_then_error\<close>). \<open>lastError\<close> starts as \<open>null\<close>
  and is read as \<open>lastError.message\<close> without a test, so for a processor
  whose promise rejects with \<open>null\<close> or \<open>undefined\<close> the call itself throws a
  \<open>TypeError\<close> after \<open>process_failed\<close>, and the \<open>error\<close> notification is
  missing (\<open>processor_retries_nullish\<close>). Evaluated on the retry scenario,
  with a listener for \<open>error\<close> registered, \<open>maxRetries = 2\<close> and
  \<open>retryDelay = 10\<close>: the processor that rejects with \<open>null\<close>, then the one
  that throws an \<open>Error\<close>.
\<close>

theorem C7_error_notification_missing:
  "processDeferredEvents (failing_tracker throws_null) 120 =
     (Inl (TypeError ''Cannot read properties of null''),
      (failing_tracker throws_null)
        \<lparr>t_store := \<lparr>events = [], deferredKeys = []\<rparr>,
         t_trace :=
           [CallProcessor 0, Emit (NRetry 1 2 10 [deferred_record]), Sleep 10,
            CallProcessor 1, Emit (NRetry 2 2 20 [deferred_record]), Sleep 20,
            CallProcessor 2,
            Emit (NProcessFailed ThrownNull [deferred_record] 3)]\<rparr>)
   \<and>
   processDeferredEvents (failing_tracker always_throws) 120 =
     (Inr [deferred_record],
      (failing_tracker always_throws)
        \<lparr>t_store := \<lparr>events = [], deferredKeys = []\<rparr>,
         t_trace :=
           [CallProcessor 0, Emit (NRetry 1 2 10 [deferred_record]), Sleep 10,
            CallProcessor 1, Emit (NRetry 2 2 20 [deferred_record]), Sleep 20,
            CallProcessor 2,
            Emit (NProcessFailed (ThrownValue ''boom'') [deferred_record] 3),
            Emit (NErrorProcessorFailed 3 ''boom'')]\<rparr>)"
proof -
  have throws: "\<forall>k. throws_null k [deferred_record] = Some ((\<lambda>k. ThrownNull) k)"
    by (simp add: throws_null_def)
  have upt: "[0..<Suc (nat \<lfloor>2::rat\<rfloor>)] = [0, 1, 2]"
    by (simp add: upt_rec)
  have loop: "attempt_loop throws_null 2 10 [deferred_record] 0 ThrownNull =
      ([CallProcessor 0, Emit (NRetry 1 2 10 [deferred_record]), Sleep 10,
        CallProcessor 1, Emit (NRetry 2 2 20 [deferred_record]), Sleep 20,
        CallProcessor 2], Exhausted ThrownNull)"
    using attempt_loop_exhausted
            [where m = 2 and proc = throws_null and evs = "[deferred_record]"
               and thr = "\<lambda>k. ThrownNull" and a = 0 and d = 10 and lastError = ThrownNull]
          throws
    unfolding upt by simp
  have null_case:
    "processDeferredEvents (failing_tracker throws_null) 120 =
     (Inl (TypeError ''Cannot read properties of null''),
      (failing_tracker throws_null)
        \<lparr>t_store := \<lparr>events = [], deferredKeys = []\<rparr>,
         t_trace :=
           [CallProcessor 0, Emit (NRetry 1 2 10 [deferred_record]), Sleep 10,
            CallProcessor 1, Emit (NRetry 2 2 20 [deferred_record]), Sleep 20,
            CallProcessor 2,
            Emit (NProcessFailed ThrownNull [deferred_record] 3)]\<rparr>)"
    using processDeferredEvents_exhausted_nullish
            [where t = "failing_tracker throws_null" and proc = throws_null and now = 120
               and dueEvents = "[deferred_record]"
               and store' = "\<lparr>events = [], deferredKeys = []\<rparr>"
               and lastError = ThrownNull]
          loop
    by (simp add: failing_tracker_pop)
  from null_case retry_scenario_with_error show ?thesis
    by (rule conjI)
qed

lemma attempt_loop_exhausted_nat:
  assumes throws: "\<forall>k. proc k evs = Some (thr k)"
  shows "attempt_loop proc (of_nat n) d evs 0 ThrownNull =
       (concat (map (\<lambda>k. [CallProcessor k,
                           Emit (NRetry (of_nat k + 1) (of_nat n) (d * 2 ^ k) evs),
                           Sleep (d * 2 ^ k)])
                  [0..<n]) @ [CallProcessor n],
        Exhausted (thr n))"
proof -
  let ?f = "\<lambda>k. CallProcessor k #
                (if (of_nat k :: rat) < of_nat n
                 then [Emit (NRetry (of_nat k + 1) (of_nat n) (d * 2 ^ k) evs), Sleep (d * 2 ^ k)]
                 else [])"
  let ?f' = "\<lambda>k. CallProcessor k #
                (if k < n
                 then [Emit (NRetry (of_nat k + 1) (of_nat n) (d * 2 ^ k) evs), Sleep (d * 2 ^ k)]
                 else [])"
  let ?g = "\<lambda>k. [CallProcessor k,
                 Emit (NRetry (of_nat k + 1) (of_nat n) (d * 2 ^ k) evs),
                 Sleep (d * 2 ^ k)]"
  have eq: "concat (map ?f' [0..<n]) = concat (map ?g [0..<n])"
    by (rule arg_cong [where f = concat], rule map_cong) simp_all
  have "attempt_loop proc (of_nat n) d evs 0 ThrownNull =
       (concat (map ?f [0..<Suc (nat \<lfloor>of_nat n :: rat\<rfloor>)]),
        Exhausted (if 0 \<le> nat \<lfloor>of_nat n :: rat\<rfloor>
                   then thr (nat \<lfloor>of_nat n :: rat\<rfloor>) else ThrownNull))"
    using attempt_loop_exhausted
            [where m = "of_nat n" and proc = proc and evs = evs and thr = thr
               and a = 0 and d = d and lastError = ThrownNull]
          throws
    by simp
  then show ?thesis
    by (simp add: eq)
qed

lemma mem_pop_removes:
  assumes "InMemoryAdapter_popDueDeferred a now = Inr (evs, a')"
    and "k \<in> set (due_keys a now)"
  shows "map_of (events a') k = None \<and> k \<notin> set (deferredKeys a')"
proof -
  from assms(1) have a': "a' = a\<lparr>events := filter (\<lambda>(k, r). k \<notin> set (due_keys a now)) (events a),
      deferredKeys := filter (\<lambda>k. k \<notin> set (due_keys a now)) (deferredKeys a)\<rparr>"
    by (simp add: InMemoryAdapter_popDueDeferred_def Let_def)
  have "k \<notin> fst ` set (filter (\<lambda>(k, r). k \<notin> set (due_keys a now)) (events a))"
    using assms(2) by auto
  then have "map_of (filter (\<lambda>(k, r). k \<notin> set (due_keys a now)) (events a)) k = None"
    by (simp add: map_of_eq_None_iff)
  then show ?thesis
    using assms(2) by (simp add: a')
qed

section \<open>Validation of the options\<close>


lemma validateField_cases:
  "validateField props f =
     (case option_get props f of
        JUndefined \<Rightarrow> None
      | JNum (Fin x) \<Rightarrow> if x < 0 then Some (RangeError (f @ '' must be non-negative.'')) else None
      | JNum PosInf \<Rightarrow> None
      | JNum NegInf \<Rightarrow> Some (RangeError (f @ '' must be non-negative.''))
      | _ \<Rightarrow> Some (TypeError (f @ '' must be a number.'')))"
  by (simp add: validateField_def Let_def split: jsval.splits jsnum.splits)

lemma validateFields_None_iff:
  "validateFields props fs = None \<longleftrightarrow> (\<forall>f \<in> set fs. validateField props f = None)"
  by (induction fs) (auto split: option.splits)

lemma validateFields_Some:
  "validateFields props fs = Some e \<Longrightarrow> \<exists>f \<in> set fs. validateField props f = Some e"
  by (induction fs) (auto split: option.splits)

lemma validateField_None_iff:
  "validateField props f = None \<longleftrightarrow>
     (case option_get props f of
        JUndefined \<Rightarrow> True
      | JNum (Fin x) \<Rightarrow> 0 \<le> x
      | JNum PosInf \<Rightarrow> True
      | _ \<Rightarrow> False)"
  by (simp add: validateField_cases split: jsval.splits jsnum.splits)

lemma validateField_Some:
  assumes "validateField props f = Some e"
  shows "(e = TypeError (f @ '' must be a number.'') \<and>
            (typeof (option_get props f) \<noteq> ''number'' \<or> option_get props f = JNum NaN) \<and>
            option_get props f \<noteq> JUndefined)
       \<or> (e = RangeError (f @ '' must be non-negative.'') \<and>
            (option_get props f = JNum NegInf \<or>
             (\<exists>x. option_get props f = JNum (Fin x) \<and> x < 0)))"
  using assms
  by (auto simp: validateField_cases split: jsval.splits jsnum.splits if_splits)

lemma Math_max_Fin_lower:
  "case Math_max (Fin lo) (coalesce v d) of
     Fin x \<Rightarrow> (case coalesce v d of Fin y \<Rightarrow> x = max lo y | _ \<Rightarrow> True)
   | PosInf \<Rightarrow> coalesce v d = PosInf
   | NegInf \<Rightarrow> False
   | NaN \<Rightarrow> coalesce v d = NaN"
  by (cases "coalesce v d") simp_all

text \<open>
  Claim C8, as amended. The constructor accepts the numeric options
  (\<open>limit\<close>, \<open>deferInterval\<close>, \<open>expireTime\<close>, \<open>maxKeys\<close>,
  \<open>processingInterval\<close>, \<open>maxRetries\<close>, \<open>retryDelay\<close>) only when each one
  supplied is a number that is neither NaN nor negative: a finite number at
  least zero, or positive infinity. When the validation fails the
  constructor throws its error: a type error naming a field that is supplied
  and is not a number or is NaN, or a range error naming a field that is a
  negative number. Whenever some supplied field is not acceptable the
  constructor throws. The processing interval it sets is at least 10 ms, and
  is \<open>max(10, processingInterval)\<close> for a finite option.
\<close>

theorem C8_constructor_validation:
  shows "(\<forall>s. EventTracker_constructor opts = Inr s \<longrightarrow>
            (\<forall>f \<in> set numericFields.
               case option_get (opt_fields opts) f of
                 JUndefined \<Rightarrow> True
               | JNum (Fin x) \<Rightarrow> 0 \<le> x
               | JNum PosInf \<Rightarrow> True
               | _ \<Rightarrow> False) \<and>
            (case s_processingIntervalMs s of
               Fin x \<Rightarrow> 10 \<le> x
             | PosInf \<Rightarrow> True
             | _ \<Rightarrow> False) \<and>
            (\<forall>x. option_get (opt_fields opts) ''processingInterval'' = JNum (Fin x) \<longrightarrow>
                 s_processingIntervalMs s = Fin (max 10 x)))
       \<and> (\<forall>e. validateConfig (opt_fields opts) = Some e \<longrightarrow>
            EventTracker_constructor opts = Inl e \<and>
            (\<exists>f \<in> set numericFields.
               (e = TypeError (f @ '' must be a number.'') \<and>
                option_get (opt_fields opts) f \<noteq> JUndefined \<and>
                (typeof (option_get (opt_fields opts) f) \<noteq> ''number'' \<or>
                 option_get (opt_fields opts) f = JNum NaN))
             \<or> (e = RangeError (f @ '' must be non-negative.'') \<and>
                (option_get (opt_fields opts) f = JNum NegInf \<or>
                 (\<exists>x. option_get (opt_fields opts) f = JNum (Fin x) \<and> x < 0)))))
       \<and> ((\<exists>f \<in> set numericFields.
              case option_get (opt_fields opts) f of
                 JUndefined \<Rightarrow> False
               | JNum (Fin x) \<Rightarrow> x < 0
               | JNum PosInf \<Rightarrow> False
               | _ \<Rightarrow> True) \<longrightarrow>
            (\<exists>e. EventTracker_constructor opts = Inl e))"
proof (intro conjI allI impI)
  fix s
  assume ok: "EventTracker_constructor opts = Inr s"
  then have valid: "validateConfig (opt_fields opts) = None"
    by (auto simp: EventTracker_constructor_def split: option.splits)
  then show "\<forall>f \<in> set numericFields.
               case option_get (opt_fields opts) f of
                 JUndefined \<Rightarrow> True
               | JNum (Fin x) \<Rightarrow> 0 \<le> x
               | JNum PosInf \<Rightarrow> True
               | _ \<Rightarrow> False"
    by (simp only: validateConfig_def validateFields_None_iff validateField_None_iff)
  then have pi: "case option_get (opt_fields opts) ''processingInterval'' of
                 JUndefined \<Rightarrow> True
               | JNum (Fin x) \<Rightarrow> 0 \<le> x
               | JNum PosInf \<Rightarrow> True
               | _ \<Rightarrow> False"
    by (simp add: numericFields_def)
  have interval: "s_processingIntervalMs s =
      Math_max (Fin MIN_PROCESSING_INTERVAL_MS)
        (coalesce (option_get (opt_fields opts) ''processingInterval'')
           DEFAULT_PROCESSING_INTERVAL_MS)"
    using ok valid
    by (auto simp: EventTracker_constructor_def Let_def split: strategy_option.splits)
  show "case s_processingIntervalMs s of
               Fin x \<Rightarrow> 10 \<le> x
             | PosInf \<Rightarrow> True
             | _ \<Rightarrow> False"
    using pi unfolding interval
    by (auto simp: MIN_PROCESSING_INTERVAL_MS_def DEFAULT_PROCESSING_INTERVAL_MS_def
          split: jsval.splits jsnum.splits)
  fix x
  assume "option_get (opt_fields opts) ''processingInterval'' = JNum (Fin x)"
  then show "s_processingIntervalMs s = Fin (max 10 x)"
    unfolding interval by (simp add: MIN_PROCESSING_INTERVAL_MS_def)
next
  fix e
  assume bad: "validateConfig (opt_fields opts) = Some e"
  then show "EventTracker_constructor opts = Inl e"
    by (simp add: EventTracker_constructor_def)
  from bad obtain f where f: "f \<in> set numericFields"
    and vf: "validateField (opt_fields opts) f = Some e"
    unfolding validateConfig_def by (blast dest: validateFields_Some)
  from validateField_Some [OF vf] f
  show "\<exists>f \<in> set numericFields.
               (e = TypeError (f @ '' must be a number.'') \<and>
                option_get (opt_fields opts) f \<noteq> JUndefined \<and>
                (typeof (option_get (opt_fields opts) f) \<noteq> ''number'' \<or>
                 option_get (opt_fields opts) f = JNum NaN))
             \<or> (e = RangeError (f @ '' must be non-negative.'') \<and>
                (option_get (opt_fields opts) f = JNum NegInf \<or>
                 (\<exists>x. option_get (opt_fields opts) f = JNum (Fin x) \<and> x < 0)))"
    by blast
next
  assume "\<exists>f \<in> set numericFields.
              case option_get (opt_fields opts) f of
                 JUndefined \<Rightarrow> False
               | JNum (Fin x) \<Rightarrow> x < 0
               | JNum PosInf \<Rightarrow> False
               | _ \<Rightarrow> True"
  then obtain f where f: "f \<in> set numericFields"
    and bad: "case option_get (opt_fields opts) f of
                 JUndefined \<Rightarrow> False
               | JNum (Fin x) \<Rightarrow> x < 0
               | JNum PosInf \<Rightarrow> False
               | _ \<Rightarrow> True"
    by blast
  from bad have "validateField (opt_fields opts) f \<noteq> None"
    by (auto simp: validateField_None_iff split: jsval.splits jsnum.splits)
  with f have "validateConfig (opt_fields opts) \<noteq> None"
    unfolding validateConfig_def validateFields_None_iff by fastforce
  then obtain e where "validateConfig (opt_fields opts) = Some e"
    by auto
  then have "EventTracker_constructor opts = Inl e"
    by (simp add: EventTracker_constructor_def)
  then show "\<exists>e. EventTracker_constructor opts = Inl e" ..
qed

text \<open>
  Claim C8 as stated says the options are validated as finite numbers.
  Positive infinity passes: it is of type number, is not NaN and is not below
  zero. The constructor accepts \<open>{maxRetries: Infinity}\<close> and keeps it.
\<close>

theorem C8_counterexample:
  "EventTracker_constructor
     \<lparr>opt_fields = [(''maxRetries'', JNum PosInf)], opt_strategy = StrategyUnset\<rparr>
   = Inr \<lparr> s_limit = Fin 5,
           s_deferInterval = Fin 3600000,
           s_expireTime = Fin 86400000,
           s_maxKeys = Fin 0,
           s_strategy = SimpleCounterStrategy,
           s_processingIntervalMs = Fin 10000,
           s_maxRetries = PosInf,
           s_retryDelay = Fin 1000 \<rparr>"
  by (simp add: EventTracker_constructor_def validateConfig_def numericFields_def
        validateField_def option_get_def Let_def DEFAULT_LIMIT_def
        DEFAULT_DEFER_INTERVAL_MS_def DEFAULT_EXPIRE_TIME_MS_def
        DEFAULT_PROCESSING_INTERVAL_MS_def MIN_PROCESSING_INTERVAL_MS_def
        DEFAULT_MAX_RETRIES_def DEFAULT_RETRY_DELAY_MS_def)


theorem C8_constructor_validation_witness:
  "(\<exists>s. EventTracker_constructor
           \<lparr>opt_fields = [(''processingInterval'', JNum (Fin 0))],
            opt_strategy = StrategyUnset\<rparr> = Inr s \<and>
         s_processingIntervalMs s = Fin 10)
   \<and> EventTracker_constructor
        \<lparr>opt_fields = [(''limit'', JStr ''5'')], opt_strategy = StrategyUnset\<rparr>
       = Inl (TypeError ''limit must be a number.'')
   \<and> EventTracker_constructor
        \<lparr>opt_fields = [(''limit'', JNum (Fin (- 1)))], opt_strategy = StrategyUnset\<rparr>
       = Inl (RangeError ''limit must be non-negative.'')"
proof -
  let ?zero = "\<lparr>opt_fields = [(''processingInterval'', JNum (Fin 0))],
                opt_strategy = StrategyUnset\<rparr>"
  let ?str = "\<lparr>opt_fields = [(''limit'', JStr ''5'')], opt_strategy = StrategyUnset\<rparr>"
  let ?neg = "\<lparr>opt_fields = [(''limit'', JNum (Fin (- 1)))], opt_strategy = StrategyUnset\<rparr>"
  have "\<exists>s. EventTracker_constructor ?zero = Inr s"
    by (simp add: EventTracker_constructor_def validateConfig_def numericFields_def
          validateField_def option_get_def Let_def)
  then obtain s where s: "EventTracker_constructor ?zero = Inr s"
    by blast
  have get: "option_get (opt_fields ?zero) ''processingInterval'' = JNum (Fin 0)"
    by (simp add: option_get_def)
  from C8_constructor_validation [of ?zero] s get
  have clamp: "s_processingIntervalMs s = Fin (max 10 0)"
    by blast
  have vstr: "validateConfig (opt_fields ?str) = Some (TypeError ''limit must be a number.'')"
    by (simp add: validateConfig_def numericFields_def validateField_def option_get_def Let_def)
  have vneg: "validateConfig (opt_fields ?neg)
                = Some (RangeError ''limit must be non-negative.'')"
    by (simp add: validateConfig_def numericFields_def validateField_def option_get_def Let_def)
  from C8_constructor_validation [of ?str] vstr
  have estr: "EventTracker_constructor ?str = Inl (TypeError ''limit must be a number.'')"
    by blast
  from C8_constructor_validation [of ?neg] vneg
  have eneg: "EventTracker_constructor ?neg = Inl (RangeError ''limit must be non-negative.'')"
    by blast
  from s clamp estr eneg show ?thesis
    by simp
qed

section \<open>Validation of the identity\<close>


lemma generateCompositeKey_not_strings:
  assumes "typeof cat \<noteq> ''string'' \<or> typeof idt \<noteq> ''string''"
  shows "generateCompositeKey sha cat idt = Inl (TypeError ''category and id must be strings.'')"
  using assms by (simp add: generateCompositeKey_def)

lemma generateCompositeKey_empty:
  assumes "typeof cat = ''string''" "typeof idt = ''string''" "cat = JStr [] \<or> idt = JStr []"
  shows "generateCompositeKey sha cat idt = Inl (Error ''category and id cannot be empty.'')"
  using assms by (auto simp: generateCompositeKey_def)

lemma trackEvent_invalid_key:
  assumes "generateCompositeKey sha cat idt = Inl e"
  shows "trackEvent sha t cat idt dets now snow = Inl e"
  using assms by (simp add: trackEvent_def)

text \<open>
  Claim C9, as amended. A call of \<open>trackEvent\<close> in which category or id is
  not a string is rejected with the type error \<open>category and id must be
  strings\<close>. A call in which both are strings and one is empty is rejected
  with the plain error \<open>category and id cannot be empty\<close>. In both cases
  nothing is stored or published.
\<close>

theorem C9_identity_validation:
  "(typeof cat \<noteq> ''string'' \<or> typeof idt \<noteq> ''string'' \<longrightarrow>
      trackEvent sha t cat idt dets now snow =
        Inl (TypeError ''category and id must be strings.''))
   \<and> (typeof cat = ''string'' \<and> typeof idt = ''string'' \<and> (cat = JStr [] \<or> idt = JStr []) \<longrightarrow>
      trackEvent sha t cat idt dets now snow =
        Inl (Error ''category and id cannot be empty.''))"
  by (auto intro!: trackEvent_invalid_key generateCompositeKey_not_strings
        generateCompositeKey_empty)

theorem C9_identity_validation_witness:
  "trackEvent id (new_tracker scenario_config SimpleCounterStrategy 3 1000)
     JNull (JStr ''id'') EmptyDetails 0 0 = Inl (TypeError ''category and id must be strings.'')
   \<and> trackEvent id (new_tracker scenario_config SimpleCounterStrategy 3 1000)
     (JStr ''cat'') (JNum (Fin 123)) EmptyDetails 0 0
       = Inl (TypeError ''category and id must be strings.'')
   \<and> trackEvent id (new_tracker scenario_config SimpleCounterStrategy 3 1000)
     (JStr ''cat'') (JStr []) EmptyDetails 0 0 = Inl (Error ''category and id cannot be empty.'')"
  using C9_identity_validation
          [of JNull "JStr ''id''" id "new_tracker scenario_config SimpleCounterStrategy 3 1000"
              EmptyDetails 0 0]
        C9_identity_validation
          [of "JStr ''cat''" "JNum (Fin 123)" id
              "new_tracker scenario_config SimpleCounterStrategy 3 1000" EmptyDetails 0 0]
        C9_identity_validation
          [of "JStr ''cat''" "JStr []" id
              "new_tracker scenario_config SimpleCounterStrategy 3 1000" EmptyDetails 0 0]
  by simp

text \<open>
  Claim C9 as stated fails for an empty string: \<open>trackEvent('', 'login_fail')\<close>
  is rejected with an \<open>Error\<close>, not a \<open>TypeError\<close>.
\<close>

theorem C9_counterexample:
  "trackEvent id (new_tracker scenario_config SimpleCounterStrategy 3 1000)
     (JStr []) (JStr ''login_fail'') EmptyDetails 0 0
   = Inl (Error ''category and id cannot be empty.'')"
  by (simp add: trackEvent_def generateCompositeKey_def)

section \<open>The data of an ignored event\<close>


lemma trackEvent_ignored_data:
  fixes t :: "'s tracker"
  assumes key: "generateCompositeKey sha cat idt = Inr k"
    and track: "adapter_track (t_storage t) (t_store t) k
           \<lparr> ev_compositeKey = [], ev_category = the_string cat, ev_id = the_string idt,
             ev_details = dets, ev_detailsHash = generateDetailsHash sha dets \<rparr>
           (t_config t) (t_strategy t) now snow = Inr (res, store')"
    and ignored: "tr_outcome res = Ignored"
  shows "\<exists>r t'. trackEvent sha t cat idt dets now snow = Inr (r, t') \<and> te_type r = Ignored \<and>
           t_store t' = store' \<and>
           (tr_reason res = None \<longrightarrow>
              te_data r = tr_record res \<and> te_reason r = Some ''already_deferred'') \<and>
           (tr_reason res = Some ''key_limit_reached'' \<longrightarrow>
              te_data r = None \<and> te_reason r = Some ''key_limit_reached'')"
  using trackEvent_of_adapter [OF key track] ignored
  by auto

lemma mem_key_limit_event:
  fixes q :: "mem_adapter tracker"
  assumes mem: "t_storage q = InMemoryAdapter"
    and key: "generateCompositeKey sha cat idt = Inr k"
    and absent: "map_of (events (t_store q)) k = None"
    and lim: "maxKeys (t_config q) > 0"
    and full: "of_nat (length (events (t_store q))) \<ge> maxKeys (t_config q)"
  shows "\<exists>q'. trackEvent sha q cat idt dets now snow =
            Inr (\<lparr>te_type = Ignored, te_data = None,
                   te_reason = Some ''key_limit_reached''\<rparr>, q')
          \<and> t_store q' = t_store q"
proof -
  have "adapter_track (t_storage q) (t_store q) k
           \<lparr> ev_compositeKey = [], ev_category = the_string cat, ev_id = the_string idt,
             ev_details = dets, ev_detailsHash = generateDetailsHash sha dets \<rparr>
           (t_config q) (t_strategy q) now snow
        = Inr (\<lparr>tr_outcome = Ignored, tr_record = None,
                 tr_reason = Some ''key_limit_reached''\<rparr>, t_store q)"
    using mem_track_key_limit [OF absent lim full] by (simp add: mem InMemoryAdapter_def)
  from trackEvent_of_adapter [OF key this] show ?thesis
    by simp
qed

text \<open>
  Claim C10. When the adapter answers \<open>ignored\<close>, \<open>trackEvent\<close> returns type
  ignored and its \<open>data\<close> depends on the cause. With no reason from the
  adapter the reason is \<open>already_deferred\<close> and \<open>data\<close> is the record the
  adapter returned; with reason \<open>key_limit_reached\<close>, \<open>data\<close> is null. This
  holds over any adapter. On the in-process adapter with the simple counter,
  an event on a deferred, fresh record returns as \<open>data\<close> the stored record
  with \<open>expiresAt\<close> refreshed to the strategy's clock reading plus
  \<open>expireTime\<close>; an event refused for the key limit returns null and leaves
  the store as it was.
\<close>

theorem C10_ignored_data:
  fixes t :: "'s tracker" and m q :: "mem_adapter tracker"
  assumes key: "generateCompositeKey sha cat idt = Inr k"
    and track: "adapter_track (t_storage t) (t_store t) k
           \<lparr> ev_compositeKey = [], ev_category = the_string cat, ev_id = the_string idt,
             ev_details = dets, ev_detailsHash = generateDetailsHash sha dets \<rparr>
           (t_config t) (t_strategy t) now snow = Inr (res, store')"
    and ignored: "tr_outcome res = Ignored"
    and mem: "t_storage m = InMemoryAdapter" "t_strategy m = SimpleCounterStrategy"
    and stored: "map_of (events (t_store m)) k = Some r0" "deferred r0" "\<not> now > expiresAt r0"
      "detailsHash r0 = generateDetailsHash sha dets"
    and qmem: "t_storage q = InMemoryAdapter"
    and absent: "map_of (events (t_store q)) k = None"
    and lim: "maxKeys (t_config q) > 0"
    and full: "of_nat (length (events (t_store q))) \<ge> maxKeys (t_config q)"
  shows "(\<exists>r t'. trackEvent sha t cat idt dets now snow = Inr (r, t') \<and> te_type r = Ignored \<and>
           t_store t' = store' \<and>
           (tr_reason res = None \<longrightarrow>
              te_data r = tr_record res \<and> te_reason r = Some ''already_deferred'') \<and>
           (tr_reason res = Some ''key_limit_reached'' \<longrightarrow>
              te_data r = None \<and> te_reason r = Some ''key_limit_reached''))
       \<and> (\<exists>m'. trackEvent sha m cat idt dets now snow =
            Inr (\<lparr>te_type = Ignored,
                   te_data = Some (r0\<lparr>expiresAt := snow + expireTime (t_config m)\<rparr>),
                   te_reason = Some ''already_deferred''\<rparr>, m')
          \<and> map_of (events (t_store m')) k
              = Some (r0\<lparr>expiresAt := snow + expireTime (t_config m)\<rparr>))
       \<and> (\<exists>q'. trackEvent sha q cat idt dets now snow =
            Inr (\<lparr>te_type = Ignored, te_data = None,
                   te_reason = Some ''key_limit_reached''\<rparr>, q')
          \<and> t_store q' = t_store q)"
  using trackEvent_ignored_data [OF key track ignored]
    mem_already_deferred [OF mem key stored]
    mem_key_limit_event [OF qmem key absent lim full]
  by (intro conjI)


theorem C10_ignored_data_witness:
  "(\<exists>r t'. trackEvent id deferred_mem_tracker (JStr ''auth'') (JStr ''login_fail'')
              EmptyDetails 30 31 = Inr (r, t') \<and>
            te_type r = Ignored \<and> te_reason r = Some ''already_deferred'' \<and>
            te_data r = Some (deferred_record\<lparr>expiresAt := 231\<rparr>) \<and>
            map_of (events (t_store t')) ''auth:login_fail''
              = Some (deferred_record\<lparr>expiresAt := 231\<rparr>))
   \<and> (\<exists>r q'. trackEvent id
              ((new_tracker (scenario_config\<lparr>maxKeys := 1\<rparr>) SimpleCounterStrategy 3 1000)
                 \<lparr>t_store := \<lparr>events = [(''api:u1'', bucket_record)], deferredKeys = []\<rparr>\<rparr>)
              (JStr ''auth'') (JStr ''login_fail'') EmptyDetails 30 31 = Inr (r, q') \<and>
            te_type r = Ignored \<and> te_reason r = Some ''key_limit_reached'' \<and>
            te_data r = None \<and>
            t_store q' = \<lparr>events = [(''api:u1'', bucket_record)], deferredKeys = []\<rparr>)"
proof -
  have "(\<exists>r t'. trackEvent id deferred_mem_tracker (JStr ''auth'') (JStr ''login_fail'')
                  EmptyDetails 30 31 = Inr (r, t') \<and> te_type r = Ignored \<and>
           t_store t' = \<lparr>events = [(''auth:login_fail'', deferred_record\<lparr>expiresAt := 231\<rparr>)],
                          deferredKeys = [''auth:login_fail'']\<rparr> \<and>
           (tr_reason \<lparr>tr_outcome = Ignored,
                       tr_record = Some (deferred_record\<lparr>expiresAt := 231\<rparr>),
                       tr_reason = None\<rparr> = None \<longrightarrow>
              te_data r = tr_record \<lparr>tr_outcome = Ignored,
                       tr_record = Some (deferred_record\<lparr>expiresAt := 231\<rparr>),
                       tr_reason = None\<rparr> \<and> te_reason r = Some ''already_deferred'') \<and>
           (tr_reason \<lparr>tr_outcome = Ignored,
                       tr_record = Some (deferred_record\<lparr>expiresAt := 231\<rparr>),
                       tr_reason = None\<rparr> = Some ''key_limit_reached'' \<longrightarrow>
              te_data r = None \<and> te_reason r = Some ''key_limit_reached''))
       \<and> (\<exists>m'. trackEvent id deferred_mem_tracker (JStr ''auth'') (JStr ''login_fail'')
                  EmptyDetails 30 31 =
            Inr (\<lparr>te_type = Ignored,
                   te_data = Some (deferred_record
                     \<lparr>expiresAt := 31 + expireTime (t_config deferred_mem_tracker)\<rparr>),
                   te_reason = Some ''already_deferred''\<rparr>, m')
          \<and> map_of (events (t_store m')) ''auth:login_fail''
              = Some (deferred_record
                        \<lparr>expiresAt := 31 + expireTime (t_config deferred_mem_tracker)\<rparr>))
       \<and> (\<exists>q'. trackEvent id
                  ((new_tracker (scenario_config\<lparr>maxKeys := 1\<rparr>) SimpleCounterStrategy 3 1000)
                     \<lparr>t_store := \<lparr>events = [(''api:u1'', bucket_record)], deferredKeys = []\<rparr>\<rparr>)
                  (JStr ''auth'') (JStr ''login_fail'') EmptyDetails 30 31 =
            Inr (\<lparr>te_type = Ignored, te_data = None,
                   te_reason = Some ''key_limit_reached''\<rparr>, q')
          \<and> t_store q' =
              t_store ((new_tracker (scenario_config\<lparr>maxKeys := 1\<rparr>) SimpleCounterStrategy 3 1000)
                     \<lparr>t_store := \<lparr>events = [(''api:u1'', bucket_record)], deferredKeys = []\<rparr>\<rparr>))"
    by (rule C10_ignored_data [where k = "''auth:login_fail''"])
       (simp_all add: generateCompositeKey_def deferred_mem_tracker_def new_tracker_def
          InMemoryAdapter_def InMemoryAdapter_track_def mem_fresh_record_def
          simple_track_deferred deferred_record_def scenario_config_def set_add_def)
  then obtain m' q' where
    m': "trackEvent id deferred_mem_tracker (JStr ''auth'') (JStr ''login_fail'')
           EmptyDetails 30 31 =
         Inr (\<lparr>te_type = Ignored,
                te_data = Some (deferred_record
                  \<lparr>expiresAt := 31 + expireTime (t_config deferred_mem_tracker)\<rparr>),
                te_reason = Some ''already_deferred''\<rparr>, m')"
    "map_of (events (t_store m')) ''auth:login_fail''
       = Some (deferred_record
                 \<lparr>expiresAt := 31 + expireTime (t_config deferred_mem_tracker)\<rparr>)"
    and q': "trackEvent id
              ((new_tracker (scenario_config\<lparr>maxKeys := 1\<rparr>) SimpleCounterStrategy 3 1000)
                 \<lparr>t_store := \<lparr>events = [(''api:u1'', bucket_record)], deferredKeys = []\<rparr>\<rparr>)
              (JStr ''auth'') (JStr ''login_fail'') EmptyDetails 30 31 =
            Inr (\<lparr>te_type = Ignored, te_data = None,
                   te_reason = Some ''key_limit_reached''\<rparr>, q')"
    "t_store q' =
       t_store ((new_tracker (scenario_config\<lparr>maxKeys := 1\<rparr>) SimpleCounterStrategy 3 1000)
                  \<lparr>t_store := \<lparr>events = [(''api:u1'', bucket_record)], deferredKeys = []\<rparr>\<rparr>)"
    by blast
  have exp: "31 + expireTime (t_config deferred_mem_tracker) = 231"
    by (simp add: deferred_mem_tracker_def new_tracker_def scenario_config_def)
  from m' q' show ?thesis
    unfolding exp by simp
qed

end
